theory Spec2Isabelle
  imports Complex_Main "HOL-Library.Word" "HOL-Library.Sublist"
begin

section \<open>Go values used by the bot\<close>

text \<open>
  User and chat identifiers are Go \<open>int64\<close> values; they are only stored and compared.
  A Go \<open>string\<close> is a sequence of bytes, and \<open>len\<close> counts bytes, so a string is a
  \<open>char list\<close>.  Points in time are nanosecond counts; a \<open>time.Duration\<close> is an
  \<open>int64\<close> number of nanoseconds.
\<close>

type_synonym int64 = "64 word"
type_synonym time = int
type_synonym duration = int

text \<open>
  What ends the process: a runtime fatal error (thrown by the Go runtime, cannot be
  recovered), a panic (nothing in the repository recovers one), or a goroutine that blocks
  on a lock it can never get.
\<close>

datatype fault = Fatal string | Panic string | Deadlock

definition bindF :: "fault + 'a \<Rightarrow> ('a \<Rightarrow> fault + 'b) \<Rightarrow> fault + 'b" where
  "bindF r f = (case r of Inl e \<Rightarrow> Inl e | Inr x \<Rightarrow> f x)"

definition maxInt64 :: int where
  "maxInt64 = 9223372036854775807"

definition minInt64 :: int where
  "minInt64 = - 9223372036854775808"

text \<open>Go \<open>int\<close> arithmetic on a 64-bit platform wraps around in two's complement.\<close>

definition wrap64 :: "int \<Rightarrow> int" where
  "wrap64 n = (n + 9223372036854775808) mod 18446744073709551616 - 9223372036854775808"

text \<open>\<open>Time.Sub\<close> saturates at the largest and smallest duration; \<open>time.Since(t)\<close> is
  \<open>time.Now().Sub(t)\<close>.\<close>

definition time_Sub :: "time \<Rightarrow> time \<Rightarrow> duration" where
  "time_Sub t u =
     (let d = t - u in
      if d > maxInt64 then maxInt64 else if d < minInt64 then minInt64 else d)"

definition time_Since :: "time \<Rightarrow> time \<Rightarrow> duration" where
  "time_Since now t = time_Sub now t"

definition Second :: duration where
  "Second = 1000000000"

definition Minute :: duration where
  "Minute = 60 * Second"

subsection \<open>Strings\<close>

definition NL :: string where
  "NL = [CHR 0x0A]"

definition HasPrefix :: "string \<Rightarrow> string \<Rightarrow> bool" where
  "HasPrefix s p = (take (length p) s = p)"

definition TrimPrefix :: "string \<Rightarrow> string \<Rightarrow> string" where
  "TrimPrefix s p = (if HasPrefix s p then drop (length p) s else s)"

fun Join :: "string list \<Rightarrow> string \<Rightarrow> string" where
  "Join [] sep = []"
| "Join [x] sep = x"
| "Join (x # y # ys) sep = x @ sep @ Join (y # ys) sep"

text \<open>\<open>strings.SplitN(s, "=", 2)\<close>: cut at the first \<open>=\<close>, if there is one.\<close>

fun SplitN2 :: "string \<Rightarrow> string list" where
  "SplitN2 s =
     (if CHR ''='' \<in> set s
      then [takeWhile (\<lambda>c. c \<noteq> CHR ''='') s, drop 1 (dropWhile (\<lambda>c. c \<noteq> CHR ''='') s)]
      else [s])"

text \<open>The verb \<open>%d\<close> of \<open>fmt.Sprintf\<close>: decimal digits, with a minus sign below zero.\<close>

definition digit :: "nat \<Rightarrow> char" where
  "digit d = ''0123456789'' ! d"

function utoa :: "nat \<Rightarrow> string" where
  "utoa n = (if n < 10 then [digit n] else utoa (n div 10) @ [digit (n mod 10)])"
  by pat_completeness auto
termination
  by (relation "measure id") auto

definition itoa :: "int \<Rightarrow> string" where
  "itoa i = (if i < 0 then CHR ''-'' # utoa (nat (- i)) else utoa (nat i))"

text \<open>A Go map read: the zero value when the key is absent.\<close>

definition lookupStr :: "(string \<rightharpoonup> string) \<Rightarrow> string \<Rightarrow> string" where
  "lookupStr m k = (case m k of None \<Rightarrow> [] | Some v \<Rightarrow> v)"

subsection \<open>UTF-8 and the strings of \<open>encoding/json\<close>\<close>

text \<open>
  \<open>utf8.DecodeRuneInString\<close>, as far as the encoder uses it: the width of the
  well-formed UTF-8 sequence at the start of the string, or \<open>None\<close> where the
  function returns \<open>RuneError\<close> with width 1 (on the empty string: width 0).
  \<open>runeSize\<close> is the length that the first byte announces (0 for a byte that cannot
  start a sequence), \<open>accepted\<close> the range of the second byte, which is narrower
  after \<open>E0\<close>, \<open>ED\<close>, \<open>F0\<close> and \<open>F4\<close>.
\<close>

definition byte :: "char \<Rightarrow> nat" where
  "byte c = of_char c"

definition continuation :: "char \<Rightarrow> bool" where
  "continuation c = (0x80 \<le> byte c \<and> byte c \<le> 0xBF)"

definition runeSize :: "nat \<Rightarrow> nat" where
  "runeSize x =
     (if x < 0x80 then 1
      else if x < 0xC2 \<or> 0xF4 < x then 0
      else if x < 0xE0 then 2
      else if x < 0xF0 then 3
      else 4)"

definition accepted :: "nat \<Rightarrow> char \<Rightarrow> bool" where
  "accepted x c =
     ((if x = 0xE0 then 0xA0 else if x = 0xF0 then 0x90 else 0x80) \<le> byte c
      \<and> byte c \<le> (if x = 0xED then 0x9F else if x = 0xF4 then 0x8F else 0xBF))"

definition DecodeRuneInString :: "string \<Rightarrow> nat option" where
  "DecodeRuneInString s =
     (case s of
        [] \<Rightarrow> None
      | c # cs \<Rightarrow>
          let sz = runeSize (byte c) in
          if sz = 0 then None
          else if sz = 1 then Some 1
          else if length s < sz then None
          else if \<not> accepted (byte c) (cs ! 0) then None
          else if sz = 2 then Some 2
          else if \<not> continuation (cs ! 1) then None
          else if sz = 3 then Some 3
          else if \<not> continuation (cs ! 2) then None
          else Some 4)"

text \<open>
  \<open>utf8.ValidString\<close>: the string is a sequence of well-formed encodings.  The first
  argument of \<open>validFrom\<close> counts the bytes that remain of the encoding under way.
\<close>

fun validFrom :: "nat \<Rightarrow> string \<Rightarrow> bool" where
  "validFrom k [] = True"
| "validFrom k (c # cs) =
     (if 0 < k then validFrom (k - 1) cs
      else case DecodeRuneInString (c # cs) of
             None \<Rightarrow> False
           | Some n \<Rightarrow> validFrom (n - 1) cs)"

definition ValidString :: "string \<Rightarrow> bool" where
  "ValidString s = validFrom 0 s"

text \<open>
  What \<open>json.Marshal\<close> makes of a Go string.  The encoder walks over the string with
  \<open>DecodeRuneInString\<close>; a byte that starts no well-formed encoding is written as
  the escape of U+FFFD and the walk goes on at the next byte; every other character is written as
  it is or as an escape that stands for it.  So the string that the JSON text carries, and
  that the receiver reads, is the Go string with each such byte replaced by the three bytes
  of U+FFFD.
\<close>

definition replacementChar :: string where
  "replacementChar = [CHR 0xEF, CHR 0xBF, CHR 0xBD]"

fun coerceFrom :: "nat \<Rightarrow> string \<Rightarrow> string" where
  "coerceFrom k [] = []"
| "coerceFrom k (c # cs) =
     (if 0 < k then c # coerceFrom (k - 1) cs
      else case DecodeRuneInString (c # cs) of
             None \<Rightarrow> replacementChar @ coerceFrom 0 cs
           | Some n \<Rightarrow> c # coerceFrom (n - 1) cs)"

definition jsonString :: "string \<Rightarrow> string" where
  "jsonString s = coerceFrom 0 s"

subsection \<open>\<open>sync.RWMutex\<close>, as one goroutine sees it\<close>

text \<open>
  The dispatcher handles updates one after the other in a single goroutine, so a lock is
  described by the number of read locks held and whether the write lock is held.
  Acquiring a lock that cannot be granted blocks for ever; \<open>RUnlock\<close> with no read lock
  held and \<open>Unlock\<close> with no write lock held are fatal errors of the runtime
  (the \<open>sync\<close> documentation: "It is a run-time error if rw is not locked for reading
  on entry to RUnlock").
\<close>

record RWMutex =
  readers :: nat
  writer :: bool

definition newRWMutex :: RWMutex where
  "newRWMutex = \<lparr>readers = 0, writer = False\<rparr>"

definition RLock :: "RWMutex \<Rightarrow> fault + RWMutex" where
  "RLock mu = (if writer mu then Inl Deadlock else Inr (mu\<lparr>readers := Suc (readers mu)\<rparr>))"

definition RUnlock :: "RWMutex \<Rightarrow> fault + RWMutex" where
  "RUnlock mu =
     (if readers mu = 0 then Inl (Fatal ''sync: RUnlock of unlocked RWMutex'')
      else Inr (mu\<lparr>readers := readers mu - 1\<rparr>))"

definition Lock :: "RWMutex \<Rightarrow> fault + RWMutex" where
  "Lock mu =
     (if writer mu \<or> readers mu > 0 then Inl Deadlock else Inr (mu\<lparr>writer := True\<rparr>))"

definition Unlock :: "RWMutex \<Rightarrow> fault + RWMutex" where
  "Unlock mu =
     (if \<not> writer mu then Inl (Fatal ''sync: Unlock of unlocked RWMutex'')
      else Inr (mu\<lparr>writer := False\<rparr>))"

section \<open>Package wizard\<close>

text \<open>
  \<open>ContentType\<close> is a string type; any string can be converted to it.  The lock of a
  \<open>Wizard\<close> is taken and released in pairs by every method (\<open>Lock\<close> with a deferred
  \<open>Unlock\<close>, \<open>RLock\<close> with a deferred \<open>RUnlock\<close>) and is left out of the record.
\<close>

type_synonym ContentType = string

record Wizard =
  UserID :: int64
  ContentType :: ContentType
  Answers :: "string \<rightharpoonup> string"
  Step :: int
  StartedAt :: time

record WizardStep =
  Key :: string
  Question :: string

definition mkStep :: "string \<Rightarrow> string \<Rightarrow> WizardStep" where
  "mkStep k q = \<lparr>Key = k, Question = q\<rparr>"

definition GetMarketingSteps :: "WizardStep list" where
  "GetMarketingSteps =
    [mkStep ''website_name'' ''What is the name of your website or business?'',
     mkStep ''website_url'' ''What is the URL of your website?'',
     mkStep ''target_audience''
       ''Who is your target audience? (e.g., small business owners, tech enthusiasts)'',
     mkStep ''key_benefits'' ''What are the key benefits or features of your product/service?'',
     mkStep ''tone''
       ''What tone would you like? (e.g., professional, friendly, urgent, humorous)'',
     mkStep ''length'' ''What length would you like? (short/medium/long)'',
     mkStep ''topic'' ''What specific topic or angle should the marketing copy focus on?'',
     mkStep ''cta''
       ''What call-to-action should be included? (e.g., Sign up now, Learn more, Contact us)'']"

definition GetEmailSteps :: "WizardStep list" where
  "GetEmailSteps =
    [mkStep ''subject'' ''What is the subject line of the email?'',
     mkStep ''recipient'' ''Who is the recipient? (e.g., potential customers, existing clients)'',
     mkStep ''purpose''
       ''What is the purpose of this email? (e.g., newsletter, promotion, announcement)'',
     mkStep ''tone'' ''What tone would you like? (e.g., formal, casual, friendly)'',
     mkStep ''key_message'' ''What is the key message or offer you want to convey?'',
     mkStep ''cta'' ''What action should the recipient take? (e.g., Click here, Reply, Visit)'']"

definition GetReportSteps :: "WizardStep list" where
  "GetReportSteps =
    [mkStep ''title'' ''What is the title of the report?'',
     mkStep ''audience'' ''Who is the target audience for this report?'',
     mkStep ''topic'' ''What is the main topic or subject of the report?'',
     mkStep ''scope''
       ''What is the scope of the report? (e.g., industry analysis, market research)'',
     mkStep ''key_points'' ''What are the key points or findings to include?'',
     mkStep ''length'' ''What length would you like? (brief/medium/comprehensive)'',
     mkStep ''format''
       ''What format would you prefer? (e.g., executive summary, detailed analysis)'']"

definition GetScriptSteps :: "WizardStep list" where
  "GetScriptSteps =
    [mkStep ''type'' ''What type of script? (e.g., video, podcast, advertisement)'',
     mkStep ''topic'' ''What is the main topic or subject?'',
     mkStep ''duration'' ''What is the desired duration? (e.g., 30 seconds, 5 minutes)'',
     mkStep ''audience'' ''Who is the target audience?'',
     mkStep ''tone'' ''What tone would you like? (e.g., serious, humorous, inspirational)'',
     mkStep ''key_message'' ''What is the key message to convey?'',
     mkStep ''cta'' ''What call-to-action should be included?'']"

definition GetWhitepaperSteps :: "WizardStep list" where
  "GetWhitepaperSteps =
    [mkStep ''title'' ''What is the title of the whitepaper?'',
     mkStep ''topic'' ''What is the main topic or research question?'',
     mkStep ''audience'' ''Who is the target audience?'',
     mkStep ''problem'' ''What problem or challenge does it address?'',
     mkStep ''solution'' ''What is the proposed solution or findings?'',
     mkStep ''length'' ''What length would you like? (short/medium/long)'',
     mkStep ''tone'' ''What tone would you like? (e.g., academic, professional, accessible)'']"

definition GetStorySteps :: "WizardStep list" where
  "GetStorySteps =
    [mkStep ''genre'' ''What genre? (e.g., sci-fi, fantasy, romance, mystery, literary)'',
     mkStep ''premise'' ''What is the premise or plot idea?'',
     mkStep ''characters'' ''Describe the main characters (optional):'',
     mkStep ''setting''
       ''What is the setting? (e.g., modern city, medieval kingdom, space station)'',
     mkStep ''tone'' ''What tone? (e.g., dark, uplifting, suspenseful, humorous)'',
     mkStep ''length'' ''What length? (short story/novella/novel excerpt)'']"

definition GetPoemSteps :: "WizardStep list" where
  "GetPoemSteps =
    [mkStep ''style''
       ''What style of poem? (e.g., haiku, sonnet, free verse, limerick, ballad)'',
     mkStep ''topic'' ''What is the topic or theme?'',
     mkStep ''mood'' ''What mood? (e.g., melancholy, joyful, reflective, romantic)'',
     mkStep ''length'' ''How many lines? (e.g., 4, 8, 16, 32)'',
     mkStep ''structure'' ''Any specific structure or rhyming scheme? (optional)'']"

text \<open>
  \<open>GetSteps\<close> returns \<open>nil\<close> in the default branch.  Each of the seven step lists is
  non-empty, so the tests \<open>steps == nil\<close> of the callers are tests for the empty list.
\<close>

definition GetSteps :: "ContentType \<Rightarrow> WizardStep list" where
  "GetSteps contentType =
     (if contentType = ''marketing'' then GetMarketingSteps
      else if contentType = ''email'' then GetEmailSteps
      else if contentType = ''report'' then GetReportSteps
      else if contentType = ''script'' then GetScriptSteps
      else if contentType = ''whitepaper'' then GetWhitepaperSteps
      else if contentType = ''story'' then GetStorySteps
      else if contentType = ''poem'' then GetPoemSteps
      else [])"

definition SetAnswer :: "string \<Rightarrow> string \<Rightarrow> Wizard \<Rightarrow> Wizard" where
  "SetAnswer k v w = w\<lparr>Answers := (Answers w)(k \<mapsto> v), Step := wrap64 (Step w + 1)\<rparr>"

definition GetAnswer :: "Wizard \<Rightarrow> string \<Rightarrow> string" where
  "GetAnswer w k = lookupStr (Answers w) k"

definition GetStep :: "Wizard \<Rightarrow> int" where
  "GetStep w = Step w"

definition GetAnswers :: "Wizard \<Rightarrow> (string \<rightharpoonup> string)" where
  "GetAnswers w = Answers w"

definition GetProgress :: "Wizard \<Rightarrow> string" where
  "GetProgress w =
     (let steps = GetSteps (ContentType w) in
      if steps = [] then []
      else ''(Step '' @ itoa (wrap64 (GetStep w + 1)) @ '' of '' @ itoa (int (length steps)) @ '')'')"

text \<open>Indexing a slice with a negative number panics.\<close>

definition GetCurrentQuestion :: "Wizard \<Rightarrow> fault + string" where
  "GetCurrentQuestion w =
     (let steps = GetSteps (ContentType w) in
      if steps = [] then Inr []
      else let step = GetStep w in
        if step \<ge> int (length steps) then Inr []
        else if step < 0 then Inl (Panic ''index out of range'')
        else Inr (Question (steps ! nat step)))"

definition GetCurrentKey :: "Wizard \<Rightarrow> fault + string" where
  "GetCurrentKey w =
     (let steps = GetSteps (ContentType w) in
      if steps = [] then Inr []
      else let step = GetStep w in
        if step \<ge> int (length steps) then Inr []
        else if step < 0 then Inl (Panic ''index out of range'')
        else Inr (Key (steps ! nat step)))"

definition IsComplete :: "Wizard \<Rightarrow> bool" where
  "IsComplete w =
     (let steps = GetSteps (ContentType w) in
      if steps = [] then True else GetStep w \<ge> int (length steps))"

definition buildMarketingPrompt :: "(string \<rightharpoonup> string) \<Rightarrow> string" where
  "buildMarketingPrompt answers =
     ''Create marketing copy with the following details:'' @ NL @ NL @
     ''Website/Business: '' @ lookupStr answers ''website_name'' @ NL @
     ''URL: '' @ lookupStr answers ''website_url'' @ NL @
     ''Target Audience: '' @ lookupStr answers ''target_audience'' @ NL @
     ''Key Benefits: '' @ lookupStr answers ''key_benefits'' @ NL @
     ''Tone: '' @ lookupStr answers ''tone'' @ NL @
     ''Length: '' @ lookupStr answers ''length'' @ NL @
     ''Topic/Angle: '' @ lookupStr answers ''topic'' @ NL @
     ''Call-to-Action: '' @ lookupStr answers ''cta'' @ NL @ NL @
     ''Please create compelling marketing copy that incorporates all these elements.''"

definition buildEmailPrompt :: "(string \<rightharpoonup> string) \<Rightarrow> string" where
  "buildEmailPrompt answers =
     ''Write an email with the following details:'' @ NL @ NL @
     ''Subject: '' @ lookupStr answers ''subject'' @ NL @
     ''Recipient: '' @ lookupStr answers ''recipient'' @ NL @
     ''Purpose: '' @ lookupStr answers ''purpose'' @ NL @
     ''Tone: '' @ lookupStr answers ''tone'' @ NL @
     ''Key Message: '' @ lookupStr answers ''key_message'' @ NL @
     ''Call-to-Action: '' @ lookupStr answers ''cta'' @ NL @ NL @
     ''Please create a complete email incorporating all these elements.''"

definition buildReportPrompt :: "(string \<rightharpoonup> string) \<Rightarrow> string" where
  "buildReportPrompt answers =
     ''Create a report with the following details:'' @ NL @ NL @
     ''Title: '' @ lookupStr answers ''title'' @ NL @
     ''Target Audience: '' @ lookupStr answers ''audience'' @ NL @
     ''Topic: '' @ lookupStr answers ''topic'' @ NL @
     ''Scope: '' @ lookupStr answers ''scope'' @ NL @
     ''Key Points: '' @ lookupStr answers ''key_points'' @ NL @
     ''Length: '' @ lookupStr answers ''length'' @ NL @
     ''Format: '' @ lookupStr answers ''format'' @ NL @ NL @
     ''Please create a comprehensive report incorporating all these elements.''"

definition buildScriptPrompt :: "(string \<rightharpoonup> string) \<Rightarrow> string" where
  "buildScriptPrompt answers =
     ''Write a script with the following details:'' @ NL @ NL @
     ''Type: '' @ lookupStr answers ''type'' @ NL @
     ''Topic: '' @ lookupStr answers ''topic'' @ NL @
     ''Duration: '' @ lookupStr answers ''duration'' @ NL @
     ''Target Audience: '' @ lookupStr answers ''audience'' @ NL @
     ''Tone: '' @ lookupStr answers ''tone'' @ NL @
     ''Key Message: '' @ lookupStr answers ''key_message'' @ NL @
     ''Call-to-Action: '' @ lookupStr answers ''cta'' @ NL @ NL @
     ''Please create a complete script incorporating all these elements.''"

definition buildWhitepaperPrompt :: "(string \<rightharpoonup> string) \<Rightarrow> string" where
  "buildWhitepaperPrompt answers =
     ''Create a whitepaper with the following details:'' @ NL @ NL @
     ''Title: '' @ lookupStr answers ''title'' @ NL @
     ''Topic: '' @ lookupStr answers ''topic'' @ NL @
     ''Target Audience: '' @ lookupStr answers ''audience'' @ NL @
     ''Problem/Challenge: '' @ lookupStr answers ''problem'' @ NL @
     ''Solution/Findings: '' @ lookupStr answers ''solution'' @ NL @
     ''Length: '' @ lookupStr answers ''length'' @ NL @
     ''Tone: '' @ lookupStr answers ''tone'' @ NL @ NL @
     ''Please create a comprehensive whitepaper incorporating all these elements.''"

definition buildStoryPrompt :: "(string \<rightharpoonup> string) \<Rightarrow> string" where
  "buildStoryPrompt answers =
     ''Write a story with the following details:'' @ NL @ NL @
     ''Genre: '' @ lookupStr answers ''genre'' @ NL @
     ''Premise: '' @ lookupStr answers ''premise'' @ NL @
     ''Characters: '' @ lookupStr answers ''characters'' @ NL @
     ''Setting: '' @ lookupStr answers ''setting'' @ NL @
     ''Tone: '' @ lookupStr answers ''tone'' @ NL @
     ''Length: '' @ lookupStr answers ''length'' @ NL @ NL @
     ''Please create an engaging story incorporating all these elements.''"

definition buildPoemPrompt :: "(string \<rightharpoonup> string) \<Rightarrow> string" where
  "buildPoemPrompt answers =
     ''Write a poem with the following details:'' @ NL @ NL @
     ''Style: '' @ lookupStr answers ''style'' @ NL @
     ''Topic: '' @ lookupStr answers ''topic'' @ NL @
     ''Mood: '' @ lookupStr answers ''mood'' @ NL @
     ''Length: '' @ lookupStr answers ''length'' @ '' lines'' @ NL @
     ''Structure: '' @ lookupStr answers ''structure'' @ NL @ NL @
     ''Please create a poem incorporating all these elements.''"

definition BuildPrompt :: "Wizard \<Rightarrow> string" where
  "BuildPrompt w =
     (let answers = GetAnswers w in
      if ContentType w = ''marketing'' then buildMarketingPrompt answers
      else if ContentType w = ''email'' then buildEmailPrompt answers
      else if ContentType w = ''report'' then buildReportPrompt answers
      else if ContentType w = ''script'' then buildScriptPrompt answers
      else if ContentType w = ''whitepaper'' then buildWhitepaperPrompt answers
      else if ContentType w = ''story'' then buildStoryPrompt answers
      else if ContentType w = ''poem'' then buildPoemPrompt answers
      else [])"

text \<open>The wizard that \<open>StartWizard\<close> allocates: no answers, step 0, started now.\<close>

definition newWizard :: "int64 \<Rightarrow> ContentType \<Rightarrow> time \<Rightarrow> Wizard" where
  "newWizard userID contentType now =
     \<lparr>UserID = userID, ContentType = contentType, Answers = Map.empty, Step = 0,
      StartedAt = now\<rparr>"

section \<open>Memory and the outside world\<close>

text \<open>
  Messages of the completion API.  \<open>Name\<close> is never set by the bot.
\<close>

record Message =
  Role :: string
  Content :: string
  Name :: string

definition zeroMessage :: Message where
  "zeroMessage = \<lparr>Role = [], Content = [], Name = []\<rparr>"

definition mkMessage :: "string \<Rightarrow> string \<Rightarrow> Message" where
  "mkMessage role content = \<lparr>Role = role, Content = content, Name = []\<rparr>"

text \<open>
  A \<open>float64\<close>: a finite value (always a rational number), an infinity or NaN.  The only
  operation the client applies is the comparison \<open>> 0\<close>, which is false for NaN.
\<close>

datatype float64 = Finite rat | PosInf | NegInf | NaN

definition f64_pos :: "float64 \<Rightarrow> bool" where
  "f64_pos x = (case x of Finite q \<Rightarrow> q > 0 | PosInf \<Rightarrow> True | NegInf \<Rightarrow> False | NaN \<Rightarrow> False)"

text \<open>The constant \<open>0.7\<close> as a \<open>float64\<close> is the nearest double, 3152519739159347 / 2^52.\<close>

definition f64_0_7 :: float64 where
  "f64_0_7 = Finite (3152519739159347 / 4503599627370496)"

record ChatRequest =
  req_Model :: string
  req_Messages :: "Message list"
  req_Temperature :: float64
  req_MaxTokens :: int
  req_TopP :: float64
  req_Stream :: bool

text \<open>
  \<open>json.Marshal\<close> of a request.  A \<open>float64\<close> that is an infinity or NaN has no
  JSON form: the encoder stops with an \<open>UnsupportedValueError\<close>, whose text ends in
  the value as \<open>strconv.FormatFloat\<close> prints it.  The fields are encoded in the order
  of their declaration, so \<open>temperature\<close> is looked at before \<open>top_p\<close>.  Otherwise
  the result is the request as the JSON text carries it.
\<close>

definition unsupportedValue :: "float64 \<Rightarrow> string option" where
  "unsupportedValue x =
     (case x of Finite q \<Rightarrow> None | PosInf \<Rightarrow> Some ''+Inf'' | NegInf \<Rightarrow> Some ''-Inf''
      | NaN \<Rightarrow> Some ''NaN'')"

definition jsonMessage :: "Message \<Rightarrow> Message" where
  "jsonMessage m =
     \<lparr>Role = jsonString (Role m), Content = jsonString (Content m), Name = jsonString (Name m)\<rparr>"

definition marshalChatRequest :: "ChatRequest \<Rightarrow> string + ChatRequest" where
  "marshalChatRequest req =
     (case unsupportedValue (req_Temperature req) of
        Some v \<Rightarrow> Inl (''json: unsupported value: '' @ v)
      | None \<Rightarrow>
          (case unsupportedValue (req_TopP req) of
             Some v \<Rightarrow> Inl (''json: unsupported value: '' @ v)
           | None \<Rightarrow>
               Inr (req\<lparr>req_Model := jsonString (req_Model req),
                        req_Messages := map jsonMessage (req_Messages req)\<rparr>)))"

record Choice =
  ch_Index :: int
  ch_Message :: Message
  ch_FinishReason :: string

record ChatResponse =
  resp_ID :: string
  Choices :: "Choice list"

record ChatParams =
  p_UserID :: int64
  p_Messages :: "Message list option"
  p_Temperature :: float64
  p_MaxTokens :: int
  p_TopP :: float64
  p_ClearConversation :: bool
  p_SystemPrompt :: string

text \<open>The Telegram types, with the fields the handler reads.  \<open>From\<close> and \<open>Chat\<close> are
  pointers and may be nil.\<close>

record tgUser =
  u_ID :: int64
  u_Username :: string

record tgChat =
  c_ID :: int64

record tgMessage =
  m_MessageID :: int64
  m_From :: "tgUser option"
  m_Chat :: "tgChat option"
  m_Text :: string

record CallbackQuery =
  cq_ID :: string
  cq_Data :: string

record InlineQuery =
  iq_ID :: string
  iq_From :: "tgUser option"
  iq_Query :: string

record Update =
  upd_Message :: "tgMessage option"
  upd_CallbackQuery :: "CallbackQuery option"
  upd_InlineQuery :: "InlineQuery option"

record SendMessageParams =
  sm_ChatID :: int64
  sm_Text :: string
  sm_DisableWebPagePreview :: bool

text \<open>\<open>json.Marshal\<close> of the parameters of \<open>sendMessage\<close> never fails (a number, a
  string and a flag); the result is the parameters as the JSON text carries them.\<close>

definition marshalSendMessage :: "SendMessageParams \<Rightarrow> SendMessageParams" where
  "marshalSendMessage params = params\<lparr>sm_Text := jsonString (sm_Text params)\<rparr>"

text \<open>
  A slice of messages is \<open>nil\<close> or a backing array with a length and a capacity (the
  code never reslices, so a slice starts at the beginning of its array).
\<close>

datatype slice = NilSlice | Slice nat nat nat

text \<open>
  The world a handler runs in:
  \<^item> the backing arrays of message slices, by address, and the growth policy of
    \<open>append\<close> (the runtime's choice; any function will do, the new capacity is never
    less than what is needed);
  \<^item> the \<open>Wizard\<close> objects, by address (the session map holds pointers);
  \<^item> the monotonic clock \<open>now\<close>, which advances only while an external call is
    under way or the dispatcher waits for the next update;
  \<^item> the external calls made so far: their number, and the JSON bodies handed to the
    HTTP client: the messages for Telegram's \<open>sendMessage\<close>, the deletions, the
    callback answers, and the requests for the completion API.
\<close>

record World =
  arrays :: "nat \<rightharpoonup> Message list"
  nextArray :: nat
  growcap :: "nat \<Rightarrow> nat \<Rightarrow> nat"
  wizards :: "nat \<rightharpoonup> Wizard"
  nextWizard :: nat
  now :: time
  calls :: nat
  sent :: "SendMessageParams list"
  deleted :: "(int64 \<times> int64) list"
  answered :: "string list"
  requests :: "ChatRequest list"

text \<open>
  What the outside answers.  The \<open>k\<close>-th external call takes \<open>elapsed k\<close> nanoseconds
  and its result may depend on \<open>k\<close> and on the body that is sent.  An external call begins
  where a \<open>doRequest\<close> hands the encoded body to package \<open>net/http\<close>:
  \<open>mm_doRequest\<close> stands for the rest of \<open>Client.doRequest\<close> of package minimax
  (from \<open>http.NewRequestWithContext\<close> on: the HTTP request is built and sent, the
  reply is read and its status checked; an error of any of these is an \<open>Inl\<close>), \<open>tg_SendMessage\<close> and
  \<open>tg_GetMe\<close> for the rest of the Telegram client's \<open>doRequest\<close> and the decoding
  of the result, \<open>json_Unmarshal\<close> for the decoding of a completion reply; an
  \<open>Inl\<close> is the text of the error returned.  The functions of package \<open>strings\<close>
  that decode UTF-8 are taken from the environment as well.
\<close>

record env =
  elapsed :: "nat \<Rightarrow> nat"
  tg_SendMessage :: "nat \<Rightarrow> SendMessageParams \<Rightarrow> string + tgMessage"
  tg_GetMe :: "nat \<Rightarrow> string + tgUser"
  mm_doRequest :: "nat \<Rightarrow> ChatRequest \<Rightarrow> string + string"
  json_Unmarshal :: "string \<Rightarrow> string + ChatResponse"
  strings_Fields :: "string \<Rightarrow> string list"
  strings_ToLower :: "string \<Rightarrow> string"
  strings_TrimSpace :: "string \<Rightarrow> string"

definition external :: "env \<Rightarrow> World \<Rightarrow> World" where
  "external e wd = wd\<lparr>now := now wd + int (elapsed e (calls wd)), calls := Suc (calls wd)\<rparr>"

subsection \<open>Slices\<close>

definition sliceLen :: "slice \<Rightarrow> nat" where
  "sliceLen s = (case s of NilSlice \<Rightarrow> 0 | Slice a n c \<Rightarrow> n)"

definition arrayAt :: "World \<Rightarrow> nat \<Rightarrow> Message list" where
  "arrayAt wd a = (case arrays wd a of None \<Rightarrow> [] | Some xs \<Rightarrow> xs)"

definition sliceElems :: "World \<Rightarrow> slice \<Rightarrow> Message list" where
  "sliceElems wd s = (case s of NilSlice \<Rightarrow> [] | Slice a n c \<Rightarrow> take n (arrayAt wd a))"

definition newArray :: "World \<Rightarrow> Message list \<Rightarrow> nat \<times> World" where
  "newArray wd xs =
     (nextArray wd, wd\<lparr>arrays := (arrays wd)(nextArray wd \<mapsto> xs), nextArray := Suc (nextArray wd)\<rparr>)"

text \<open>\<open>append(s, x)\<close>: in place when there is room, into a new and larger array otherwise.\<close>

definition growAppend :: "World \<Rightarrow> Message list \<Rightarrow> nat \<Rightarrow> Message \<Rightarrow> World \<times> slice" where
  "growAppend wd old c x =
     (let n = length old;
          c' = max (Suc n) (growcap wd c (Suc n));
          (a, wd') = newArray wd (old @ [x] @ replicate (c' - Suc n) zeroMessage)
      in (wd', Slice a (Suc n) c'))"

definition appendSlice :: "World \<Rightarrow> slice \<Rightarrow> Message \<Rightarrow> World \<times> slice" where
  "appendSlice wd s x =
     (case s of
        NilSlice \<Rightarrow> growAppend wd [] 0 x
      | Slice a n c \<Rightarrow>
          if n < c
          then (wd\<lparr>arrays := (arrays wd)(a \<mapsto> (arrayAt wd a)[n := x])\<rparr>, Slice a (Suc n) c)
          else growAppend wd (take n (arrayAt wd a)) c x)"

text \<open>\<open>make([]Message, n)\<close> and \<open>copy(dst, src)\<close>, which copies as many elements as the
  shorter of the two slices has.\<close>

definition makeSlice :: "World \<Rightarrow> nat \<Rightarrow> World \<times> slice" where
  "makeSlice wd n = (let (a, wd') = newArray wd (replicate n zeroMessage) in (wd', Slice a n n))"

definition copySlice :: "World \<Rightarrow> slice \<Rightarrow> slice \<Rightarrow> World" where
  "copySlice wd dst src =
     (case dst of
        NilSlice \<Rightarrow> wd
      | Slice a n c \<Rightarrow>
          let k = min n (sliceLen src) in
          wd\<lparr>arrays := (arrays wd)(a \<mapsto> take k (sliceElems wd src) @ drop k (arrayAt wd a))\<rparr>)"

text \<open>An element store \<open>s[i] = x\<close>; out of range it panics.\<close>

definition storeSlice :: "World \<Rightarrow> slice \<Rightarrow> nat \<Rightarrow> Message \<Rightarrow> fault + World" where
  "storeSlice wd s i x =
     (case s of
        NilSlice \<Rightarrow> Inl (Panic ''index out of range'')
      | Slice a n c \<Rightarrow>
          if i < n then Inr (wd\<lparr>arrays := (arrays wd)(a \<mapsto> (arrayAt wd a)[i := x])\<rparr>)
          else Inl (Panic ''index out of range''))"

section \<open>Package minimax\<close>

text \<open>
  The locks of \<open>Conversation\<close> and \<open>Client\<close> are taken and released in pairs by every
  method and are left out.  The map \<open>conversations\<close> holds one \<open>Conversation\<close> object
  per user; a method that changes the object through its pointer is a function that
  returns the changed object, which the caller stores back under the same key.
\<close>

record Conversation =
  Messages :: slice
  System :: string

definition newConversation :: Conversation where
  "newConversation = \<lparr>Messages = NilSlice, System = []\<rparr>"

definition AddMessage :: "World \<Rightarrow> Conversation \<Rightarrow> string \<Rightarrow> string \<Rightarrow> World \<times> Conversation" where
  "AddMessage wd c role content =
     (let (wd', s) = appendSlice wd (Messages c) \<lparr>Role = role, Content = content, Name = []\<rparr>
      in (wd', c\<lparr>Messages := s\<rparr>))"

definition GetMessages :: "World \<Rightarrow> Conversation \<Rightarrow> World \<times> slice" where
  "GetMessages wd c =
     (let (wd1, messages) = makeSlice wd (sliceLen (Messages c));
          wd2 = copySlice wd1 messages (Messages c)
      in (wd2, messages))"

definition Clear :: "Conversation \<Rightarrow> Conversation" where
  "Clear c = c\<lparr>Messages := NilSlice\<rparr>"

definition SetSystem :: "Conversation \<Rightarrow> string \<Rightarrow> Conversation" where
  "SetSystem c system = c\<lparr>System := system\<rparr>"

record Client =
  model :: string
  conversations :: "int64 \<rightharpoonup> Conversation"

definition getOrCreateConversation :: "Client \<Rightarrow> int64 \<Rightarrow> Client \<times> Conversation" where
  "getOrCreateConversation c userID =
     (case conversations c userID of
        Some conv \<Rightarrow> (c, conv)
      | None \<Rightarrow> (c\<lparr>conversations := (conversations c)(userID \<mapsto> newConversation)\<rparr>, newConversation))"

definition ClearConversation :: "Client \<Rightarrow> int64 \<Rightarrow> Client" where
  "ClearConversation c userID = c\<lparr>conversations := (conversations c)(userID := None)\<rparr>"

text \<open>\<open>GetConversation\<close> returns a copy of the history, or \<open>nil\<close>.\<close>

definition GetConversation :: "World \<Rightarrow> Client \<Rightarrow> int64 \<Rightarrow> World \<times> slice" where
  "GetConversation wd c userID =
     (case conversations c userID of
        Some conv \<Rightarrow> GetMessages wd conv
      | None \<Rightarrow> (wd, NilSlice))"

text \<open>
  \<open>doRequest\<close>: when the request cannot be encoded it returns the error and nothing is
  sent; otherwise a request is issued, with the encoded body.
\<close>

definition doRequest :: "env \<Rightarrow> World \<Rightarrow> ChatRequest \<Rightarrow> World \<times> (string + string)" where
  "doRequest e wd body =
     (case marshalChatRequest body of
        Inl err \<Rightarrow> (wd, Inl (''failed to marshal request: '' @ err))
      | Inr jsonData \<Rightarrow>
          (external e (wd\<lparr>requests := requests wd @ [jsonData]\<rparr>),
           mm_doRequest e (calls wd) jsonData))"

text \<open>
  \<open>Chat\<close>.  The first component of the result is the world afterwards, the second the
  client afterwards, the third what the method returns: the error text, or the response.
\<close>

definition assemble :: "World \<Rightarrow> Client \<Rightarrow> ChatParams \<Rightarrow> World \<times> Client \<times> Message list" where
  "assemble wd c params =
     (case p_Messages params of
        Some ms \<Rightarrow> (wd, c, ms)
      | None \<Rightarrow>
          let (c1, conv) = getOrCreateConversation c (p_UserID params);
              conv1 = (if p_SystemPrompt params \<noteq> [] then SetSystem conv (p_SystemPrompt params)
                       else conv);
              conv2 = (if p_ClearConversation params then Clear conv1 else conv1);
              (wd1, messages) = GetMessages wd conv2
          in (wd1, c1\<lparr>conversations := (conversations c1)(p_UserID params \<mapsto> conv2)\<rparr>,
              sliceElems wd1 messages))"

definition buildRequest :: "Client \<Rightarrow> ChatParams \<Rightarrow> Message list \<Rightarrow> ChatRequest" where
  "buildRequest c params messages =
     \<lparr>req_Model = model c,
      req_Messages = messages,
      req_Temperature = (if f64_pos (p_Temperature params) then p_Temperature params else f64_0_7),
      req_MaxTokens = (if p_MaxTokens params > 0 then p_MaxTokens params else 2048),
      req_TopP = (if f64_pos (p_TopP params) then p_TopP params else Finite 0),
      req_Stream = False\<rparr>"

definition Chat ::
  "env \<Rightarrow> World \<Rightarrow> Client \<Rightarrow> ChatParams \<Rightarrow> World \<times> Client \<times> (string + ChatResponse)" where
  "Chat e wd c params =
     (let (wd1, c1, messages) = assemble wd c params in
      if length messages = 0 then (wd1, c1, Inl ''no messages provided'')
      else
        let req = buildRequest c1 params messages;
            (wd2, r) = doRequest e wd1 req
        in case r of
             Inl err \<Rightarrow> (wd2, c1, Inl err)
           | Inr data \<Rightarrow>
               (case json_Unmarshal e data of
                  Inl err \<Rightarrow> (wd2, c1, Inl (''failed to unmarshal response: '' @ err))
                | Inr response \<Rightarrow>
                    (case (p_Messages params, Choices response) of
                       (None, choice # _) \<Rightarrow>
                         let (c2, conv) = getOrCreateConversation c1 (p_UserID params);
                             (wd3, conv') =
                                AddMessage wd2 conv ''assistant'' (Content (ch_Message choice))
                         in (wd3,
                             c2\<lparr>conversations := (conversations c2)(p_UserID params \<mapsto> conv')\<rparr>,
                             Inr response)
                     | _ \<Rightarrow> (wd2, c1, Inr response))))"

section \<open>The session manager of package wizard\<close>

text \<open>
  The manager's lock is part of the model: \<open>GetWizard\<close> does not take and release it in
  pairs on every path.  \<open>sessions\<close> maps a user to the address of a \<open>Wizard\<close>.
\<close>

record Manager =
  mu :: RWMutex
  sessions :: "int64 \<rightharpoonup> nat"
  timeout :: duration

definition NewManager :: "duration \<Rightarrow> Manager" where
  "NewManager d = \<lparr>mu = newRWMutex, sessions = Map.empty, timeout = d\<rparr>"

definition StartWizard ::
  "World \<Rightarrow> Manager \<Rightarrow> int64 \<Rightarrow> ContentType \<Rightarrow> fault + (World \<times> Manager \<times> nat)" where
  "StartWizard wd m userID contentType =
     bindF (Lock (mu m)) (\<lambda>mu1.
       let wizard = nextWizard wd;
           wd1 = wd\<lparr>wizards := (wizards wd)(wizard \<mapsto> newWizard userID contentType (now wd)),
                    nextWizard := Suc wizard\<rparr>;
           m1 = m\<lparr>sessions := (sessions m)(userID \<mapsto> wizard)\<rparr>
       in bindF (Unlock mu1) (\<lambda>mu2. Inr (wd1, m1\<lparr>mu := mu2\<rparr>, wizard)))"

text \<open>
  \<open>GetWizard\<close> takes the read lock and defers its release.  On the timeout path it
  releases the read lock by hand, takes and releases the write lock around the deletion,
  and returns; the deferred \<open>RUnlock\<close> then runs as well.
\<close>

definition GetWizard :: "World \<Rightarrow> Manager \<Rightarrow> int64 \<Rightarrow> fault + (Manager \<times> nat option)" where
  "GetWizard wd m userID =
     bindF (RLock (mu m)) (\<lambda>mu1.
       case sessions m userID of
         None \<Rightarrow> bindF (RUnlock mu1) (\<lambda>mu2. Inr (m\<lparr>mu := mu2\<rparr>, None))
       | Some wizard \<Rightarrow>
           (case wizards wd wizard of
              None \<Rightarrow> Inl (Panic ''invalid memory address or nil pointer dereference'')
            | Some w \<Rightarrow>
                if time_Since (now wd) (StartedAt w) > timeout m then
                  bindF (RUnlock mu1) (\<lambda>mu2.
                  bindF (Lock mu2) (\<lambda>mu3.
                  let sessions' = (sessions m)(userID := None) in
                  bindF (Unlock mu3) (\<lambda>mu4.
                  bindF (RUnlock mu4) (\<lambda>mu5.
                    Inr (m\<lparr>mu := mu5, sessions := sessions'\<rparr>, None)))))
                else bindF (RUnlock mu1) (\<lambda>mu2. Inr (m\<lparr>mu := mu2\<rparr>, Some wizard))))"

definition EndWizard :: "Manager \<Rightarrow> int64 \<Rightarrow> fault + Manager" where
  "EndWizard m userID =
     bindF (Lock (mu m)) (\<lambda>mu1.
       let m1 = m\<lparr>sessions := (sessions m)(userID := None)\<rparr> in
       bindF (Unlock mu1) (\<lambda>mu2. Inr (m1\<lparr>mu := mu2\<rparr>)))"

definition CancelWizard :: "Manager \<Rightarrow> int64 \<Rightarrow> fault + Manager" where
  "CancelWizard m userID = EndWizard m userID"

text \<open>Following a \<open>*Wizard\<close>.\<close>

definition deref :: "World \<Rightarrow> nat \<Rightarrow> fault + Wizard" where
  "deref wd p =
     (case wizards wd p of
        None \<Rightarrow> Inl (Panic ''invalid memory address or nil pointer dereference'')
      | Some w \<Rightarrow> Inr w)"

subsection \<open>\<open>ParseFlags\<close>\<close>

definition flagValue :: "string \<Rightarrow> string" where
  "flagValue s = (if HasPrefix s ''-'' \<and> length s > 2 then drop 2 s else [])"

text \<open>The first loop: over the fields of the input, with the flags, the remaining words and
  \<open>collectArgs\<close> as its state.\<close>

fun parseParts ::
  "string list \<Rightarrow> (string \<rightharpoonup> string) \<Rightarrow> string list \<Rightarrow> bool
     \<Rightarrow> (string \<rightharpoonup> string) \<times> string list" where
  "parseParts [] flags remaining collectArgs = (flags, remaining)"
| "parseParts (part # parts) flags remaining collectArgs =
     (if collectArgs then parseParts parts flags (remaining @ [part]) collectArgs
      else if HasPrefix part ''-'' \<and> length part > 1
        then parseParts parts (flags(TrimPrefix part ''-'' \<mapsto> ''true'')) remaining collectArgs
      else if HasPrefix part ''-'' \<and> length part = 1
        then parseParts parts flags remaining True
      else if length (flagValue part) > 0
        then (case SplitN2 part of
                [k, v] \<Rightarrow> parseParts parts (flags(k \<mapsto> v)) remaining collectArgs
              | _ \<Rightarrow> parseParts parts flags (remaining @ [part]) collectArgs)
      else parseParts parts flags (remaining @ [part]) collectArgs)"

text \<open>The second loop: \<open>for i := 0; i < len(remaining)-1; i++\<close>, which skips the word it
  has used as a value.\<close>

fun pairFlags :: "string list \<Rightarrow> (string \<rightharpoonup> string) \<Rightarrow> (string \<rightharpoonup> string)" where
  "pairFlags (r # r' # rs) flags =
     (if HasPrefix r ''-'' then pairFlags rs (flags(TrimPrefix r ''-'' \<mapsto> r'))
      else pairFlags (r' # rs) flags)"
| "pairFlags rs flags = flags"

definition ParseFlags :: "env \<Rightarrow> string \<Rightarrow> (string \<rightharpoonup> string) \<times> string" where
  "ParseFlags e input =
     (let parts = strings_Fields e (TrimPrefix input ''/'');
          (flags, remaining) = parseParts parts Map.empty [] False;
          flags' = pairFlags remaining flags;
          args = (case filter (\<lambda>part. \<not> HasPrefix part ''-'') remaining of
                    [] \<Rightarrow> []
                  | part # _ \<Rightarrow> part)
      in (flags', args))"

section \<open>Package handler\<close>

text \<open>
  The two maps of the handler may be \<open>nil\<close> (the tests of the package build handlers
  with only some of the fields), and \<open>setProcessing\<close> checks for it.  Their locks are
  taken and released in pairs and are left out.  The command table holds the six default
  commands that \<open>registerDefaultCommands\<close> installs.
\<close>

record Config =
  MaxMessageLength :: int
  MinimaxModel :: string
  EnableInlineMode :: bool

datatype Command = CmdStart | CmdHelp | CmdClear | CmdStatus | CmdCreate | CmdCancel

record Handler =
  config :: Config
  processing :: "(int64 \<rightharpoonup> bool) option"
  lastMessageTime :: "(int64 \<rightharpoonup> time) option"
  rateLimit :: duration
  commands :: "string \<rightharpoonup> Command"
  wizardManager :: Manager
  minimaxClient :: Client

definition registerDefaultCommands :: "string \<rightharpoonup> Command" where
  "registerDefaultCommands =
     [''start'' \<mapsto> CmdStart, ''help'' \<mapsto> CmdHelp, ''clear'' \<mapsto> CmdClear,
      ''status'' \<mapsto> CmdStatus, ''create'' \<mapsto> CmdCreate, ''cancel'' \<mapsto> CmdCancel]"

definition New :: "Client \<Rightarrow> Config \<Rightarrow> Handler" where
  "New mc cfg =
     \<lparr>config = cfg,
      processing = Some Map.empty,
      lastMessageTime = Some Map.empty,
      rateLimit = 1 * Second,
      commands = registerDefaultCommands,
      wizardManager = NewManager (10 * Minute),
      minimaxClient = mc\<rparr>"

definition checkRateLimit :: "World \<Rightarrow> Handler \<Rightarrow> int64 \<Rightarrow> bool" where
  "checkRateLimit wd h userID =
     (case (case lastMessageTime h of None \<Rightarrow> None | Some m \<Rightarrow> m userID) of
        None \<Rightarrow> True
      | Some lastTime \<Rightarrow> time_Since (now wd) lastTime \<ge> rateLimit h)"

text \<open>A write to a \<open>nil\<close> map panics.\<close>

definition updateRateLimit :: "World \<Rightarrow> Handler \<Rightarrow> int64 \<Rightarrow> fault + Handler" where
  "updateRateLimit wd h userID =
     (case lastMessageTime h of
        None \<Rightarrow> Inl (Panic ''assignment to entry in nil map'')
      | Some m \<Rightarrow> Inr (h\<lparr>lastMessageTime := Some (m(userID \<mapsto> now wd))\<rparr>))"

definition isProcessing :: "Handler \<Rightarrow> int64 \<Rightarrow> bool" where
  "isProcessing h userID =
     (case (case processing h of None \<Rightarrow> None | Some m \<Rightarrow> m userID) of
        None \<Rightarrow> False
      | Some b \<Rightarrow> b)"

definition setProcessing :: "World \<Rightarrow> Handler \<Rightarrow> int64 \<Rightarrow> bool \<Rightarrow> Handler" where
  "setProcessing wd h userID p =
     (let pm = (case processing h of None \<Rightarrow> Map.empty | Some m \<Rightarrow> m);
          h1 = h\<lparr>processing := Some (pm(userID \<mapsto> p))\<rparr>
      in if \<not> p then
           let lm = (case lastMessageTime h1 of None \<Rightarrow> Map.empty | Some m \<Rightarrow> m)
           in h1\<lparr>lastMessageTime := Some (lm(userID \<mapsto> now wd))\<rparr>
         else h1)"

subsection \<open>Talking to Telegram\<close>

text \<open>
  The methods of the Telegram client that the handler calls.  Each hands its parameters to
  the client's \<open>doRequest\<close>, which encodes them with \<open>json.Marshal\<close> and posts
  the result.
\<close>

definition tgSendMessage ::
  "env \<Rightarrow> World \<Rightarrow> SendMessageParams \<Rightarrow> World \<times> (string + tgMessage)" where
  "tgSendMessage e wd params =
     (let data = marshalSendMessage params
      in (external e (wd\<lparr>sent := sent wd @ [data]\<rparr>), tg_SendMessage e (calls wd) data))"

definition tgDeleteMessage :: "env \<Rightarrow> World \<Rightarrow> int64 \<Rightarrow> int64 \<Rightarrow> World" where
  "tgDeleteMessage e wd chatID messageID =
     external e (wd\<lparr>deleted := deleted wd @ [(chatID, messageID)]\<rparr>)"

definition tgAnswerCallbackQuery :: "env \<Rightarrow> World \<Rightarrow> string \<Rightarrow> World" where
  "tgAnswerCallbackQuery e wd queryID =
     external e (wd\<lparr>answered := answered wd @ [jsonString queryID]\<rparr>)"

definition tgGetMe :: "env \<Rightarrow> World \<Rightarrow> World \<times> (string + tgUser)" where
  "tgGetMe e wd = (external e wd, tg_GetMe e (calls wd))"

text \<open>
  \<open>sendMessage\<close>: the slice expression \<open>text[:MaxMessageLength-3]\<close> panics when the
  bound is negative or beyond the length of the text.
\<close>

definition truncateText :: "int \<Rightarrow> string \<Rightarrow> fault + string" where
  "truncateText maxLen text =
     (if int (length text) > maxLen then
        (if maxLen - 3 < 0 \<or> maxLen - 3 > int (length text)
         then Inl (Panic ''slice bounds out of range'')
         else Inr (take (nat (maxLen - 3)) text @ ''...''))
      else Inr text)"

definition sendMessage ::
  "env \<Rightarrow> World \<Rightarrow> Handler \<Rightarrow> int64 \<Rightarrow> string \<Rightarrow> fault + (World \<times> (string + tgMessage))" where
  "sendMessage e wd h chatID text =
     bindF (truncateText (MaxMessageLength (config h)) text) (\<lambda>text'.
       Inr (tgSendMessage e wd
              \<lparr>sm_ChatID = chatID, sm_Text = text', sm_DisableWebPagePreview = True\<rparr>))"

text \<open>The commands \<open>/clear\<close>, \<open>/status\<close> and \<open>/cancel\<close> call the Telegram client
  themselves, with no truncation and no preview flag.\<close>

definition sendRaw :: "env \<Rightarrow> World \<Rightarrow> int64 \<Rightarrow> string \<Rightarrow> World \<times> string option" where
  "sendRaw e wd chatID text =
     (let (wd1, r) = tgSendMessage e wd
                       \<lparr>sm_ChatID = chatID, sm_Text = text, sm_DisableWebPagePreview = False\<rparr>
      in (wd1, case r of Inl err \<Rightarrow> Some err | Inr _ \<Rightarrow> None))"

text \<open>\<open>msg.From.ID\<close> and \<open>msg.Chat.ID\<close>.\<close>

definition msgFromID :: "tgMessage \<Rightarrow> fault + int64" where
  "msgFromID msg =
     (case m_From msg of
        None \<Rightarrow> Inl (Panic ''invalid memory address or nil pointer dereference'')
      | Some u \<Rightarrow> Inr (u_ID u))"

definition msgChatID :: "tgMessage \<Rightarrow> fault + int64" where
  "msgChatID msg =
     (case m_Chat msg of
        None \<Rightarrow> Inl (Panic ''invalid memory address or nil pointer dereference'')
      | Some c \<Rightarrow> Inr (c_ID c))"

definition userParams :: "int64 \<Rightarrow> Message list option \<Rightarrow> ChatParams" where
  "userParams userID ms =
     \<lparr>p_UserID = userID, p_Messages = ms, p_Temperature = Finite 0, p_MaxTokens = 0,
      p_TopP = Finite 0, p_ClearConversation = False, p_SystemPrompt = []\<rparr>"

subsection \<open>Fixed texts\<close>

definition welcomeText :: string where
  "welcomeText =
     ''Welcome to Minimax Bot!'' @ NL @ NL @ ''I'' @ [CHR 0x27] @
     ''m an AI assistant powered by Minimax. You can talk to me by sending me'' @
     ''ssages.'' @ NL @ NL @ ''Available commands:'' @ NL @
     ''/start - Show this welcome message'' @ NL @
     ''/clear - Clear conversation history'' @ NL @ ''/help - Show help information'' @
     NL @ ''/status - Show bot status'' @ NL @ ''/create - Content creation wizard''"

definition helpText :: string where
  "helpText =
     ''Help'' @ NL @ NL @ ''You can communicate with me by sending messages. I'' @
     [CHR 0x27] @ ''ll respond using Minimax AI.'' @ NL @ NL @ ''Commands:'' @ NL @
     ''/start - Start the bot'' @ NL @ ''/clear - Clear conversation history'' @ NL @
     ''/help - Show this help message'' @ NL @ ''/status - Show bot status'' @ NL @
     ''/create - Content creation wizard'' @ NL @ ''/cancel - Cancel active wizard'' @
     NL @ NL @ ''Tips:'' @ NL @ ''- Be specific in your questions'' @ NL @
     ''- Provide context when needed'' @ NL @
     ''- Use follow-up questions for more details''"

definition createHelpText :: string where
  "createHelpText =
     ''Content Creation Wizard'' @ NL @ NL @
     ''Use /create to start an interactive wizard for creating content.'' @ NL @ NL @
     ''Usage:'' @ NL @ ''/create <type> [flags]'' @ NL @ NL @ ''Content Types:'' @ NL @
     ''- marketing - Marketing copy'' @ NL @ ''- email     - Email content'' @ NL @
     ''- report    - Business report'' @ NL @ ''- script    - Video/podcast script'' @
     NL @ ''- whitepaper - Whitepaper'' @ NL @ ''- story     - Creative story'' @ NL @
     ''- poem       - Poem'' @ NL @ NL @ ''Flags:'' @ NL @
     ''-t <text>  - Quick prompt (bypasses wizard)'' @ NL @
     ''-m <text>  - Message/instructions'' @ NL @ ''-s <style> - Writing style'' @ NL @
     ''-q          - Quick mode (fewer questions)'' @ NL @ NL @ ''Examples:'' @ NL @
     ''/create marketing'' @ NL @ ''/create email -t newsletter signup'' @ NL @
     ''/create report -s formal'' @ NL @ ''/create story -q''"

definition thinkingText :: string where
  "thinkingText =
     [CHR 0xF0, CHR 0x9F, CHR 0xA4, CHR 0x94] @ '' Thinking...''"

definition clearedText :: string where
  "clearedText =
     [CHR 0xF0, CHR 0x9F, CHR 0x97, CHR 0x91, CHR 0xEF, CHR 0xB8, CHR 0x8F] @
     '' Conversation history cleared!''"

subsection \<open>The handlers\<close>

text \<open>
  A handler returns the world and the handler afterwards, and the \<open>error\<close> it returns
  (\<open>None\<close> for \<open>nil\<close>), unless the process ends first.
\<close>

type_synonym outcome = "fault + (World \<times> Handler \<times> string option)"

text \<open>\<open>if len(response.Choices) > 0 { h.sendMessage(..., response.Choices[0].Message.Content) }\<close>\<close>

definition sendReply :: "env \<Rightarrow> World \<Rightarrow> Handler \<Rightarrow> int64 \<Rightarrow> ChatResponse \<Rightarrow> fault + World" where
  "sendReply e wd h cid response =
     (case Choices response of
        [] \<Rightarrow> Inr wd
      | choice # _ \<Rightarrow>
          bindF (sendMessage e wd h cid (Content (ch_Message choice))) (\<lambda>(wd1, _). Inr wd1))"

text \<open>
  What the three callers of \<open>Chat\<close> that answer the user do with its result: on an error
  they send a notice that ends in the error text and return the error; otherwise they send
  the first choice, if there is one, and return \<open>nil\<close>.
\<close>

definition replyOrError ::
  "env \<Rightarrow> World \<Rightarrow> Handler \<Rightarrow> int64 \<Rightarrow> string \<Rightarrow> string + ChatResponse \<Rightarrow> outcome" where
  "replyOrError e wd h cid notice res =
     (case res of
        Inl err \<Rightarrow>
          bindF (sendMessage e wd h cid (notice @ err)) (\<lambda>(wd1, _). Inr (wd1, h, Some err))
      | Inr response \<Rightarrow>
          bindF (sendReply e wd h cid response) (\<lambda>wd1. Inr (wd1, h, None)))"

definition handleWizardMessage :: "env \<Rightarrow> World \<Rightarrow> Handler \<Rightarrow> tgMessage \<Rightarrow> nat \<Rightarrow> outcome" where
  "handleWizardMessage e wd h msg wiz =
     bindF (deref wd wiz) (\<lambda>w.
     bindF (GetCurrentKey w) (\<lambda>key.
       let w1 = SetAnswer key (m_Text msg) w;
           wd1 = wd\<lparr>wizards := (wizards wd)(wiz \<mapsto> w1)\<rparr>
       in
       if IsComplete w1 then
         let prompt = BuildPrompt w1 in
         bindF (msgFromID msg) (\<lambda>uid.
         bindF (EndWizard (wizardManager h) uid) (\<lambda>m1.
         let h1 = h\<lparr>wizardManager := m1\<rparr> in
         bindF (msgChatID msg) (\<lambda>cid.
         bindF (sendMessage e wd1 h1 cid ''Generating content based on your answers...'')
           (\<lambda>(wd2, _).
         let (wd3, c1, res) =
               Chat e wd2 (minimaxClient h1) (userParams uid (Some [mkMessage ''user'' prompt]));
             h2 = h1\<lparr>minimaxClient := c1\<rparr>
         in replyOrError e wd3 h2 cid ''Error generating content: '' res))))
       else
         bindF (GetCurrentQuestion w1) (\<lambda>nextQuestion.
         let progress = GetProgress w1 in
         bindF (msgChatID msg) (\<lambda>cid.
         bindF (sendMessage e wd1 h cid
                  (''Got it! '' @ progress @ NL @ NL @ nextQuestion @ NL @ NL @
                   ''(Type /cancel to cancel the wizard)''))
           (\<lambda>(wd2, _). Inr (wd2, h, None))))))"

text \<open>\<open>if thinkingMsg != nil { h.telegramClient.DeleteMessage(...) }\<close>, on both paths.\<close>

definition deleteNotice :: "env \<Rightarrow> World \<Rightarrow> int64 \<Rightarrow> string + tgMessage \<Rightarrow> World" where
  "deleteNotice e wd cid thinkingMsg =
     (case thinkingMsg of
        Inl _ \<Rightarrow> wd
      | Inr tm \<Rightarrow> tgDeleteMessage e wd cid (m_MessageID tm))"

text \<open>
  The part of \<open>handleMessage\<close> between \<open>setProcessing(true)\<close> and the deferred
  \<open>setProcessing(false)\<close>: a first \<open>Chat\<close> that is given the user's message (its
  result is dropped), the notice, a second \<open>Chat\<close> that is given no messages, the
  deletion of the notice, and the reply.
\<close>

definition chatFlow :: "env \<Rightarrow> World \<Rightarrow> Handler \<Rightarrow> tgMessage \<Rightarrow> int64 \<Rightarrow> outcome" where
  "chatFlow e wd h msg uid =
     (let (wd1, c1, _) =
            Chat e wd (minimaxClient h) (userParams uid (Some [mkMessage ''user'' (m_Text msg)]));
          h1 = h\<lparr>minimaxClient := c1\<rparr>
      in
      bindF (msgChatID msg) (\<lambda>cid.
      bindF (sendMessage e wd1 h1 cid thinkingText) (\<lambda>(wd2, thinkingMsg).
        let (wd3, c2, res) = Chat e wd2 (minimaxClient h1) (userParams uid None);
            h2 = h1\<lparr>minimaxClient := c2\<rparr>;
            wd4 = deleteNotice e wd3 cid thinkingMsg
        in replyOrError e wd4 h2 cid ''Sorry, I encountered an error: '' res)))"

definition quickPrompt :: "(string \<rightharpoonup> string) \<Rightarrow> string" where
  "quickPrompt flags =
     (let prompt = lookupStr flags ''t'';
          prompt1 = (if lookupStr flags ''m'' \<noteq> [] then lookupStr flags ''m'' @ '': '' @ prompt
                     else prompt)
      in if lookupStr flags ''s'' \<noteq> [] then prompt1 @ '' (style: '' @ lookupStr flags ''s'' @ '')''
         else prompt1)"

definition cmdCreate :: "env \<Rightarrow> World \<Rightarrow> Handler \<Rightarrow> tgMessage \<Rightarrow> string \<Rightarrow> outcome" where
  "cmdCreate e wd h msg args =
     (let (flags, contentType) = ParseFlags e args in
      if contentType = [] then
        bindF (msgChatID msg) (\<lambda>cid.
        bindF (sendMessage e wd h cid createHelpText) (\<lambda>(wd1, _). Inr (wd1, h, None)))
      else
        bindF (msgFromID msg) (\<lambda>uid.
        bindF (StartWizard wd (wizardManager h) uid contentType) (\<lambda>(wd1, m1, wiz).
        let h1 = h\<lparr>wizardManager := m1\<rparr> in
        if lookupStr flags ''t'' \<noteq> [] then
          let prompt = quickPrompt flags in
          bindF (msgChatID msg) (\<lambda>cid.
          bindF (sendMessage e wd1 h1 cid ''Generating content...'') (\<lambda>(wd2, _).
          let (wd3, c1, res) =
                Chat e wd2 (minimaxClient h1) (userParams uid (Some [mkMessage ''user'' prompt]));
              h2 = h1\<lparr>minimaxClient := c1\<rparr>
          in replyOrError e wd3 h2 cid ''Error: '' res))
        else
          bindF (deref wd1 wiz) (\<lambda>w.
          bindF (GetCurrentQuestion w) (\<lambda>question.
          bindF (msgChatID msg) (\<lambda>cid.
          bindF (sendMessage e wd1 h1 cid
                   (''Starting '' @ contentType @ '' wizard! '' @ GetProgress w @ NL @ NL @
                    question))
            (\<lambda>(wd2, _). Inr (wd2, h1, None))))))))"

definition cmdStatus :: "env \<Rightarrow> World \<Rightarrow> Handler \<Rightarrow> tgMessage \<Rightarrow> outcome" where
  "cmdStatus e wd h msg =
     (let (wd1, r) = tgGetMe e wd in
      case r of
        Inl err \<Rightarrow> Inr (wd1, h, Some err)
      | Inr botInfo \<Rightarrow>
          bindF (msgFromID msg) (\<lambda>uid.
          let (wd2, conversation) = GetConversation wd1 (minimaxClient h) uid;
              msgCount = sliceLen conversation;
              statusText = ''Bot Status'' @ NL @ NL @ ''Bot: @'' @ u_Username botInfo @ NL @
                 ''Model: '' @ MinimaxModel (config h) @ NL @
                 ''Your messages in this conversation: '' @ itoa (int msgCount)
          in bindF (msgChatID msg) (\<lambda>cid.
             let (wd3, err) = sendRaw e wd2 cid statusText in Inr (wd3, h, err))))"

definition runCommand ::
  "env \<Rightarrow> World \<Rightarrow> Handler \<Rightarrow> Command \<Rightarrow> tgMessage \<Rightarrow> string \<Rightarrow> outcome" where
  "runCommand e wd h cmd msg args =
     (case cmd of
        CmdStart \<Rightarrow>
          bindF (msgChatID msg) (\<lambda>cid.
          bindF (sendMessage e wd h cid welcomeText) (\<lambda>(wd1, _). Inr (wd1, h, None)))
      | CmdHelp \<Rightarrow>
          bindF (msgChatID msg) (\<lambda>cid.
          bindF (sendMessage e wd h cid helpText) (\<lambda>(wd1, _). Inr (wd1, h, None)))
      | CmdClear \<Rightarrow>
          bindF (msgFromID msg) (\<lambda>uid.
          let h1 = h\<lparr>minimaxClient := ClearConversation (minimaxClient h) uid\<rparr> in
          bindF (msgChatID msg) (\<lambda>cid.
          let (wd1, err) = sendRaw e wd cid clearedText in Inr (wd1, h1, err)))
      | CmdStatus \<Rightarrow> cmdStatus e wd h msg
      | CmdCreate \<Rightarrow> cmdCreate e wd h msg args
      | CmdCancel \<Rightarrow>
          bindF (msgFromID msg) (\<lambda>uid.
          bindF (CancelWizard (wizardManager h) uid) (\<lambda>m1.
          let h1 = h\<lparr>wizardManager := m1\<rparr> in
          bindF (msgChatID msg) (\<lambda>cid.
          let (wd1, err) = sendRaw e wd cid ''Wizard cancelled. Your session has been reset.''
          in Inr (wd1, h1, err)))))"

text \<open>\<open>text[1:]\<close> panics on the empty string.\<close>

definition handleCommand :: "env \<Rightarrow> World \<Rightarrow> Handler \<Rightarrow> tgMessage \<Rightarrow> outcome" where
  "handleCommand e wd h msg =
     (let text = strings_TrimSpace e (m_Text msg) in
      if length text < 1 then Inl (Panic ''slice bounds out of range'')
      else
        (case strings_Fields e (drop 1 text) of
           [] \<Rightarrow> Inr (wd, h, None)
         | part # parts \<Rightarrow>
             (let command = strings_ToLower e part;
                  args = (if length (part # parts) > 1 then Join parts '' '' else [])
              in (case commands h command of
                    None \<Rightarrow>
                      bindF (msgChatID msg) (\<lambda>cid.
                      bindF (sendMessage e wd h cid (''Unknown command: /'' @ command))
                        (\<lambda>(wd1, _). Inr (wd1, h, None)))
                  | Some cmd \<Rightarrow> runCommand e wd h cmd msg args))))"

definition handleMessage :: "env \<Rightarrow> World \<Rightarrow> Handler \<Rightarrow> tgMessage \<Rightarrow> outcome" where
  "handleMessage e wd h msg =
     (if m_Text msg = [] then Inr (wd, h, None)
      else if HasPrefix (m_Text msg) ''/'' then handleCommand e wd h msg
      else
        bindF (msgFromID msg) (\<lambda>uid.
        bindF (GetWizard wd (wizardManager h) uid) (\<lambda>(m1, found).
        let h1 = h\<lparr>wizardManager := m1\<rparr> in
        case found of
          Some wiz \<Rightarrow> handleWizardMessage e wd h1 msg wiz
        | None \<Rightarrow>
            if \<not> checkRateLimit wd h1 uid then
              bindF (msgChatID msg) (\<lambda>cid.
              bindF (sendMessage e wd h1 cid
                       ''Please wait a moment before sending another message.'')
                (\<lambda>(wd1, _). Inr (wd1, h1, None)))
            else if isProcessing h1 uid then
              bindF (msgChatID msg) (\<lambda>cid.
              bindF (sendMessage e wd h1 cid
                       (''I'' @ [CHR 0x27] @
                        ''m still processing your previous message. Please wait.''))
                (\<lambda>(wd1, _). Inr (wd1, h1, None)))
            else
              let h2 = setProcessing wd h1 uid True in
              bindF (chatFlow e wd h2 msg uid) (\<lambda>(wd1, h3, err).
                Inr (wd1, setProcessing wd1 h3 uid False, err)))))"

definition handleCallbackQuery :: "env \<Rightarrow> World \<Rightarrow> Handler \<Rightarrow> CallbackQuery \<Rightarrow> outcome" where
  "handleCallbackQuery e wd h query = Inr (tgAnswerCallbackQuery e wd (cq_ID query), h, None)"

text \<open>With inline mode on, the log call reads \<open>query.From.Username\<close>.\<close>

definition handleInlineQuery :: "env \<Rightarrow> World \<Rightarrow> Handler \<Rightarrow> InlineQuery \<Rightarrow> outcome" where
  "handleInlineQuery e wd h query =
     (if \<not> EnableInlineMode (config h) then Inr (wd, h, None)
      else case iq_From query of
             None \<Rightarrow> Inl (Panic ''invalid memory address or nil pointer dereference'')
           | Some _ \<Rightarrow> Inr (wd, h, None))"

definition HandleUpdate :: "env \<Rightarrow> World \<Rightarrow> Handler \<Rightarrow> Update \<Rightarrow> outcome" where
  "HandleUpdate e wd h update =
     (case upd_Message update of
        Some msg \<Rightarrow> handleMessage e wd h msg
      | None \<Rightarrow>
          (case upd_CallbackQuery update of
             Some query \<Rightarrow> handleCallbackQuery e wd h query
           | None \<Rightarrow>
               (case upd_InlineQuery update of
                  Some query \<Rightarrow> handleInlineQuery e wd h query
                | None \<Rightarrow> Inr (wd, h, None))))"

text \<open>
  The dispatcher goroutine of \<open>main\<close>: updates are handled one after the other, an error
  returned by a handler is logged, and the clock moves on by \<open>idle\<close> nanoseconds while
  the goroutine waits for the next update.
\<close>

fun run :: "env \<Rightarrow> World \<Rightarrow> Handler \<Rightarrow> (nat \<times> Update) list \<Rightarrow> fault + (World \<times> Handler)" where
  "run e wd h [] = Inr (wd, h)"
| "run e wd h ((idle, update) # updates) =
     bindF (HandleUpdate e (wd\<lparr>now := now wd + int idle\<rparr>) h update)
       (\<lambda>(wd1, h1, err). run e wd1 h1 updates)"

section \<open>A concrete environment\<close>

text \<open>
  The state of a freshly started process and one environment, used to run the handlers on
  concrete updates.  \<open>asciiFields\<close>, \<open>asciiToLower\<close> and \<open>asciiTrimSpace\<close> are what
  \<open>strings.Fields\<close>, \<open>strings.ToLower\<close> and \<open>strings.TrimSpace\<close> compute on ASCII
  text.  The completion API of \<open>echoEnv\<close> answers every request with one choice, whose
  text is \<open>re: \<close> followed by the content of the last message of the request; Telegram
  accepts every message and numbers it by the count of external calls made before.
\<close>

definition startWorld :: World where
  "startWorld =
     \<lparr>arrays = Map.empty, nextArray = 0, growcap = (\<lambda>c n. 2 * c),
      wizards = Map.empty, nextWizard = 0, now = 0, calls = 0,
      sent = [], deleted = [], answered = [], requests = []\<rparr>"

definition isSpaceASCII :: "char \<Rightarrow> bool" where
  "isSpaceASCII c = (c \<in> set [CHR '' '', CHR 0x09, CHR 0x0A, CHR 0x0B, CHR 0x0C, CHR 0x0D])"

fun fieldsFrom :: "string \<Rightarrow> string \<Rightarrow> string list" where
  "fieldsFrom cur [] = (if cur = [] then [] else [cur])"
| "fieldsFrom cur (c # cs) =
     (if isSpaceASCII c then (if cur = [] then fieldsFrom [] cs else cur # fieldsFrom [] cs)
      else fieldsFrom (cur @ [c]) cs)"

definition asciiFields :: "string \<Rightarrow> string list" where
  "asciiFields s = fieldsFrom [] s"

definition asciiToLower :: "string \<Rightarrow> string" where
  "asciiToLower s =
     map (\<lambda>c. if 65 \<le> (of_char c :: nat) \<and> (of_char c :: nat) \<le> 90
              then char_of ((of_char c :: nat) + 32) else c) s"

definition asciiTrimSpace :: "string \<Rightarrow> string" where
  "asciiTrimSpace s = rev (dropWhile isSpaceASCII (rev (dropWhile isSpaceASCII s)))"

definition echoReply :: "ChatRequest \<Rightarrow> string" where
  "echoReply req =
     (case rev (req_Messages req) of [] \<Rightarrow> ''re: '' | m # _ \<Rightarrow> ''re: '' @ Content m)"

definition echoEnv :: env where
  "echoEnv =
     \<lparr>elapsed = (\<lambda>k. 1000000),
      tg_SendMessage = (\<lambda>k p. Inr \<lparr>m_MessageID = of_nat k, m_From = None,
                                   m_Chat = Some \<lparr>c_ID = sm_ChatID p\<rparr>, m_Text = sm_Text p\<rparr>),
      tg_GetMe = (\<lambda>k. Inr \<lparr>u_ID = 1, u_Username = ''minimax_bot''\<rparr>),
      mm_doRequest = (\<lambda>k req. Inr (echoReply req)),
      json_Unmarshal = (\<lambda>data. Inr \<lparr>resp_ID = ''r'',
                                    Choices = [\<lparr>ch_Index = 0,
                                                ch_Message = mkMessage ''assistant'' data,
                                                ch_FinishReason = ''stop''\<rparr>]\<rparr>),
      strings_Fields = asciiFields,
      strings_ToLower = asciiToLower,
      strings_TrimSpace = asciiTrimSpace\<rparr>"

text \<open>The configuration of \<open>config.Default\<close>, and the handler and client that \<open>main\<close>
  builds from it.\<close>

definition defaultConfig :: Config where
  "defaultConfig =
     \<lparr>MaxMessageLength = 4096, MinimaxModel = ''abab5.5-chat'', EnableInlineMode = False\<rparr>"

definition NewClient :: "string \<Rightarrow> Client" where
  "NewClient mdl = \<lparr>model = mdl, conversations = Map.empty\<rparr>"

definition startHandler :: Handler where
  "startHandler = New (NewClient (MinimaxModel defaultConfig)) defaultConfig"

text \<open>A text message of a user in the private chat with the bot.\<close>

definition textMessage :: "int64 \<Rightarrow> string \<Rightarrow> tgMessage" where
  "textMessage uid text =
     \<lparr>m_MessageID = 0, m_From = Some \<lparr>u_ID = uid, u_Username = ''user''\<rparr>,
      m_Chat = Some \<lparr>c_ID = uid\<rparr>, m_Text = text\<rparr>"

definition textUpdate :: "int64 \<Rightarrow> string \<Rightarrow> Update" where
  "textUpdate uid text =
     \<lparr>upd_Message = Some (textMessage uid text), upd_CallbackQuery = None,
      upd_InlineQuery = None\<rparr>"

section \<open>Notions used in the statements\<close>

text \<open>The seven content types for which \<open>GetSteps\<close> has a step list.\<close>

definition definedTypes :: "ContentType list" where
  "definedTypes =
     [''marketing'', ''email'', ''report'', ''script'', ''whitepaper'', ''story'', ''poem'']"

text \<open>
  A slice is well formed in a world when its backing array exists, has the slice's
  capacity as its length, holds the slice's length, and was allocated in the past.  Two
  slices are disjoint when they do not share a backing array.
\<close>

definition wfSlice :: "World \<Rightarrow> slice \<Rightarrow> bool" where
  "wfSlice wd s =
     (case s of
        NilSlice \<Rightarrow> True
      | Slice a n c \<Rightarrow>
          (case arrays wd a of
             None \<Rightarrow> False
           | Some xs \<Rightarrow> length xs = c \<and> n \<le> c \<and> a < nextArray wd))"

definition disjointSlices :: "slice \<Rightarrow> slice \<Rightarrow> bool" where
  "disjointSlices s t =
     (case (s, t) of (Slice a _ _, Slice b _ _) \<Rightarrow> a \<noteq> b | _ \<Rightarrow> True)"

text \<open>
  The messages that \<open>Chat\<close> is to send: the messages of the parameters if there are
  any (the slice is not \<open>nil\<close>), and otherwise the stored conversation of the user,
  which has no messages when there is none or when the parameters ask for it to be
  cleared.  \<open>wfHistory\<close>: the stored conversation of the user, if there is one, is a
  well-formed slice.
\<close>

definition storedMessages :: "World \<Rightarrow> Client \<Rightarrow> int64 \<Rightarrow> Message list" where
  "storedMessages wd c userID =
     (case conversations c userID of
        None \<Rightarrow> []
      | Some conv \<Rightarrow> sliceElems wd (Messages conv))"

definition assembledMessages :: "World \<Rightarrow> Client \<Rightarrow> ChatParams \<Rightarrow> Message list" where
  "assembledMessages wd c params =
     (case p_Messages params of
        Some ms \<Rightarrow> ms
      | None \<Rightarrow> if p_ClearConversation params then [] else storedMessages wd c (p_UserID params))"

definition wfHistory :: "World \<Rightarrow> Client \<Rightarrow> int64 \<Rightarrow> bool" where
  "wfHistory wd c userID =
     (case conversations c userID of
        None \<Rightarrow> True
      | Some conv \<Rightarrow> wfSlice wd (Messages conv))"

text \<open>A sequence of \<open>AddMessage\<close> calls on one conversation.\<close>

fun addMessages ::
  "World \<Rightarrow> Conversation \<Rightarrow> (string \<times> string) list \<Rightarrow> World \<times> Conversation" where
  "addMessages wd c [] = (wd, c)"
| "addMessages wd c ((role, content) # ms) =
     (let (wd', c') = AddMessage wd c role content in addMessages wd' c' ms)"

text \<open>
  The wizard sessions.  \<open>totalSteps\<close> is the number of steps of a wizard's content
  type.  \<open>wizardsOk\<close> is what holds of the wizard objects and the session map between
  two updates: the manager's lock is free; no object lies beyond the allocation mark; the
  step of every object is between 0 and the larger of 1 and \<open>totalSteps\<close>; a registered
  session is at step 0 or not yet complete; no two users share an object.
  \<open>advanced\<close> relates the objects before and after one update, \<open>grown\<close> before and
  after any number of updates.
\<close>

definition totalSteps :: "Wizard \<Rightarrow> int" where
  "totalSteps w = int (length (GetSteps (ContentType w)))"

definition wizardsOk :: "World \<Rightarrow> Handler \<Rightarrow> bool" where
  "wizardsOk wd h \<longleftrightarrow>
     mu (wizardManager h) = newRWMutex
     \<and> (\<forall>p. nextWizard wd \<le> p \<longrightarrow> wizards wd p = None)
     \<and> (\<forall>p w. wizards wd p = Some w \<longrightarrow> 0 \<le> Step w \<and> Step w \<le> max 1 (totalSteps w))
     \<and> (\<forall>uid p. sessions (wizardManager h) uid = Some p \<longrightarrow>
           (\<exists>w. wizards wd p = Some w \<and> (Step w = 0 \<or> Step w < totalSteps w)))
     \<and> (\<forall>uid uid' p. sessions (wizardManager h) uid = Some p
           \<and> sessions (wizardManager h) uid' = Some p \<longrightarrow> uid = uid')"

definition advanced :: "World \<Rightarrow> World \<Rightarrow> bool" where
  "advanced wd wd' \<longleftrightarrow>
     (\<forall>p w. wizards wd p = Some w \<longrightarrow>
        (\<exists>w'. wizards wd' p = Some w' \<and> ContentType w' = ContentType w
           \<and> (Step w' = Step w \<or> Step w' = Step w + 1)))"

text \<open>The four ways in which a handler changes the wizard objects and the session map:
  not at all, by \<open>StartWizard\<close>, by \<open>EndWizard\<close>, and by one \<open>SetAnswer\<close> on the
  sender's session followed by \<open>EndWizard\<close> if the wizard is complete.\<close>

definition unchanged :: "World \<Rightarrow> Handler \<Rightarrow> World \<Rightarrow> Handler \<Rightarrow> bool" where
  "unchanged wd h wd' h' \<longleftrightarrow>
     wizards wd' = wizards wd \<and> nextWizard wd' = nextWizard wd
     \<and> wizardManager h' = wizardManager h"

definition started :: "World \<Rightarrow> Handler \<Rightarrow> World \<Rightarrow> Handler \<Rightarrow> bool" where
  "started wd h wd' h' \<longleftrightarrow>
     (\<exists>uid ct t.
        wizards wd' = (wizards wd)(nextWizard wd \<mapsto> newWizard uid ct t)
        \<and> nextWizard wd' = Suc (nextWizard wd)
        \<and> wizardManager h' =
             (wizardManager h)\<lparr>sessions := (sessions (wizardManager h))(uid \<mapsto> nextWizard wd)\<rparr>)"

definition ended :: "World \<Rightarrow> Handler \<Rightarrow> World \<Rightarrow> Handler \<Rightarrow> bool" where
  "ended wd h wd' h' \<longleftrightarrow>
     (\<exists>uid.
        wizards wd' = wizards wd \<and> nextWizard wd' = nextWizard wd
        \<and> wizardManager h' =
             (wizardManager h)\<lparr>sessions := (sessions (wizardManager h))(uid := None)\<rparr>)"

definition answered1 :: "World \<Rightarrow> Handler \<Rightarrow> World \<Rightarrow> Handler \<Rightarrow> bool" where
  "answered1 wd h wd' h' \<longleftrightarrow>
     (\<exists>uid p w k v.
        sessions (wizardManager h) uid = Some p \<and> wizards wd p = Some w
        \<and> wizards wd' = (wizards wd)(p \<mapsto> SetAnswer k v w)
        \<and> nextWizard wd' = nextWizard wd
        \<and> wizardManager h' =
             (if IsComplete (SetAnswer k v w)
              then (wizardManager h)\<lparr>sessions := (sessions (wizardManager h))(uid := None)\<rparr>
              else wizardManager h))"

definition grown :: "World \<Rightarrow> World \<Rightarrow> bool" where
  "grown wd wd' \<longleftrightarrow>
     (\<forall>p w. wizards wd p = Some w \<longrightarrow>
        (\<exists>w'. wizards wd' p = Some w' \<and> ContentType w' = ContentType w \<and> Step w \<le> Step w'))"

text \<open>The texts that Telegram has been sent when an operation has returned.\<close>

definition textsSent :: "fault + (World \<times> 'a) \<Rightarrow> string list" where
  "textsSent r = (case r of Inl f \<Rightarrow> [] | Inr (wd, x) \<Rightarrow> map sm_Text (sent wd))"

text \<open>What a run of the dispatcher from the start leaves behind: for each wizard object, in
  the order of allocation, its content type, its step, its number of steps, and whether
  the step is between 0 and the number of steps.\<close>

definition wizardReport :: "World \<Rightarrow> (ContentType \<times> int \<times> int \<times> bool) option list" where
  "wizardReport wd =
     map (\<lambda>p. map_option
                (\<lambda>w. (ContentType w, GetStep w, totalSteps w,
                      0 \<le> GetStep w \<and> GetStep w \<le> totalSteps w))
                (wizards wd p))
       [0..<nextWizard wd]"

definition runReport ::
  "env \<Rightarrow> (nat \<times> Update) list \<Rightarrow> fault + (ContentType \<times> int \<times> int \<times> bool) option list" where
  "runReport e updates =
     (case run e startWorld startHandler updates of
        Inl f \<Rightarrow> Inl f
      | Inr (wd, h) \<Rightarrow> Inr (wizardReport wd))"

section \<open>Properties\<close>

subsection \<open>Auxiliary facts\<close>

lemma bindF_Inr [simp]: "bindF (Inr x) f = f x"
  by (simp add: bindF_def)

lemma bindF_Inl [simp]: "bindF (Inl x) f = Inl x"
  by (simp add: bindF_def)

lemma bindF_eq_Inr: "bindF r f = Inr y \<longleftrightarrow> (\<exists>x. r = Inr x \<and> f x = Inr y)"
  by (cases r) simp_all

lemma sublist_skip: "sublist a ys \<Longrightarrow> sublist a (xs @ ys)"
  by (metis sublist_append_leftI sublist_order.order_trans)

lemma sublist_here: "sublist a (a @ ys)"
  by simp

lemma buildPoemPrompt_embeds:
  "sublist (lookupStr m ''style'') (buildPoemPrompt m)"
  "sublist (lookupStr m ''topic'') (buildPoemPrompt m)"
  "sublist (lookupStr m ''mood'') (buildPoemPrompt m)"
  "sublist (lookupStr m ''length'') (buildPoemPrompt m)"
  "sublist (lookupStr m ''structure'') (buildPoemPrompt m)"
  unfolding buildPoemPrompt_def
  by (intro sublist_skip sublist_here)+

lemma poem_keys:
  "map Key (GetSteps ''poem'') = [''style'', ''topic'', ''mood'', ''length'', ''structure'']"
  by (simp add: GetSteps_def GetPoemSteps_def mkStep_def)

text \<open>What the operations on slices and the external calls leave unchanged.\<close>

lemma newArray_frame [simp]:
  "requests (snd (newArray wd xs)) = requests wd"
  "calls (snd (newArray wd xs)) = calls wd"
  "now (snd (newArray wd xs)) = now wd"
  "sent (snd (newArray wd xs)) = sent wd"
  "deleted (snd (newArray wd xs)) = deleted wd"
  "answered (snd (newArray wd xs)) = answered wd"
  "wizards (snd (newArray wd xs)) = wizards wd"
  "nextWizard (snd (newArray wd xs)) = nextWizard wd"
  "growcap (snd (newArray wd xs)) = growcap wd"
  by (simp_all add: newArray_def)

lemma appendSlice_frame [simp]:
  "requests (fst (appendSlice wd s x)) = requests wd"
  "calls (fst (appendSlice wd s x)) = calls wd"
  "now (fst (appendSlice wd s x)) = now wd"
  "sent (fst (appendSlice wd s x)) = sent wd"
  "deleted (fst (appendSlice wd s x)) = deleted wd"
  "answered (fst (appendSlice wd s x)) = answered wd"
  "wizards (fst (appendSlice wd s x)) = wizards wd"
  "nextWizard (fst (appendSlice wd s x)) = nextWizard wd"
  "growcap (fst (appendSlice wd s x)) = growcap wd"
  by (simp_all add: appendSlice_def growAppend_def Let_def split_beta split: slice.splits)

lemma AddMessage_frame [simp]:
  "requests (fst (AddMessage wd c r ct)) = requests wd"
  "calls (fst (AddMessage wd c r ct)) = calls wd"
  "now (fst (AddMessage wd c r ct)) = now wd"
  "sent (fst (AddMessage wd c r ct)) = sent wd"
  "deleted (fst (AddMessage wd c r ct)) = deleted wd"
  "answered (fst (AddMessage wd c r ct)) = answered wd"
  "wizards (fst (AddMessage wd c r ct)) = wizards wd"
  "nextWizard (fst (AddMessage wd c r ct)) = nextWizard wd"
  "growcap (fst (AddMessage wd c r ct)) = growcap wd"
  by (simp_all add: AddMessage_def split_beta)

lemma GetMessages_frame [simp]:
  "requests (fst (GetMessages wd c)) = requests wd"
  "calls (fst (GetMessages wd c)) = calls wd"
  "now (fst (GetMessages wd c)) = now wd"
  "sent (fst (GetMessages wd c)) = sent wd"
  "deleted (fst (GetMessages wd c)) = deleted wd"
  "answered (fst (GetMessages wd c)) = answered wd"
  "wizards (fst (GetMessages wd c)) = wizards wd"
  "nextWizard (fst (GetMessages wd c)) = nextWizard wd"
  "growcap (fst (GetMessages wd c)) = growcap wd"
  by (simp_all add: GetMessages_def makeSlice_def copySlice_def Let_def split_beta)

lemma assemble_frame [simp]:
  "requests (fst (assemble wd c params)) = requests wd"
  "calls (fst (assemble wd c params)) = calls wd"
  "now (fst (assemble wd c params)) = now wd"
  "sent (fst (assemble wd c params)) = sent wd"
  "deleted (fst (assemble wd c params)) = deleted wd"
  "answered (fst (assemble wd c params)) = answered wd"
  "wizards (fst (assemble wd c params)) = wizards wd"
  "nextWizard (fst (assemble wd c params)) = nextWizard wd"
  by (simp_all add: assemble_def Let_def split_beta split: option.splits)

lemma external_frame [simp]:
  "requests (external e wd) = requests wd"
  "sent (external e wd) = sent wd"
  "deleted (external e wd) = deleted wd"
  "answered (external e wd) = answered wd"
  "wizards (external e wd) = wizards wd"
  "nextWizard (external e wd) = nextWizard wd"
  "arrays (external e wd) = arrays wd"
  "nextArray (external e wd) = nextArray wd"
  "growcap (external e wd) = growcap wd"
  by (simp_all add: external_def)

text \<open>The encoders.\<close>

lemmas utf8_defs = jsonString_def ValidString_def DecodeRuneInString_def runeSize_def
  accepted_def continuation_def byte_def replacementChar_def

lemma valid_coerce: "validFrom k s \<Longrightarrow> coerceFrom k s = s"
  by (induction k s rule: coerceFrom.induct) (auto split: option.splits if_splits)

lemma ValidString_json: "ValidString s \<Longrightarrow> jsonString s = s"
  by (simp add: ValidString_def jsonString_def valid_coerce)

lemma Decode_ascii: "byte c < 0x80 \<Longrightarrow> DecodeRuneInString (c # cs) = Some 1"
  by (simp add: DecodeRuneInString_def runeSize_def)

lemma ascii_valid: "\<forall>c\<in>set s. byte c < 0x80 \<Longrightarrow> validFrom 0 s"
  by (induction s) (auto simp: Decode_ascii)

lemma runeSize_le: "runeSize x \<le> 4"
  by (simp add: runeSize_def)

lemma accepted_continuation: "accepted x c \<Longrightarrow> continuation c"
  by (auto simp: accepted_def continuation_def split: if_splits)

lemma Decode_iff:
  "DecodeRuneInString (c # cs) = Some n \<longleftrightarrow>
     n = runeSize (byte c) \<and> n \<noteq> 0 \<and> n \<le> Suc (length cs)
     \<and> (2 \<le> n \<longrightarrow> accepted (byte c) (cs ! 0))
     \<and> (3 \<le> n \<longrightarrow> continuation (cs ! 1))
     \<and> (4 \<le> n \<longrightarrow> continuation (cs ! 2))"
proof -
  have "runeSize (byte c) \<le> 4" by (rule runeSize_le)
  then consider "runeSize (byte c) = 0" | "runeSize (byte c) = 1" | "runeSize (byte c) = 2"
    | "runeSize (byte c) = 3" | "runeSize (byte c) = 4"
    by linarith
  then show ?thesis
  proof cases
    case 1 then show ?thesis by (auto simp: DecodeRuneInString_def Suc_le_eq)
  next
    case 2 then show ?thesis by (auto simp: DecodeRuneInString_def Suc_le_eq)
  next
    case 3 then show ?thesis by (auto simp: DecodeRuneInString_def Suc_le_eq)
  next
    case 4 then show ?thesis by (auto simp: DecodeRuneInString_def Suc_le_eq)
  next
    case 5 then show ?thesis by (auto simp: DecodeRuneInString_def Suc_le_eq)
  qed
qed

lemma Decode_append:
  assumes "DecodeRuneInString s = Some n"
  shows "DecodeRuneInString (s @ t) = Some n"
proof (cases s)
  case Nil
  with assms show ?thesis by (simp add: DecodeRuneInString_def)
next
  case (Cons c cs)
  with assms have d: "DecodeRuneInString (c # cs) = Some n" by simp
  then have n: "n \<le> Suc (length cs)" by (simp add: Decode_iff)
  have "DecodeRuneInString (c # (cs @ t)) = Some n"
    using d n unfolding Decode_iff by (auto simp: nth_append)
  with Cons show ?thesis by simp
qed

lemma Decode_take:
  assumes "DecodeRuneInString s = Some n" and "n \<le> k"
  shows "DecodeRuneInString (take k s) = Some n"
proof (cases s)
  case Nil
  with assms show ?thesis by (simp add: DecodeRuneInString_def)
next
  case (Cons c cs)
  with assms have d: "DecodeRuneInString (c # cs) = Some n" by simp
  then have n: "n \<le> Suc (length cs)" "n \<noteq> 0" by (simp_all add: Decode_iff)
  from assms(2) n obtain k' where k: "k = Suc k'" by (cases k) auto
  have "DecodeRuneInString (c # take k' cs) = Some n"
    using d n assms(2) k unfolding Decode_iff by auto
  with Cons k show ?thesis by simp
qed

lemma Decode_continuation:
  assumes "DecodeRuneInString (c # cs) = Some n" and "Suc i < n"
  shows "continuation (cs ! i)"
proof -
  from assms(1) have n: "n \<le> 4" using runeSize_le [of "byte c"] by (simp add: Decode_iff)
  with assms(2) have "i = 0 \<or> i = 1 \<or> i = 2" by linarith
  with assms show ?thesis
    using accepted_continuation [of "byte c" "cs ! 0"] unfolding Decode_iff by auto
qed

lemma validFrom_append:
  "validFrom k a \<Longrightarrow> k \<le> length a \<Longrightarrow> validFrom 0 b \<Longrightarrow> validFrom k (a @ b)"
proof (induction a arbitrary: k)
  case Nil
  then show ?case by simp
next
  case (Cons c cs)
  show ?case
  proof (cases "0 < k")
    case True
    with Cons.prems have "validFrom (k - 1) cs" "k - 1 \<le> length cs" by simp_all
    from Cons.IH [OF this Cons.prems(3)] True show ?thesis by simp
  next
    case False
    with Cons.prems(1) obtain n where d: "DecodeRuneInString (c # cs) = Some n"
      and v: "validFrom (n - 1) cs"
      by (auto split: option.splits)
    from d have "n \<le> Suc (length cs)" by (simp add: Decode_iff)
    then have "n - 1 \<le> length cs" by simp
    from Cons.IH [OF v this Cons.prems(3)] Decode_append [OF d, of b] False
    show ?thesis by simp
  qed
qed

lemma validFrom_take:
  assumes "validFrom j s"
    and "\<forall>i. i < j \<and> i < length s \<longrightarrow> continuation (s ! i)"
    and "k < length s \<longrightarrow> \<not> continuation (s ! k)"
  shows "validFrom j (take k s)"
  using assms
proof (induction s arbitrary: j k)
  case Nil
  then show ?case by simp
next
  case (Cons c cs)
  show ?case
  proof (cases k)
    case 0
    then show ?thesis by simp
  next
    case (Suc k')
    show ?thesis
    proof (cases "0 < j")
      case True
      with Cons.prems(1) have v: "validFrom (j - 1) cs" by simp
      have a: "\<forall>i. i < j - 1 \<and> i < length cs \<longrightarrow> continuation (cs ! i)"
      proof (intro allI impI)
        fix i assume "i < j - 1 \<and> i < length cs"
        then have "Suc i < j \<and> Suc i < length (c # cs)" by auto
        with Cons.prems(2) have "continuation ((c # cs) ! Suc i)" by blast
        then show "continuation (cs ! i)" by simp
      qed
      have b: "k' < length cs \<longrightarrow> \<not> continuation (cs ! k')"
        using Cons.prems(3) Suc by simp
      from Cons.IH [OF v a b] True Suc show ?thesis by simp
    next
      case False
      with Cons.prems(1) obtain n where d: "DecodeRuneInString (c # cs) = Some n"
        and v: "validFrom (n - 1) cs"
        by (auto split: option.splits)
      from d have n: "n \<le> Suc (length cs)" "n \<noteq> 0" by (simp_all add: Decode_iff)
      have a: "\<forall>i. i < n - 1 \<and> i < length cs \<longrightarrow> continuation (cs ! i)"
      proof (intro allI impI)
        fix i assume "i < n - 1 \<and> i < length cs"
        then have "Suc i < n" by linarith
        from Decode_continuation [OF d this] show "continuation (cs ! i)" .
      qed
      have b: "k' < length cs \<longrightarrow> \<not> continuation (cs ! k')"
        using Cons.prems(3) Suc by simp
      have nk: "n \<le> k"
      proof (rule ccontr)
        assume "\<not> n \<le> k"
        with Suc have lt: "Suc k' < n" by simp
        from Decode_continuation [OF d lt] have "continuation (cs ! k')" .
        moreover from lt n have "k' < length cs" by simp
        ultimately show False using b by simp
      qed
      have "DecodeRuneInString (take k (c # cs)) = Some n"
        by (rule Decode_take [OF d nk])
      then have "DecodeRuneInString (c # take k' cs) = Some n" using Suc by simp
      with Cons.IH [OF v a b] False Suc show ?thesis by simp
    qed
  qed
qed

lemma ValidString_take:
  "ValidString s \<Longrightarrow> (k < length s \<longrightarrow> \<not> continuation (s ! k)) \<Longrightarrow> ValidString (take k s)"
  unfolding ValidString_def by (rule validFrom_take) simp_all

lemma ValidString_append: "ValidString a \<Longrightarrow> ValidString b \<Longrightarrow> ValidString (a @ b)"
  unfolding ValidString_def by (rule validFrom_append) simp_all

lemma ValidString_dots: "ValidString ''...''"
  by (simp add: ValidString_def DecodeRuneInString_def runeSize_def byte_def)

lemma marshal_buildRequest:
  "marshalChatRequest (buildRequest c params ms) =
     (if p_Temperature params = PosInf \<or> p_TopP params = PosInf
      then Inl ''json: unsupported value: +Inf''
      else Inr ((buildRequest c params ms)
                  \<lparr>req_Model := jsonString (model c), req_Messages := map jsonMessage ms\<rparr>))"
  by (cases "p_Temperature params"; cases "p_TopP params")
     (simp_all add: marshalChatRequest_def buildRequest_def unsupportedValue_def f64_pos_def
       f64_0_7_def)

lemma doRequest_frame [simp]:
  "sent (fst (doRequest e wd req)) = sent wd"
  "deleted (fst (doRequest e wd req)) = deleted wd"
  "answered (fst (doRequest e wd req)) = answered wd"
  "wizards (fst (doRequest e wd req)) = wizards wd"
  "nextWizard (fst (doRequest e wd req)) = nextWizard wd"
  "arrays (fst (doRequest e wd req)) = arrays wd"
  "nextArray (fst (doRequest e wd req)) = nextArray wd"
  "growcap (fst (doRequest e wd req)) = growcap wd"
  by (simp_all add: doRequest_def split: sum.splits)

lemma doRequest_encoded:
  "marshalChatRequest req = Inr body \<Longrightarrow>
     doRequest e wd req =
       (external e (wd\<lparr>requests := requests wd @ [body]\<rparr>), mm_doRequest e (calls wd) body)"
  by (simp add: doRequest_def)

lemma doRequest_refused:
  "marshalChatRequest req = Inl err \<Longrightarrow>
     doRequest e wd req = (wd, Inl (''failed to marshal request: '' @ err))"
  by (simp add: doRequest_def)

lemma Chat_no_messages:
  "snd (snd (assemble wd c params)) = [] \<Longrightarrow>
     Chat e wd c params = (fst (assemble wd c params), fst (snd (assemble wd c params)),
                           Inl ''no messages provided'')"
  by (simp add: Chat_def split_beta)

lemma Chat_issues_one:
  assumes "snd (snd (assemble wd c params)) \<noteq> []"
    and "p_Temperature params \<noteq> PosInf" and "p_TopP params \<noteq> PosInf"
  shows "requests (fst (Chat e wd c params)) =
       requests wd @ [(buildRequest (fst (snd (assemble wd c params))) params
                         (snd (snd (assemble wd c params))))
                        \<lparr>req_Model := jsonString (model (fst (snd (assemble wd c params)))),
                         req_Messages := map jsonMessage (snd (snd (assemble wd c params)))\<rparr>]"
  using assms
  by (simp add: Chat_def split_beta Let_def marshal_buildRequest doRequest_encoded
      split: sum.splits option.splits list.splits)

lemma Chat_refused:
  assumes "snd (snd (assemble wd c params)) \<noteq> []"
    and "p_Temperature params = PosInf \<or> p_TopP params = PosInf"
  shows "Chat e wd c params =
           (fst (assemble wd c params), fst (snd (assemble wd c params)),
            Inl ''failed to marshal request: json: unsupported value: +Inf'')"
  using assms
  by (simp add: Chat_def split_beta Let_def marshal_buildRequest doRequest_refused)

lemma assemble_given:
  "p_Messages params = Some ms \<Longrightarrow> assemble wd c params = (wd, c, ms)"
  by (simp add: assemble_def)

lemma sliceElems_GetMessages_empty:
  "sliceLen (Messages conv) = 0 \<Longrightarrow> sliceElems (fst (GetMessages wd conv)) (snd (GetMessages wd conv)) = []"
  by (simp add: GetMessages_def makeSlice_def newArray_def copySlice_def sliceElems_def Let_def)

lemma assemble_empty_history:
  assumes "p_Messages params = None"
    and "case conversations c (p_UserID params) of None \<Rightarrow> True
         | Some conv \<Rightarrow> p_ClearConversation params \<or> sliceLen (Messages conv) = 0"
  shows "snd (snd (assemble wd c params)) = []"
  using assms
  by (auto simp: assemble_def getOrCreateConversation_def Let_def split_beta newConversation_def
      SetSystem_def Clear_def sliceLen_def sliceElems_GetMessages_empty split: option.splits)

text \<open>Slices.\<close>

lemma length_sliceElems: "wfSlice wd s \<Longrightarrow> length (sliceElems wd s) = sliceLen s"
  by (auto simp: wfSlice_def sliceElems_def sliceLen_def arrayAt_def split: slice.splits option.splits)

lemma appendSlice_elems:
  assumes "wfSlice wd s" and "appendSlice wd s x = (wd', s')"
  shows "sliceElems wd' s' = sliceElems wd s @ [x]" and "wfSlice wd' s'"
    and "nextArray wd \<le> nextArray wd'"
  using assms
  by (auto simp: appendSlice_def growAppend_def newArray_def wfSlice_def sliceElems_def
      arrayAt_def Let_def take_Suc_conv_app_nth max_def
      split: slice.splits option.splits if_splits)

lemma appendSlice_other:
  assumes "wfSlice wd s" and "wfSlice wd t" and "disjointSlices s t"
    and "appendSlice wd s x = (wd', s')"
  shows "sliceElems wd' t = sliceElems wd t" and "wfSlice wd' t" and "disjointSlices s' t"
  using assms
  by (auto simp: appendSlice_def growAppend_def newArray_def wfSlice_def sliceElems_def
      arrayAt_def Let_def disjointSlices_def
      split: slice.splits option.splits if_splits)

lemma GetMessages_copy:
  assumes "wfSlice wd (Messages c)" and "GetMessages wd c = (wd', r)"
  shows "sliceElems wd' r = sliceElems wd (Messages c)"
    and "sliceElems wd' (Messages c) = sliceElems wd (Messages c)"
    and "wfSlice wd' r" and "wfSlice wd' (Messages c)" and "disjointSlices (Messages c) r"
    and "r = Slice (nextArray wd) (sliceLen (Messages c)) (sliceLen (Messages c))"
  using assms
  by (auto simp: GetMessages_def makeSlice_def copySlice_def newArray_def wfSlice_def
      sliceElems_def sliceLen_def arrayAt_def Let_def disjointSlices_def
      split: slice.splits option.splits if_splits)

lemma storeSlice_other:
  assumes "wfSlice wd t" and "disjointSlices s t" and "storeSlice wd s i x = Inr wd'"
  shows "sliceElems wd' t = sliceElems wd t"
  using assms
  by (auto simp: storeSlice_def wfSlice_def sliceElems_def arrayAt_def disjointSlices_def
      split: slice.splits option.splits if_splits)

lemma AddMessage_elems:
  assumes "wfSlice wd (Messages c)" and "AddMessage wd c role content = (wd', c')"
  shows "sliceElems wd' (Messages c') = sliceElems wd (Messages c) @ [mkMessage role content]"
    and "wfSlice wd' (Messages c')"
  using assms appendSlice_elems [of wd "Messages c" "mkMessage role content"]
  by (auto simp: AddMessage_def mkMessage_def split_beta prod_eq_iff)

lemma addMessages_elems:
  assumes "wfSlice wd (Messages c)" and "addMessages wd c ms = (wd', c')"
  shows "sliceElems wd' (Messages c') =
           sliceElems wd (Messages c) @ map (\<lambda>(role, content). mkMessage role content) ms
         \<and> wfSlice wd' (Messages c')"
  using assms
proof (induction ms arbitrary: wd c)
  case Nil
  then show ?case by simp
next
  case (Cons m ms)
  obtain role content where m: "m = (role, content)" by (cases m)
  obtain wd1 c1 where a: "AddMessage wd c role content = (wd1, c1)" by (cases "AddMessage wd c role content")
  from Cons.prems(2) have r: "addMessages wd1 c1 ms = (wd', c')"
    by (simp add: m a)
  from AddMessage_elems [OF Cons.prems(1) a] Cons.IH [OF _ r] show ?case
    by (simp add: m)
qed

lemma GetMessages_Clear:
  "sliceElems (fst (GetMessages wd (Clear c))) (snd (GetMessages wd (Clear c))) = []"
  by (simp add: GetMessages_def Clear_def makeSlice_def copySlice_def newArray_def sliceElems_def
      sliceLen_def Let_def)

text \<open>What \<open>Chat\<close> assembles.\<close>

lemma assemble_messages:
  assumes "wfHistory wd c (p_UserID params)"
  shows "snd (snd (assemble wd c params)) = assembledMessages wd c params"
proof (cases "p_Messages params")
  case (Some ms)
  then show ?thesis by (simp add: assemble_given assembledMessages_def)
next
  case None
  show ?thesis
  proof (cases "conversations c (p_UserID params)")
    case n: None
    with None have "snd (snd (assemble wd c params)) = []"
      by (intro assemble_empty_history) simp_all
    with None n show ?thesis by (simp add: assembledMessages_def storedMessages_def)
  next
    case (Some conv)
    show ?thesis
    proof (cases "p_ClearConversation params")
      case True
      with None Some have "snd (snd (assemble wd c params)) = []"
        by (intro assemble_empty_history) simp_all
      with None True show ?thesis by (simp add: assembledMessages_def)
    next
      case False
      let ?conv1 = "if p_SystemPrompt params \<noteq> [] then SetSystem conv (p_SystemPrompt params)
                    else conv"
      have m: "Messages ?conv1 = Messages conv" by (simp add: SetSystem_def)
      from assms Some have wf: "wfSlice wd (Messages ?conv1)" by (simp add: wfHistory_def m)
      obtain wd1 r where g: "GetMessages wd ?conv1 = (wd1, r)" by (cases "GetMessages wd ?conv1")
      from GetMessages_copy(1) [OF wf g] have "sliceElems wd1 r = sliceElems wd (Messages conv)"
        by (simp add: m)
      with None Some False g show ?thesis
        by (simp add: assemble_def getOrCreateConversation_def Let_def assembledMessages_def
            storedMessages_def)
    qed
  qed
qed

lemma Chat_calls:
  assumes "snd (snd (assemble wd c params)) \<noteq> []"
    and "p_Temperature params \<noteq> PosInf" and "p_TopP params \<noteq> PosInf"
  shows "calls (fst (Chat e wd c params)) = Suc (calls wd)"
  using assms
  by (simp add: Chat_def split_beta Let_def marshal_buildRequest doRequest_encoded external_def
      AddMessage_def appendSlice_def growAppend_def newArray_def
      split: sum.splits option.splits list.splits slice.splits)

text \<open>The handlers.\<close>

lemma Chat_frame [simp]:
  "wizards (fst (Chat e wd c params)) = wizards wd"
  "nextWizard (fst (Chat e wd c params)) = nextWizard wd"
  by (simp_all add: Chat_def split_beta Let_def split: sum.splits option.splits list.splits)

lemma tg_frame [simp]:
  "wizards (fst (tgSendMessage e wd p)) = wizards wd"
  "nextWizard (fst (tgSendMessage e wd p)) = nextWizard wd"
  "wizards (tgDeleteMessage e wd c i) = wizards wd"
  "nextWizard (tgDeleteMessage e wd c i) = nextWizard wd"
  "wizards (tgAnswerCallbackQuery e wd q) = wizards wd"
  "nextWizard (tgAnswerCallbackQuery e wd q) = nextWizard wd"
  "wizards (fst (tgGetMe e wd)) = wizards wd"
  "nextWizard (fst (tgGetMe e wd)) = nextWizard wd"
  "wizards (fst (sendRaw e wd c t)) = wizards wd"
  "nextWizard (fst (sendRaw e wd c t)) = nextWizard wd"
  by (simp_all add: tgSendMessage_def tgDeleteMessage_def tgAnswerCallbackQuery_def tgGetMe_def
      sendRaw_def split_beta Let_def)

lemma deleteNotice_frame [simp]:
  "wizards (deleteNotice e wd c tm) = wizards wd"
  "nextWizard (deleteNotice e wd c tm) = nextWizard wd"
  by (simp_all add: deleteNotice_def split: sum.splits)

lemma sendMessage_frame:
  assumes "sendMessage e wd h cid t = Inr (wd', r)"
  shows "wizards wd' = wizards wd" and "nextWizard wd' = nextWizard wd"
  using assms
  by (auto simp: sendMessage_def bindF_eq_Inr tgSendMessage_def external_def Let_def)

lemma sendMessage_ok:
  "MaxMessageLength (config h) \<ge> 3 \<Longrightarrow> \<exists>wd' r. sendMessage e wd h cid t = Inr (wd', r)"
  by (auto simp: sendMessage_def truncateText_def)

lemma sendReply_frame:
  assumes "sendReply e wd h cid resp = Inr wd'"
  shows "wizards wd' = wizards wd" and "nextWizard wd' = nextWizard wd"
  using assms
  by (auto simp: sendReply_def bindF_eq_Inr split: list.splits dest: sendMessage_frame)

lemma sendReply_ok:
  "MaxMessageLength (config h) \<ge> 3 \<Longrightarrow> \<exists>wd'. sendReply e wd h cid resp = Inr wd'"
proof (cases "Choices resp")
  case Nil
  then show ?thesis by (simp add: sendReply_def)
next
  case (Cons choice rest)
  assume "MaxMessageLength (config h) \<ge> 3"
  from sendMessage_ok [OF this, of e wd cid "Content (ch_Message choice)"]
  obtain wd' r where "sendMessage e wd h cid (Content (ch_Message choice)) = Inr (wd', r)"
    by blast
  with Cons show ?thesis by (simp add: sendReply_def)
qed

lemma replyOrError_frame:
  assumes "replyOrError e wd h cid notice res = Inr (wd', h', err)"
  shows "h' = h" and "wizards wd' = wizards wd" and "nextWizard wd' = nextWizard wd"
  using assms
  by (auto simp: replyOrError_def bindF_eq_Inr split: sum.splits
      dest: sendMessage_frame sendReply_frame)

lemma replyOrError_ok:
  assumes "MaxMessageLength (config h) \<ge> 3"
  shows "\<exists>wd' err. replyOrError e wd h cid notice res = Inr (wd', h, err)"
proof (cases res)
  case (Inl err)
  from sendMessage_ok [OF assms, of e wd cid "notice @ err"] Inl show ?thesis
    by (auto simp: replyOrError_def)
next
  case (Inr response)
  from sendReply_ok [OF assms, of e wd cid response] Inr show ?thesis
    by (auto simp: replyOrError_def)
qed

lemma GetSteps_unknown: "ct \<notin> set definedTypes \<Longrightarrow> GetSteps ct = []"
  by (simp add: definedTypes_def GetSteps_def)

lemma StartWizard_free:
  "mu m = newRWMutex \<Longrightarrow>
     StartWizard wd m uid ct =
       Inr (wd\<lparr>wizards := (wizards wd)(nextWizard wd \<mapsto> newWizard uid ct (now wd)),
               nextWizard := Suc (nextWizard wd)\<rparr>,
            m\<lparr>sessions := (sessions m)(uid \<mapsto> nextWizard wd)\<rparr>, nextWizard wd)"
  by (simp add: StartWizard_def Lock_def Unlock_def newRWMutex_def Let_def)

text \<open>\<open>ParseFlags\<close>: the second result is the first word that does not begin with a
  dash.\<close>

lemma parseParts_words:
  "filter (\<lambda>part. \<not> HasPrefix part ''-'') (snd (parseParts parts flags remaining collectArgs))
     = filter (\<lambda>part. \<not> HasPrefix part ''-'') remaining
         @ filter (\<lambda>part. \<not> HasPrefix part ''-'') parts"
proof (induction parts arbitrary: flags remaining collectArgs)
  case Nil
  then show ?case by simp
next
  case (Cons part parts)
  have d: "length part > 1 \<or> length part = 1" if "HasPrefix part ''-''"
    using that by (cases part) (auto simp: HasPrefix_def)
  have f: "flagValue part = []" if "\<not> HasPrefix part ''-''"
    using that by (simp add: flagValue_def)
  show ?case
  proof (cases "HasPrefix part ''-''")
    case True
    with d Cons.IH show ?thesis by auto
  next
    case False
    with f Cons.IH show ?thesis by simp
  qed
qed

lemma ParseFlags_words:
  "snd (ParseFlags e input) =
     (case filter (\<lambda>part. \<not> HasPrefix part ''-'') (strings_Fields e (TrimPrefix input ''/'')) of
        [] \<Rightarrow> []
      | part # _ \<Rightarrow> part)"
  using parseParts_words [of "strings_Fields e (TrimPrefix input ''/'')" Map.empty "[]" False]
  by (simp add: ParseFlags_def split_beta Let_def)

lemma ParseFlags_first:
  assumes "strings_Fields e (TrimPrefix input ''/'') = dashes @ ct # rest"
    and "\<forall>d\<in>set dashes. HasPrefix d ''-''" and "\<not> HasPrefix ct ''-''"
  shows "snd (ParseFlags e input) = ct"
proof -
  from assms(2) have "filter (\<lambda>part. \<not> HasPrefix part ''-'') dashes = []"
    by (induction dashes) simp_all
  with assms(1,3) show ?thesis by (simp add: ParseFlags_words)
qed

lemma ParseFlags_none:
  assumes "\<forall>d\<in>set (strings_Fields e (TrimPrefix input ''/'')). HasPrefix d ''-''"
  shows "snd (ParseFlags e input) = []"
proof -
  from assms have "filter (\<lambda>part. \<not> HasPrefix part ''-'')
                     (strings_Fields e (TrimPrefix input ''/'')) = []"
    by (induction "strings_Fields e (TrimPrefix input ''/'')") simp_all
  then show ?thesis by (simp add: ParseFlags_words)
qed

lemma cmdCreate_help:
  assumes "snd (ParseFlags e args) = []" and "m_Chat msg = Some ch"
    and "MaxMessageLength (config h) \<ge> 3"
  shows "\<exists>wd'. cmdCreate e wd h msg args = Inr (wd', h, None)
           \<and> wizards wd' = wizards wd \<and> nextWizard wd' = nextWizard wd"
proof -
  from sendMessage_ok [OF assms(3)] obtain wd' r where
    s: "sendMessage e wd h (c_ID ch) createHelpText = Inr (wd', r)" by blast
  from sendMessage_frame [OF s] s assms(1,2) show ?thesis
    by (simp add: cmdCreate_def split_beta msgChatID_def)
qed

lemma cmdCreate_starts:
  assumes ct: "snd (ParseFlags e args) = ct" "ct \<noteq> []"
    and msg: "m_From msg = Some u" "m_Chat msg = Some ch"
    and free: "mu (wizardManager h) = newRWMutex"
    and len: "MaxMessageLength (config h) \<ge> 3"
  shows "\<exists>wd' h' err. cmdCreate e wd h msg args = Inr (wd', h', err)
           \<and> sessions (wizardManager h') (u_ID u) = Some (nextWizard wd)
           \<and> wizards wd' (nextWizard wd) = Some (newWizard (u_ID u) ct (now wd))"
proof -
  let ?wd1 = "wd\<lparr>wizards := (wizards wd)(nextWizard wd \<mapsto> newWizard (u_ID u) ct (now wd)),
               nextWizard := Suc (nextWizard wd)\<rparr>"
  let ?h1 = "h\<lparr>wizardManager := (wizardManager h)\<lparr>sessions := (sessions (wizardManager h))(u_ID u \<mapsto> nextWizard wd)\<rparr>\<rparr>"
  let ?flags = "fst (ParseFlags e args)"
  have len1: "MaxMessageLength (config ?h1) \<ge> 3" using len by simp
  show ?thesis
  proof (cases "lookupStr ?flags ''t'' \<noteq> []")
    case True
    obtain wd2 r where s: "sendMessage e ?wd1 ?h1 (c_ID ch) ''Generating content...'' = Inr (wd2, r)"
      using sendMessage_ok [OF len1] by blast
    let ?chat = "Chat e wd2 (minimaxClient ?h1)
                   (userParams (u_ID u) (Some [mkMessage ''user'' (quickPrompt ?flags)]))"
    let ?h2 = "?h1\<lparr>minimaxClient := fst (snd ?chat)\<rparr>"
    have len2: "MaxMessageLength (config ?h2) \<ge> 3" using len by simp
    have w2: "wizards wd2 = wizards ?wd1" using sendMessage_frame [OF s] by simp
    obtain wd4 err where s4:
      "replyOrError e (fst ?chat) ?h2 (c_ID ch) ''Error: '' (snd (snd ?chat)) = Inr (wd4, ?h2, err)"
      using replyOrError_ok [OF len2] by blast
    have "wizards wd4 = wizards ?wd1" using replyOrError_frame(2) [OF s4] w2 by simp
    then show ?thesis
      using ct msg True s s4
      by (simp add: cmdCreate_def split_beta msgFromID_def msgChatID_def StartWizard_free [OF free]
          Let_def)
  next
    case False
    have q: "GetCurrentQuestion (newWizard (u_ID u) ct (now wd)) =
               Inr (case GetSteps ct of [] \<Rightarrow> [] | s # _ \<Rightarrow> Question s)"
      by (cases "GetSteps ct") (simp_all add: GetCurrentQuestion_def newWizard_def GetStep_def Let_def)
    obtain wd2 r where s: "sendMessage e ?wd1 ?h1 (c_ID ch)
        (''Starting '' @ ct @ '' wizard! '' @ GetProgress (newWizard (u_ID u) ct (now wd)) @ NL @ NL @
           (case GetSteps ct of [] \<Rightarrow> [] | s # _ \<Rightarrow> Question s)) = Inr (wd2, r)"
      using sendMessage_ok [OF len1] by blast
    have "wizards wd2 = wizards ?wd1" using sendMessage_frame [OF s] by simp
    then show ?thesis
      using ct msg False s q
      by (simp add: cmdCreate_def split_beta msgFromID_def msgChatID_def StartWizard_free [OF free]
          Let_def deref_def)
  qed
qed

lemma GetWizard_none:
  "mu m = newRWMutex \<Longrightarrow> sessions m uid = None \<Longrightarrow> GetWizard wd m uid = Inr (m, None)"
  by (simp add: GetWizard_def RLock_def RUnlock_def newRWMutex_def)

lemma sendMessage_sent:
  assumes "MaxMessageLength (config h) \<ge> 3"
  shows "\<exists>wd' r. sendMessage e wd h cid t = Inr (wd', r) \<and> requests wd' = requests wd
           \<and> map sm_ChatID (sent wd') = map sm_ChatID (sent wd) @ [cid]
           \<and> (int (length t) \<le> MaxMessageLength (config h) \<longrightarrow>
                 map sm_Text (sent wd') = map sm_Text (sent wd) @ [jsonString t])"
  using assms
  by (auto simp: sendMessage_def truncateText_def tgSendMessage_def external_def Let_def
      marshalSendMessage_def)

lemma Chat_given:
  assumes "p_Messages params = Some ms" and "ms \<noteq> []"
    and "p_Temperature params \<noteq> PosInf" and "p_TopP params \<noteq> PosInf"
  shows "\<exists>res. Chat e wd c params =
           (external e (wd\<lparr>requests := requests wd @
               [(buildRequest c params ms)
                  \<lparr>req_Model := jsonString (model c), req_Messages := map jsonMessage ms\<rparr>]\<rparr>),
            c, res)"
  using assms
  by (simp add: Chat_def assemble_given Let_def marshal_buildRequest doRequest_encoded
      split: sum.splits list.splits)

lemma Chat_no_history:
  assumes "p_Messages params = None" and "conversations c (p_UserID params) = None"
    and "p_SystemPrompt params = []"
  shows "\<exists>wd'. Chat e wd c params =
           (wd', c\<lparr>conversations := (conversations c)(p_UserID params \<mapsto> newConversation)\<rparr>,
            Inl ''no messages provided'')
         \<and> requests wd' = requests wd \<and> sent wd' = sent wd \<and> deleted wd' = deleted wd
         \<and> calls wd' = calls wd \<and> now wd' = now wd"
  using assms
  by (simp add: Chat_def assemble_def getOrCreateConversation_def Let_def split_beta
      newConversation_def Clear_def sliceElems_GetMessages_empty [unfolded newConversation_def]
      sliceLen_def)

lemma sendMessage_short:
  assumes "int (length t) \<le> MaxMessageLength (config h)"
  shows "sendMessage e wd h cid t =
           Inr (tgSendMessage e wd \<lparr>sm_ChatID = cid, sm_Text = t, sm_DisableWebPagePreview = True\<rparr>)"
  using assms by (simp add: sendMessage_def truncateText_def)

text \<open>The wizard objects under the handlers.\<close>

lemma wrap64_small: "0 \<le> n \<Longrightarrow> n < 9223372036854775807 \<Longrightarrow> wrap64 (n + 1) = n + 1"
  by (simp add: wrap64_def)

lemma totalSteps_le: "totalSteps w \<le> 8"
  by (simp add: totalSteps_def GetSteps_def GetMarketingSteps_def GetEmailSteps_def
      GetReportSteps_def GetScriptSteps_def GetWhitepaperSteps_def GetStorySteps_def
      GetPoemSteps_def)

lemma IsComplete_iff: "IsComplete w \<longleftrightarrow> GetSteps (ContentType w) = [] \<or> totalSteps w \<le> Step w"
  by (simp add: IsComplete_def totalSteps_def GetStep_def Let_def)

lemma SetAnswer_fields:
  "ContentType (SetAnswer k v w) = ContentType w"
  "totalSteps (SetAnswer k v w) = totalSteps w"
  by (simp_all add: SetAnswer_def totalSteps_def)

lemma SetAnswer_Step:
  "0 \<le> Step w \<Longrightarrow> Step w \<le> 8 \<Longrightarrow> Step (SetAnswer k v w) = Step w + 1"
  by (simp add: SetAnswer_def wrap64_def)

lemma ok_unchanged:
  "wizardsOk wd h \<Longrightarrow> unchanged wd h wd' h' \<Longrightarrow> wizardsOk wd' h' \<and> advanced wd wd'"
  by (simp add: wizardsOk_def unchanged_def advanced_def)

lemma ok_ended:
  "wizardsOk wd h \<Longrightarrow> ended wd h wd' h' \<Longrightarrow> wizardsOk wd' h' \<and> advanced wd wd'"
  by (auto simp: wizardsOk_def ended_def advanced_def split: if_splits)

lemma ok_started:
  assumes "wizardsOk wd h" and "started wd h wd' h'"
  shows "wizardsOk wd' h' \<and> advanced wd wd'"
proof -
  from assms(2) obtain uid ct t where
    w: "wizards wd' = (wizards wd)(nextWizard wd \<mapsto> newWizard uid ct t)"
    and n: "nextWizard wd' = Suc (nextWizard wd)"
    and m: "wizardManager h' =
             (wizardManager h)\<lparr>sessions := (sessions (wizardManager h))(uid \<mapsto> nextWizard wd)\<rparr>"
    by (auto simp: started_def)
  from assms(1) have fresh: "wizards wd (nextWizard wd) = None"
    by (simp add: wizardsOk_def)
  have reg: "p \<noteq> nextWizard wd" if "sessions (wizardManager h) u = Some p" for u p
  proof
    assume "p = nextWizard wd"
    with that assms(1) have "\<exists>w. wizards wd (nextWizard wd) = Some w"
      unfolding wizardsOk_def by blast
    with fresh show False by simp
  qed
  have s0: "Step (newWizard uid ct t) = 0" by (simp add: newWizard_def)
  have a: "advanced wd wd'"
    using fresh by (auto simp: advanced_def w)
  have "wizardsOk wd' h'"
    using assms(1) fresh reg s0
    unfolding wizardsOk_def w n m
    by (auto split: if_splits)
  with a show ?thesis by simp
qed

lemma ok_answered:
  assumes ok: "wizardsOk wd h" and ans: "answered1 wd h wd' h'"
  shows "wizardsOk wd' h' \<and> advanced wd wd'"
proof -
  from ans obtain uid p w k v where
    s: "sessions (wizardManager h) uid = Some p" and wp: "wizards wd p = Some w"
    and w: "wizards wd' = (wizards wd)(p \<mapsto> SetAnswer k v w)"
    and n: "nextWizard wd' = nextWizard wd"
    and m: "wizardManager h' =
             (if IsComplete (SetAnswer k v w)
              then (wizardManager h)\<lparr>sessions := (sessions (wizardManager h))(uid := None)\<rparr>
              else wizardManager h)"
    by (auto simp: answered1_def)
  let ?w' = "SetAnswer k v w"
  from ok s wp have st: "Step w = 0 \<or> Step w < totalSteps w"
    unfolding wizardsOk_def by fastforce
  from ok wp have b: "0 \<le> Step w" "Step w \<le> max 1 (totalSteps w)"
    unfolding wizardsOk_def by blast+
  from b totalSteps_le [of w] have "Step w \<le> 8" by simp
  with b have inc: "Step ?w' = Step w + 1" by (simp add: SetAnswer_Step)
  from st inc b have b': "0 \<le> Step ?w'" "Step ?w' \<le> max 1 (totalSteps ?w')"
    by (auto simp: SetAnswer_fields)
  have inj: "uid' = uid" if "sessions (wizardManager h) uid' = Some p" for uid'
    using ok s that unfolding wizardsOk_def by blast
  have a: "advanced wd wd'"
    using wp inc by (auto simp: advanced_def w SetAnswer_fields)
  have i1: "mu (wizardManager h') = newRWMutex"
    using ok by (simp add: wizardsOk_def m)
  have i2: "\<forall>q. nextWizard wd' \<le> q \<longrightarrow> wizards wd' q = None"
    using ok wp by (auto simp: wizardsOk_def w n)
  have i3: "\<forall>q x. wizards wd' q = Some x \<longrightarrow> 0 \<le> Step x \<and> Step x \<le> max 1 (totalSteps x)"
    using ok b' by (auto simp: wizardsOk_def w)
  have i4: "\<forall>u q. sessions (wizardManager h') u = Some q \<longrightarrow>
           (\<exists>x. wizards wd' q = Some x \<and> (Step x = 0 \<or> Step x < totalSteps x))"
  proof (intro allI impI)
    fix u q assume sq: "sessions (wizardManager h') u = Some q"
    then have sq0: "sessions (wizardManager h) u = Some q"
      by (auto simp: m split: if_splits)
    show "\<exists>x. wizards wd' q = Some x \<and> (Step x = 0 \<or> Step x < totalSteps x)"
    proof (cases "q = p")
      case True
      with sq0 have "u = uid" by (simp add: inj)
      with sq have nc: "\<not> IsComplete ?w'"
        by (auto simp: m split: if_splits)
      then have "Step ?w' < totalSteps ?w'"
        by (simp add: IsComplete_iff SetAnswer_fields)
      with True show ?thesis by (simp add: w)
    next
      case False
      with ok sq0 show ?thesis unfolding wizardsOk_def w by fastforce
    qed
  qed
  have i5: "\<forall>u u' q. sessions (wizardManager h') u = Some q
           \<and> sessions (wizardManager h') u' = Some q \<longrightarrow> u = u'"
  proof (intro allI impI)
    fix u u' q assume "sessions (wizardManager h') u = Some q
           \<and> sessions (wizardManager h') u' = Some q"
    then have "sessions (wizardManager h) u = Some q \<and> sessions (wizardManager h) u' = Some q"
      by (auto simp: m split: if_splits)
    with ok show "u = u'" unfolding wizardsOk_def by blast
  qed
  from i1 i2 i3 i4 i5 have "wizardsOk wd' h'" unfolding wizardsOk_def by blast
  with a show ?thesis by simp
qed

lemma GetWizard_Inr:
  assumes "mu m = newRWMutex" and "GetWizard wd m uid = Inr (m1, found)"
  shows "m1 = m" and "found = sessions m uid"
  using assms
  by (auto simp: GetWizard_def RLock_def RUnlock_def Lock_def Unlock_def newRWMutex_def
      split: option.splits if_splits)

lemma EndWizard_free:
  "mu m = newRWMutex \<Longrightarrow> EndWizard m uid = Inr (m\<lparr>sessions := (sessions m)(uid := None)\<rparr>)"
  by (simp add: EndWizard_def Lock_def Unlock_def newRWMutex_def Let_def)

lemma sendMessage_same:
  "sendMessage e wd h cid t = Inr (wd', r) \<Longrightarrow>
     wizards wd' = wizards wd \<and> nextWizard wd' = nextWizard wd"
  by (simp add: sendMessage_frame)

lemma replyOrError_same:
  "replyOrError e wd h cid notice res = Inr (wd', h', err) \<Longrightarrow>
     h' = h \<and> wizards wd' = wizards wd \<and> nextWizard wd' = nextWizard wd"
  by (simp add: replyOrError_frame)

lemma chatFlow_view:
  assumes "chatFlow e wd h msg uid = Inr (wd', h', err)"
  shows "unchanged wd h wd' h'"
  using assms
  by (auto simp: chatFlow_def unchanged_def split_beta Let_def bindF_eq_Inr
      dest!: replyOrError_same sendMessage_same)

lemma handleWizardMessage_view:
  assumes free: "mu (wizardManager h) = newRWMutex"
    and who: "msgFromID msg = Inr uid"
    and reg: "sessions (wizardManager h) uid = Some wiz"
    and run: "handleWizardMessage e wd h msg wiz = Inr (wd', h', err)"
  shows "answered1 wd h wd' h'"
proof -
  from run obtain w key where w: "wizards wd wiz = Some w" and key: "GetCurrentKey w = Inr key"
    by (auto simp: handleWizardMessage_def bindF_eq_Inr deref_def split: option.splits)
  let ?w1 = "SetAnswer key (m_Text msg) w"
  let ?wd1 = "wd\<lparr>wizards := (wizards wd)(wiz \<mapsto> ?w1)\<rparr>"
  have d: "deref wd wiz = Inr w" using w by (simp add: deref_def)
  show ?thesis
  proof (cases "IsComplete ?w1")
    case True
    let ?h1 = "h\<lparr>wizardManager := (wizardManager h)\<lparr>sessions := (sessions (wizardManager h))(uid := None)\<rparr>\<rparr>"
    from run True have "wizards wd' = wizards ?wd1 \<and> nextWizard wd' = nextWizard ?wd1
        \<and> wizardManager h' = wizardManager ?h1"
      by (auto simp: handleWizardMessage_def d key who EndWizard_free [OF free] Let_def split_beta
          bindF_eq_Inr dest!: replyOrError_same sendMessage_same)
    with True reg w show ?thesis
      unfolding answered1_def by (intro exI [of _ uid] exI [of _ wiz] exI [of _ w] exI [of _ key]
          exI [of _ "m_Text msg"]) simp
  next
    case False
    from run False have "wizards wd' = wizards ?wd1 \<and> nextWizard wd' = nextWizard ?wd1
        \<and> wizardManager h' = wizardManager h"
      by (auto simp: handleWizardMessage_def d key who Let_def split_beta
          bindF_eq_Inr dest!: sendMessage_same)
    with False reg w show ?thesis
      unfolding answered1_def by (intro exI [of _ uid] exI [of _ wiz] exI [of _ w] exI [of _ key]
          exI [of _ "m_Text msg"]) simp
  qed
qed

lemma GetMessages_frame2:
  "wizards (fst (GetConversation wd c uid)) = wizards wd"
  "nextWizard (fst (GetConversation wd c uid)) = nextWizard wd"
  by (simp_all add: GetConversation_def split: option.splits)

lemma cmdCreate_view:
  assumes free: "mu (wizardManager h) = newRWMutex"
    and run: "cmdCreate e wd h msg args = Inr (wd', h', err)"
  shows "unchanged wd h wd' h' \<or> started wd h wd' h'"
proof (cases "snd (ParseFlags e args) = []")
  case True
  with run have "unchanged wd h wd' h'"
    by (auto simp: cmdCreate_def split_beta unchanged_def bindF_eq_Inr dest!: sendMessage_same)
  then show ?thesis ..
next
  case False
  let ?ct = "snd (ParseFlags e args)"
  from run False obtain uid where who: "msgFromID msg = Inr uid"
    by (auto simp: cmdCreate_def split_beta bindF_eq_Inr)
  let ?wd1 = "wd\<lparr>wizards := (wizards wd)(nextWizard wd \<mapsto> newWizard uid ?ct (now wd)),
               nextWizard := Suc (nextWizard wd)\<rparr>"
  let ?m1 = "(wizardManager h)\<lparr>sessions := (sessions (wizardManager h))(uid \<mapsto> nextWizard wd)\<rparr>"
  from run False have "wizards wd' = wizards ?wd1 \<and> nextWizard wd' = nextWizard ?wd1
      \<and> wizardManager h' = ?m1"
    by (auto simp: cmdCreate_def split_beta who StartWizard_free [OF free] Let_def bindF_eq_Inr
        dest!: replyOrError_same sendMessage_same split: if_splits)
  then have "started wd h wd' h'"
    unfolding started_def by (intro exI [of _ uid] exI [of _ ?ct] exI [of _ "now wd"]) simp
  then show ?thesis ..
qed

lemma cmdStatus_view:
  assumes "cmdStatus e wd h msg = Inr (wd', h', err)"
  shows "unchanged wd h wd' h'"
  using assms
  by (auto simp: cmdStatus_def split_beta Let_def unchanged_def bindF_eq_Inr GetMessages_frame2
      split: sum.splits)

lemma runCommand_view:
  assumes free: "mu (wizardManager h) = newRWMutex"
    and run: "runCommand e wd h cmd msg args = Inr (wd', h', err)"
  shows "unchanged wd h wd' h' \<or> started wd h wd' h' \<or> ended wd h wd' h'"
proof (cases cmd)
  case CmdStart
  with run have "unchanged wd h wd' h'"
    by (auto simp: runCommand_def unchanged_def bindF_eq_Inr dest!: sendMessage_same)
  then show ?thesis by simp
next
  case CmdHelp
  with run have "unchanged wd h wd' h'"
    by (auto simp: runCommand_def unchanged_def bindF_eq_Inr dest!: sendMessage_same)
  then show ?thesis by simp
next
  case CmdClear
  with run have "unchanged wd h wd' h'"
    by (auto simp: runCommand_def unchanged_def bindF_eq_Inr split_beta Let_def)
  then show ?thesis by simp
next
  case CmdStatus
  with run cmdStatus_view [of e wd h msg wd' h' err] show ?thesis
    by (simp add: runCommand_def)
next
  case CmdCreate
  with run cmdCreate_view [OF free, of e wd msg args wd' h' err] show ?thesis
    by (auto simp: runCommand_def)
next
  case CmdCancel
  with run have "ended wd h wd' h'"
    by (auto simp: runCommand_def ended_def bindF_eq_Inr split_beta Let_def CancelWizard_def
        EndWizard_free [OF free])
  then show ?thesis by simp
qed

lemma handleCommand_view:
  assumes free: "mu (wizardManager h) = newRWMutex"
    and run: "handleCommand e wd h msg = Inr (wd', h', err)"
  shows "unchanged wd h wd' h' \<or> started wd h wd' h' \<or> ended wd h wd' h'"
  using run runCommand_view [OF free, of e wd _ msg _ wd' h' err]
  by (auto simp: handleCommand_def Let_def unchanged_def bindF_eq_Inr
      split: if_splits list.splits option.splits dest!: sendMessage_same)

lemma setProcessing_manager:
  "wizardManager (setProcessing wd h uid b) = wizardManager h"
  by (simp add: setProcessing_def Let_def)

lemma handleMessage_view:
  assumes free: "mu (wizardManager h) = newRWMutex"
    and run: "handleMessage e wd h msg = Inr (wd', h', err)"
  shows "unchanged wd h wd' h' \<or> started wd h wd' h' \<or> ended wd h wd' h'
         \<or> answered1 wd h wd' h'"
proof (cases "m_Text msg = []")
  case True
  with run show ?thesis by (simp add: handleMessage_def unchanged_def)
next
  case False
  note nonempty = this
  show ?thesis
  proof (cases "HasPrefix (m_Text msg) ''/''")
    case True
    with run nonempty handleCommand_view [OF free, of e wd msg wd' h' err] show ?thesis
      by (auto simp: handleMessage_def)
  next
    case False
    from run nonempty False obtain uid m1 found where who: "msgFromID msg = Inr uid"
      and gw: "GetWizard wd (wizardManager h) uid = Inr (m1, found)"
      by (auto simp: handleMessage_def bindF_eq_Inr)
    from GetWizard_Inr [OF free gw] have m1: "m1 = wizardManager h"
      and found: "found = sessions (wizardManager h) uid" by simp_all
    have hh: "h\<lparr>wizardManager := wizardManager h\<rparr> = h" by simp
    show ?thesis
    proof (cases found)
      case (Some wiz)
      with run nonempty False have "handleWizardMessage e wd h msg wiz = Inr (wd', h', err)"
        by (simp add: handleMessage_def who gw m1 hh)
      from handleWizardMessage_view [OF free who _ this] Some found show ?thesis by simp
    next
      case None
      with run nonempty False have "unchanged wd h wd' h'"
        by (auto simp: handleMessage_def who gw m1 hh unchanged_def bindF_eq_Inr
            setProcessing_manager split: if_splits dest!: sendMessage_same chatFlow_view)
      then show ?thesis by simp
    qed
  qed
qed

lemma HandleUpdate_view:
  assumes free: "mu (wizardManager h) = newRWMutex"
    and run: "HandleUpdate e wd h upd = Inr (wd', h', err)"
  shows "unchanged wd h wd' h' \<or> started wd h wd' h' \<or> ended wd h wd' h'
         \<or> answered1 wd h wd' h'"
  using run handleMessage_view [OF free, of e wd _ wd' h' err]
  by (auto simp: HandleUpdate_def handleCallbackQuery_def handleInlineQuery_def unchanged_def
      split: option.splits if_splits)

lemma HandleUpdate_ok:
  assumes "wizardsOk wd h" and "HandleUpdate e wd h upd = Inr (wd', h', err)"
  shows "wizardsOk wd' h'" and "advanced wd wd'"
proof -
  from assms(1) have free: "mu (wizardManager h) = newRWMutex" by (simp add: wizardsOk_def)
  from HandleUpdate_view [OF free assms(2)] assms(1)
  have "wizardsOk wd' h' \<and> advanced wd wd'"
    using ok_unchanged ok_started ok_ended ok_answered by blast
  then show "wizardsOk wd' h'" and "advanced wd wd'" by simp_all
qed


lemma grown_refl: "grown wd wd"
  by (simp add: grown_def)

lemma grown_trans:
  assumes "grown a b" and "grown b c"
  shows "grown a c"
  unfolding grown_def
proof (intro allI impI)
  fix p w assume "wizards a p = Some w"
  with assms(1) obtain w' where 1: "wizards b p = Some w'" "ContentType w' = ContentType w"
    "Step w \<le> Step w'"
    unfolding grown_def by blast
  with assms(2) obtain w'' where 2: "wizards c p = Some w''" "ContentType w'' = ContentType w'"
    "Step w' \<le> Step w''"
    unfolding grown_def by blast
  from 1 2 show "\<exists>w'. wizards c p = Some w' \<and> ContentType w' = ContentType w \<and> Step w \<le> Step w'"
    by simp
qed

lemma advanced_grown:
  assumes "advanced a b"
  shows "grown a b"
  unfolding grown_def
proof (intro allI impI)
  fix p w assume "wizards a p = Some w"
  with assms obtain w' where "wizards b p = Some w'" "ContentType w' = ContentType w"
    "Step w' = Step w \<or> Step w' = Step w + 1"
    unfolding advanced_def by blast
  then show "\<exists>w'. wizards b p = Some w' \<and> ContentType w' = ContentType w \<and> Step w \<le> Step w'"
    by auto
qed

lemma now_irrelevant:
  "wizardsOk (wd\<lparr>now := t\<rparr>) h = wizardsOk wd h"
  "advanced (wd\<lparr>now := t\<rparr>) wd' = advanced wd wd'"
  by (simp_all add: wizardsOk_def advanced_def)

lemma run_ok:
  assumes "wizardsOk wd h" and "run e wd h us = Inr (wd', h')"
  shows "wizardsOk wd' h' \<and> grown wd wd'"
  using assms
proof (induction us arbitrary: wd h)
  case Nil
  then show ?case by (simp add: grown_refl)
next
  case (Cons x us)
  obtain idle u where x: "x = (idle, u)" by (cases x)
  from Cons.prems(2) obtain wd1 h1 err where
    s: "HandleUpdate e (wd\<lparr>now := now wd + int idle\<rparr>) h u = Inr (wd1, h1, err)"
    and r: "run e wd1 h1 us = Inr (wd', h')"
    by (auto simp: x bindF_eq_Inr)
  from Cons.prems(1) have "wizardsOk (wd\<lparr>now := now wd + int idle\<rparr>) h"
    by (simp add: now_irrelevant)
  from HandleUpdate_ok [OF this s] have ok1: "wizardsOk wd1 h1" and a: "advanced wd wd1"
    by (simp_all add: now_irrelevant)
  from Cons.IH [OF ok1 r] advanced_grown [OF a] show ?case
    by (blast intro: grown_trans)
qed

lemma run_single:
  assumes "wizardsOk wd h" and "run e wd h [x] = Inr (wd', h')"
  shows "advanced wd wd'"
proof -
  obtain idle u where x: "x = (idle, u)" by (cases x)
  from assms(2) obtain err where
    s: "HandleUpdate e (wd\<lparr>now := now wd + int idle\<rparr>) h u = Inr (wd', h', err)"
    by (auto simp: x bindF_eq_Inr)
  from assms(1) have "wizardsOk (wd\<lparr>now := now wd + int idle\<rparr>) h"
    by (simp add: now_irrelevant)
  from HandleUpdate_ok(2) [OF this s] show ?thesis by (simp add: now_irrelevant)
qed

lemma wizardsOk_start:
  "wizards wd = Map.empty \<Longrightarrow> wizardsOk wd (New mc cfg)"
  by (simp add: wizardsOk_def New_def NewManager_def)

lemma defined_total: "ct \<in> set definedTypes \<Longrightarrow> 5 \<le> length (GetSteps ct)"
  by (auto simp: definedTypes_def GetSteps_def GetMarketingSteps_def GetEmailSteps_def
      GetReportSteps_def GetScriptSteps_def GetWhitepaperSteps_def GetStorySteps_def
      GetPoemSteps_def)

text \<open>Runs in the concrete environment.\<close>

lemma echoEnv_sel:
  "strings_TrimSpace echoEnv = asciiTrimSpace" "strings_Fields echoEnv = asciiFields"
  "strings_ToLower echoEnv = asciiToLower" "elapsed echoEnv = (\<lambda>k. 1000000)"
  "mm_doRequest echoEnv = (\<lambda>k req. Inr (echoReply req))"
  "json_Unmarshal echoEnv = (\<lambda>data. Inr \<lparr>resp_ID = ''r'',
                                    Choices = [\<lparr>ch_Index = 0,
                                                ch_Message = mkMessage ''assistant'' data,
                                                ch_FinishReason = ''stop''\<rparr>]\<rparr>)"
  "tg_SendMessage echoEnv = (\<lambda>k p. Inr \<lparr>m_MessageID = of_nat k, m_From = None,
                                   m_Chat = Some \<lparr>c_ID = sm_ChatID p\<rparr>, m_Text = sm_Text p\<rparr>)"
  by (simp_all add: echoEnv_def)

lemma startHandler_sel:
  "commands startHandler = registerDefaultCommands"
  "wizardManager startHandler = NewManager (10 * Minute)"
  "config startHandler = defaultConfig"
  "minimaxClient startHandler = NewClient ''abab5.5-chat''"
  by (simp_all add: startHandler_def New_def defaultConfig_def)

lemma create_command:
  assumes "asciiTrimSpace (CHR ''/'' # ''create '' @ ct) = CHR ''/'' # ''create '' @ ct"
    and "asciiFields (''create '' @ ct) = [''create'', ct]"
  shows "HandleUpdate echoEnv wd startHandler (textUpdate 7 (CHR ''/'' # ''create '' @ ct)) =
           cmdCreate echoEnv wd startHandler (textMessage 7 (CHR ''/'' # ''create '' @ ct)) ct"
  supply echoEnv_sel [simp] startHandler_sel [simp]
proof -
  have l: "asciiToLower ''create'' = ''create''" by (simp add: asciiToLower_def)
  have c: "registerDefaultCommands ''create'' = Some CmdCreate"
    by (simp add: registerDefaultCommands_def)
  have f: "asciiFields (CHR ''c'' # CHR ''r'' # CHR ''e'' # CHR ''a'' # CHR ''t'' # CHR ''e'' # CHR '' '' # ct)
             = [''create'', ct]"
    using assms(2) by simp
  have t: "asciiTrimSpace (CHR ''/'' # CHR ''c'' # CHR ''r'' # CHR ''e'' # CHR ''a'' # CHR ''t'' # CHR ''e'' # CHR '' '' # ct)
             = CHR ''/'' # CHR ''c'' # CHR ''r'' # CHR ''e'' # CHR ''a'' # CHR ''t'' # CHR ''e'' # CHR '' '' # ct"
    using assms(1) by simp
  show ?thesis
    by (simp add: HandleUpdate_def textUpdate_def handleMessage_def textMessage_def HasPrefix_def
        handleCommand_def t f l c runCommand_def)
qed

lemma create_foo:
  "HandleUpdate echoEnv startWorld startHandler (textUpdate 7 ''/create foo'') =
     Inr (startWorld\<lparr>wizards := [0 \<mapsto> newWizard 7 ''foo'' 0], nextWizard := 1, now := 1000000,
            calls := 1,
            sent := [\<lparr>sm_ChatID = 7, sm_Text = ''Starting foo wizard! '' @ NL @ NL,
                      sm_DisableWebPagePreview = True\<rparr>]\<rparr>,
          startHandler\<lparr>wizardManager := (NewManager (10 * Minute))\<lparr>sessions := [7 \<mapsto> 0]\<rparr>\<rparr>,
          None)"
  supply echoEnv_sel [simp] startHandler_sel [simp]
proof -
  have p: "snd (ParseFlags echoEnv ''foo'') = ''foo''"
    "lookupStr (fst (ParseFlags echoEnv ''foo'')) ''t'' = []"
    by (simp_all add: ParseFlags_def asciiFields_def isSpaceASCII_def TrimPrefix_def HasPrefix_def
        flagValue_def lookupStr_def)
  have q: "GetCurrentQuestion (newWizard 7 ''foo'' 0) = Inr []"
    "GetProgress (newWizard 7 ''foo'' 0) = []"
    by (simp_all add: GetCurrentQuestion_def GetProgress_def newWizard_def GetSteps_def)
  have m: "mu (NewManager (10 * Minute)) = newRWMutex" by (simp add: NewManager_def)
  have c: "cmdCreate echoEnv startWorld startHandler (textMessage 7 ''/create foo'') ''foo'' =
     Inr (startWorld\<lparr>wizards := [0 \<mapsto> newWizard 7 ''foo'' 0], nextWizard := 1, now := 1000000,
            calls := 1,
            sent := [\<lparr>sm_ChatID = 7, sm_Text = ''Starting foo wizard! '' @ NL @ NL,
                      sm_DisableWebPagePreview = True\<rparr>]\<rparr>,
          startHandler\<lparr>wizardManager := (NewManager (10 * Minute))\<lparr>sessions := [7 \<mapsto> 0]\<rparr>\<rparr>,
          None)"
    by (simp add: cmdCreate_def split_beta p msgFromID_def msgChatID_def textMessage_def
        StartWizard_free m deref_def q sendMessage_short defaultConfig_def NL_def tgSendMessage_def
        external_def startWorld_def NewManager_def marshalSendMessage_def utf8_defs)
  have "HandleUpdate echoEnv startWorld startHandler (textUpdate 7 (CHR ''/'' # ''create '' @ ''foo'')) =
           cmdCreate echoEnv startWorld startHandler (textMessage 7 (CHR ''/'' # ''create '' @ ''foo'')) ''foo''"
    by (rule create_command) (simp_all add: asciiTrimSpace_def asciiFields_def isSpaceASCII_def)
  with c show ?thesis by simp
qed

lemma answer_foo:
  defines "wd1 \<equiv> startWorld\<lparr>wizards := [0 \<mapsto> newWizard 7 ''foo'' 0], nextWizard := 1, now := 1000000,
            calls := 1,
            sent := [\<lparr>sm_ChatID = 7, sm_Text = ''Starting foo wizard! '' @ NL @ NL,
                      sm_DisableWebPagePreview = True\<rparr>]\<rparr>"
    and "h1 \<equiv> startHandler\<lparr>wizardManager := (NewManager (10 * Minute))\<lparr>sessions := [7 \<mapsto> 0]\<rparr>\<rparr>"
  shows "\<exists>wd2 h2 err. HandleUpdate echoEnv (wd1\<lparr>now := now wd1 + 1000\<rparr>) h1 (textUpdate 7 ''x'')
            = Inr (wd2, h2, err)
          \<and> wizards wd2 = [0 \<mapsto> SetAnswer [] ''x'' (newWizard 7 ''foo'' 0)]
          \<and> nextWizard wd2 = 1"
  supply echoEnv_sel [simp] startHandler_sel [simp]
proof -
  let ?w = "newWizard 7 ''foo'' 0"
  let ?wd = "wd1\<lparr>now := now wd1 + 1000\<rparr>"
  have gw: "GetWizard ?wd (wizardManager h1) 7 = Inr (wizardManager h1, Some 0)"
    by (simp add: GetWizard_def wd1_def h1_def NewManager_def RLock_def RUnlock_def newRWMutex_def
        newWizard_def time_Since_def time_Sub_def Minute_def Second_def maxInt64_def minInt64_def)
  have k: "GetCurrentKey ?w = Inr []" and ic: "IsComplete (SetAnswer [] ''x'' ?w)"
    and bp: "BuildPrompt (SetAnswer [] ''x'' ?w) = []"
    by (simp_all add: GetCurrentKey_def IsComplete_def BuildPrompt_def newWizard_def GetSteps_def
        SetAnswer_def)
  have d: "deref ?wd 0 = Inr ?w" by (simp add: deref_def wd1_def)
  have free: "mu (wizardManager h1) = newRWMutex" by (simp add: h1_def NewManager_def)
  have len: "MaxMessageLength (config h1) = 4096" by (simp add: h1_def defaultConfig_def)
  have hh: "h1\<lparr>wizardManager := wizardManager h1\<rparr> = h1" by simp
  have hw: "HandleUpdate echoEnv ?wd h1 (textUpdate 7 ''x'')
              = handleWizardMessage echoEnv ?wd h1 (textMessage 7 ''x'') 0"
    by (simp add: HandleUpdate_def textUpdate_def handleMessage_def textMessage_def HasPrefix_def
        msgFromID_def gw [unfolded textMessage_def] hh)
  let ?wd1' = "?wd\<lparr>wizards := (wizards ?wd)(0 \<mapsto> SetAnswer [] ''x'' ?w)\<rparr>"
  let ?h1' = "h1\<lparr>wizardManager := (wizardManager h1)\<lparr>sessions := (sessions (wizardManager h1))(7 := None)\<rparr>\<rparr>"
  have len': "MaxMessageLength (config ?h1') \<ge> 3" using len by simp
  obtain wd2 r where s1: "sendMessage echoEnv ?wd1' ?h1' 7 ''Generating content based on your answers...''
      = Inr (wd2, r)"
    using sendMessage_ok [OF len'] by blast
  let ?chat = "Chat echoEnv wd2 (minimaxClient ?h1') (userParams 7 (Some [mkMessage ''user'' []]))"
  let ?h2 = "?h1'\<lparr>minimaxClient := fst (snd ?chat)\<rparr>"
  have len2: "MaxMessageLength (config ?h2) \<ge> 3" using len by simp
  obtain wd4 err where s2: "replyOrError echoEnv (fst ?chat) ?h2 7 ''Error generating content: ''
      (snd (snd ?chat)) = Inr (wd4, ?h2, err)"
    using replyOrError_ok [OF len2] by blast
  have r: "handleWizardMessage echoEnv ?wd h1 (textMessage 7 ''x'') 0 = Inr (wd4, ?h2, err)"
    using s1 s2
    by (simp add: handleWizardMessage_def d k ic bp textMessage_def msgFromID_def msgChatID_def
        EndWizard_free [OF free] Let_def split_beta)
  have "wizards wd4 = wizards ?wd1' \<and> nextWizard wd4 = nextWizard ?wd1'"
    using replyOrError_frame(2,3) [OF s2] sendMessage_frame [OF s1] by simp
  then have "wizards wd4 = [0 \<mapsto> SetAnswer [] ''x'' ?w] \<and> nextWizard wd4 = 1"
    by (simp add: wd1_def startWorld_def)
  with hw r show ?thesis by auto
qed

lemma create_poem:
  "HandleUpdate echoEnv startWorld startHandler (textUpdate 7 ''/create poem'') =
     Inr (startWorld\<lparr>wizards := [0 \<mapsto> newWizard 7 ''poem'' 0], nextWizard := 1, now := 1000000,
            calls := 1,
            sent := [\<lparr>sm_ChatID = 7,
                      sm_Text = ''Starting poem wizard! (Step 1 of 5)'' @ NL @ NL @
                        ''What style of poem? (e.g., haiku, sonnet, free verse, limerick, ballad)'',
                      sm_DisableWebPagePreview = True\<rparr>]\<rparr>,
          startHandler\<lparr>wizardManager := (NewManager (10 * Minute))\<lparr>sessions := [7 \<mapsto> 0]\<rparr>\<rparr>,
          None)"
  supply echoEnv_sel [simp] startHandler_sel [simp]
proof -
  have p: "snd (ParseFlags echoEnv ''poem'') = ''poem''"
    "lookupStr (fst (ParseFlags echoEnv ''poem'')) ''t'' = []"
    by (simp_all add: ParseFlags_def asciiFields_def isSpaceASCII_def TrimPrefix_def HasPrefix_def
        flagValue_def lookupStr_def)
  have q: "GetCurrentQuestion (newWizard 7 ''poem'' 0) =
             Inr ''What style of poem? (e.g., haiku, sonnet, free verse, limerick, ballad)''"
    "GetProgress (newWizard 7 ''poem'' 0) = ''(Step 1 of 5)''"
    by (simp_all add: GetCurrentQuestion_def GetProgress_def newWizard_def GetSteps_def
        GetPoemSteps_def mkStep_def GetStep_def wrap64_def itoa_def digit_def)
  have m: "mu (NewManager (10 * Minute)) = newRWMutex" by (simp add: NewManager_def)
  have c: "cmdCreate echoEnv startWorld startHandler (textMessage 7 ''/create poem'') ''poem'' =
     Inr (startWorld\<lparr>wizards := [0 \<mapsto> newWizard 7 ''poem'' 0], nextWizard := 1, now := 1000000,
            calls := 1,
            sent := [\<lparr>sm_ChatID = 7,
                      sm_Text = ''Starting poem wizard! (Step 1 of 5)'' @ NL @ NL @
                        ''What style of poem? (e.g., haiku, sonnet, free verse, limerick, ballad)'',
                      sm_DisableWebPagePreview = True\<rparr>]\<rparr>,
          startHandler\<lparr>wizardManager := (NewManager (10 * Minute))\<lparr>sessions := [7 \<mapsto> 0]\<rparr>\<rparr>,
          None)"
    by (simp add: cmdCreate_def split_beta p msgFromID_def msgChatID_def textMessage_def
        StartWizard_free m deref_def q sendMessage_short defaultConfig_def NL_def tgSendMessage_def
        external_def startWorld_def NewManager_def marshalSendMessage_def utf8_defs)
  have "HandleUpdate echoEnv startWorld startHandler (textUpdate 7 (CHR ''/'' # ''create '' @ ''poem'')) =
           cmdCreate echoEnv startWorld startHandler (textMessage 7 (CHR ''/'' # ''create '' @ ''poem'')) ''poem''"
    by (rule create_command) (simp_all add: asciiTrimSpace_def asciiFields_def isSpaceASCII_def)
  with c show ?thesis by simp
qed

lemma answer_poem:
  assumes wd1: "wizards wd1 = [0 \<mapsto> newWizard 7 ''poem'' 0]" "nextWizard wd1 = 1"
    "now wd1 = 1000000"
  defines "h1 \<equiv> startHandler\<lparr>wizardManager := (NewManager (10 * Minute))\<lparr>sessions := [7 \<mapsto> 0]\<rparr>\<rparr>"
  shows "\<exists>wd2 h2 err. HandleUpdate echoEnv (wd1\<lparr>now := now wd1 + 1000\<rparr>) h1 (textUpdate 7 ''haiku'')
            = Inr (wd2, h2, err)
          \<and> wizards wd2 = [0 \<mapsto> SetAnswer ''style'' ''haiku'' (newWizard 7 ''poem'' 0)]"
  supply echoEnv_sel [simp] startHandler_sel [simp]
proof -
  let ?w = "newWizard 7 ''poem'' 0"
  let ?w1 = "SetAnswer ''style'' ''haiku'' ?w"
  let ?wd = "wd1\<lparr>now := now wd1 + 1000\<rparr>"
  have gw: "GetWizard ?wd (wizardManager h1) 7 = Inr (wizardManager h1, Some 0)"
    by (simp add: GetWizard_def wd1 h1_def NewManager_def RLock_def RUnlock_def newRWMutex_def
        newWizard_def time_Since_def time_Sub_def Minute_def Second_def maxInt64_def minInt64_def)
  have k: "GetCurrentKey ?w = Inr ''style''" and ic: "\<not> IsComplete ?w1"
    by (simp_all add: GetCurrentKey_def IsComplete_def newWizard_def GetSteps_def
        GetPoemSteps_def mkStep_def SetAnswer_def GetStep_def wrap64_def)
  obtain q where q: "GetCurrentQuestion ?w1 = Inr q"
    by (simp add: GetCurrentQuestion_def newWizard_def GetSteps_def
        GetPoemSteps_def mkStep_def SetAnswer_def GetStep_def wrap64_def)
  have d: "deref ?wd 0 = Inr ?w" by (simp add: deref_def wd1)
  have len: "MaxMessageLength (config h1) \<ge> 3" by (simp add: h1_def defaultConfig_def)
  have hh: "h1\<lparr>wizardManager := wizardManager h1\<rparr> = h1" by simp
  have hw: "HandleUpdate echoEnv ?wd h1 (textUpdate 7 ''haiku'')
              = handleWizardMessage echoEnv ?wd h1 (textMessage 7 ''haiku'') 0"
    by (simp add: HandleUpdate_def textUpdate_def handleMessage_def textMessage_def HasPrefix_def
        msgFromID_def gw [unfolded textMessage_def] hh)
  let ?wd1' = "?wd\<lparr>wizards := (wizards ?wd)(0 \<mapsto> ?w1)\<rparr>"
  obtain wd2 r where s1: "sendMessage echoEnv ?wd1' h1 7
      (''Got it! '' @ GetProgress ?w1 @ NL @ NL @ q @ NL @ NL @ ''(Type /cancel to cancel the wizard)'')
      = Inr (wd2, r)"
    using sendMessage_ok [OF len] by blast
  have r: "handleWizardMessage echoEnv ?wd h1 (textMessage 7 ''haiku'') 0 = Inr (wd2, h1, None)"
    using s1
    by (simp add: handleWizardMessage_def d k ic q textMessage_def msgChatID_def Let_def split_beta)
  have "wizards wd2 = wizards ?wd1'"
    using sendMessage_frame [OF s1] by simp
  then have "wizards wd2 = [0 \<mapsto> ?w1]"
    by (simp add: wd1)
  with hw r show ?thesis by auto
qed

lemma handleMessage_chat_path:
  assumes "m_Text msg \<noteq> []" "\<not> HasPrefix (m_Text msg) ''/''"
    and "m_From msg = Some u"
    and free: "mu (wizardManager h) = newRWMutex"
    and nowiz: "sessions (wizardManager h) (u_ID u) = None"
    and "checkRateLimit wd h (u_ID u)" "\<not> isProcessing h (u_ID u)"
  shows "handleMessage e wd h msg =
           bindF (chatFlow e wd (setProcessing wd h (u_ID u) True) msg (u_ID u))
             (\<lambda>(wd1, h3, err). Inr (wd1, setProcessing wd1 h3 (u_ID u) False, err))"
proof -
  have hh: "h\<lparr>wizardManager := wizardManager h\<rparr> = h" by simp
  show ?thesis
    using assms(1-3,6,7)
    by (simp add: handleMessage_def msgFromID_def GetWizard_none [OF free nowiz] hh)
qed

lemma chatFlow_ok:
  assumes "MaxMessageLength (config h) \<ge> 3" and "m_Chat msg = Some ch"
  shows "\<exists>wd' h' err. chatFlow e wd h msg uid = Inr (wd', h', err)"
proof -
  let ?c1 = "Chat e wd (minimaxClient h) (userParams uid (Some [mkMessage ''user'' (m_Text msg)]))"
  let ?h1 = "h\<lparr>minimaxClient := fst (snd ?c1)\<rparr>"
  have l1: "MaxMessageLength (config ?h1) \<ge> 3" using assms(1) by simp
  obtain wd2 tm where s: "sendMessage e (fst ?c1) ?h1 (c_ID ch) thinkingText = Inr (wd2, tm)"
    using sendMessage_ok [OF l1] by blast
  let ?c2 = "Chat e wd2 (minimaxClient ?h1) (userParams uid None)"
  let ?h2 = "?h1\<lparr>minimaxClient := fst (snd ?c2)\<rparr>"
  have l2: "MaxMessageLength (config ?h2) \<ge> 3" using assms(1) by simp
  obtain wd5 err where r: "replyOrError e (deleteNotice e (fst ?c2) (c_ID ch) tm) ?h2 (c_ID ch)
      ''Sorry, I encountered an error: '' (snd (snd ?c2)) = Inr (wd5, ?h2, err)"
    using replyOrError_ok [OF l2] by blast
  show ?thesis
    using assms(2) s r
    by (simp add: chatFlow_def split_beta Let_def msgChatID_def)
qed

subsection \<open>The poem wizard\<close>

text \<open>
  Claim C4.  The step list of content type \<open>poem\<close> has exactly five steps, with the keys
  style, topic, mood, length, structure in this order.  After five \<open>SetAnswer\<close> calls
  that record answers \<open>a1\<close> ... \<open>a5\<close> under these keys on the wizard that
  \<open>StartWizard\<close> creates, the step index is 5, \<open>IsComplete\<close> is true, and each of
  the five answers occurs verbatim (as a contiguous piece) in the result of
  \<open>BuildPrompt\<close>.
\<close>

theorem poem_wizard:
  fixes uid :: int64 and t :: time and a1 a2 a3 a4 a5 :: string
  defines "w5 \<equiv> SetAnswer ''structure'' a5 (SetAnswer ''length'' a4 (SetAnswer ''mood'' a3
             (SetAnswer ''topic'' a2 (SetAnswer ''style'' a1 (newWizard uid ''poem'' t)))))"
  shows "map Key (GetSteps ''poem'') = [''style'', ''topic'', ''mood'', ''length'', ''structure'']
    \<and> length (GetSteps ''poem'') = 5
    \<and> GetStep w5 = 5
    \<and> IsComplete w5
    \<and> sublist a1 (BuildPrompt w5) \<and> sublist a2 (BuildPrompt w5) \<and> sublist a3 (BuildPrompt w5)
    \<and> sublist a4 (BuildPrompt w5) \<and> sublist a5 (BuildPrompt w5)"
proof -
  have st: "Step w5 = 5" and ct: "ContentType w5 = ''poem''"
    by (simp_all add: w5_def SetAnswer_def newWizard_def wrap64_def)
  have an: "lookupStr (Answers w5) ''style'' = a1" "lookupStr (Answers w5) ''topic'' = a2"
    "lookupStr (Answers w5) ''mood'' = a3" "lookupStr (Answers w5) ''length'' = a4"
    "lookupStr (Answers w5) ''structure'' = a5"
    by (simp_all add: w5_def SetAnswer_def newWizard_def lookupStr_def)
  have bp: "BuildPrompt w5 = buildPoemPrompt (Answers w5)"
    by (simp add: BuildPrompt_def ct GetAnswers_def)
  have len: "length (GetSteps ''poem'') = 5"
    by (simp add: GetSteps_def GetPoemSteps_def)
  have "IsComplete w5"
    by (simp add: IsComplete_def ct GetStep_def st GetSteps_def GetPoemSteps_def)
  with poem_keys len st buildPoemPrompt_embeds [of "Answers w5"] show ?thesis
    by (simp add: an bp GetStep_def)
qed

subsection \<open>The completion flow for free text\<close>

text \<open>
  Claim C1.  Take a free-text message (not empty, not a command) of a user who has no
  wizard session, passes the rate-limit check and the processing-guard check, and for whom
  no conversation is stored yet.  What \<open>handleMessage\<close> does: it issues exactly one
  completion request, which carries the user's text alone (as the JSON body carries it)
  and whose reply is dropped; the
  second \<open>Chat\<close> call, the one that is to use the stored conversation, finds the
  conversation empty and returns the error "no messages provided"; the user is sent the
  notice and then the apology with this error, and the handler returns the error.  The
  user's text is not appended to the stored conversation, which is the empty one
  afterwards; no reply of the completion API reaches the user.
\<close>

theorem chat_of_new_user:
  assumes tx: "m_Text msg \<noteq> []" "\<not> HasPrefix (m_Text msg) ''/''"
    and who: "m_From msg = Some u" "m_Chat msg = Some ch"
    and free: "mu (wizardManager h) = newRWMutex"
    and nowiz: "sessions (wizardManager h) (u_ID u) = None"
    and allow: "checkRateLimit wd h (u_ID u)" "\<not> isProcessing h (u_ID u)"
    and new: "conversations (minimaxClient h) (u_ID u) = None"
    and len: "MaxMessageLength (config h) \<ge> 51"
  shows "\<exists>wd' h'. handleMessage e wd h msg = Inr (wd', h', Some ''no messages provided'')
      \<and> map req_Messages (requests wd')
           = map req_Messages (requests wd) @ [[mkMessage ''user'' (jsonString (m_Text msg))]]
      \<and> map sm_Text (sent wd')
           = map sm_Text (sent wd)
               @ [thinkingText, ''Sorry, I encountered an error: no messages provided'']
      \<and> conversations (minimaxClient h') (u_ID u) = Some newConversation"
proof -
  let ?uid = "u_ID u"
  let ?h2 = "setProcessing wd h ?uid True"
  let ?p1 = "userParams ?uid (Some [mkMessage ''user'' (m_Text msg)])"
  let ?req = "(buildRequest (minimaxClient h) ?p1 [mkMessage ''user'' (m_Text msg)])
                \<lparr>req_Model := jsonString (model (minimaxClient h)),
                 req_Messages := [jsonMessage (mkMessage ''user'' (m_Text msg))]\<rparr>"
  have js: "jsonString thinkingText = thinkingText"
    "jsonString ''Sorry, I encountered an error: no messages provided''
       = ''Sorry, I encountered an error: no messages provided''"
    by (simp_all add: utf8_defs thinkingText_def)
  have c2: "minimaxClient ?h2 = minimaxClient h" "config ?h2 = config h"
    by (simp_all add: setProcessing_def Let_def)
  obtain res1 where chat1: "Chat e wd (minimaxClient h) ?p1 =
      (external e (wd\<lparr>requests := requests wd @ [?req]\<rparr>), minimaxClient h, res1)"
    using Chat_given [of ?p1 "[mkMessage ''user'' (m_Text msg)]" e wd "minimaxClient h"]
    by (auto simp: userParams_def)
  let ?wd1 = "external e (wd\<lparr>requests := requests wd @ [?req]\<rparr>)"
  let ?tp = "\<lparr>sm_ChatID = c_ID ch, sm_Text = thinkingText, sm_DisableWebPagePreview = True\<rparr>"
  let ?wd2 = "fst (tgSendMessage e ?wd1 ?tp)"
  let ?tm = "snd (tgSendMessage e ?wd1 ?tp)"
  have s1: "sendMessage e ?wd1 (?h2\<lparr>minimaxClient := minimaxClient h\<rparr>) (c_ID ch) thinkingText
              = Inr (?wd2, ?tm)"
    using len by (simp add: sendMessage_short c2 thinkingText_def)
  obtain wd3 where chat2: "Chat e ?wd2 (minimaxClient h) (userParams ?uid None) =
      (wd3, (minimaxClient h)\<lparr>conversations := (conversations (minimaxClient h))(?uid \<mapsto> newConversation)\<rparr>,
       Inl ''no messages provided'')"
    and f3: "requests wd3 = requests ?wd2" "sent wd3 = sent ?wd2"
    using Chat_no_history [of "userParams ?uid None" "minimaxClient h" e ?wd2] new
    by (auto simp: userParams_def)
  let ?c2 = "(minimaxClient h)\<lparr>conversations := (conversations (minimaxClient h))(?uid \<mapsto> newConversation)\<rparr>"
  let ?wd4 = "deleteNotice e wd3 (c_ID ch) ?tm"
  let ?h4 = "?h2\<lparr>minimaxClient := ?c2\<rparr>"
  let ?sp = "\<lparr>sm_ChatID = c_ID ch, sm_Text = ''Sorry, I encountered an error: no messages provided'',
              sm_DisableWebPagePreview = True\<rparr>"
  have s2: "sendMessage e ?wd4 ?h4 (c_ID ch) (''Sorry, I encountered an error: '' @ ''no messages provided'')
              = Inr (tgSendMessage e ?wd4 ?sp)"
    using len by (simp add: sendMessage_short c2)
  have flow: "chatFlow e wd ?h2 msg ?uid =
                Inr (fst (tgSendMessage e ?wd4 ?sp), ?h4, Some ''no messages provided'')"
    using who s1 s2
    by (simp add: chatFlow_def c2 chat1 chat2 msgChatID_def Let_def split_beta replyOrError_def
        cong: sum.case_cong)
  have f3': "requests wd3 = requests wd @ [?req]" "sent wd3 = sent wd @ [?tp]"
    using f3 by (simp_all add: tgSendMessage_def external_def marshalSendMessage_def Let_def js)
  have f4: "requests ?wd4 = requests wd @ [?req]" "sent ?wd4 = sent wd @ [?tp]"
    by (simp_all add: deleteNotice_def tgDeleteMessage_def external_def f3' split: sum.splits)
  have hm: "handleMessage e wd h msg =
          Inr (fst (tgSendMessage e ?wd4 ?sp),
               setProcessing (fst (tgSendMessage e ?wd4 ?sp)) ?h4 ?uid False,
               Some ''no messages provided'')"
    using tx who allow
    by (simp add: handleMessage_def msgFromID_def GetWizard_none [OF free nowiz] flow)
  have r: "requests (fst (tgSendMessage e ?wd4 ?sp)) = requests wd @ [?req]"
    using f4 by (simp add: tgSendMessage_def external_def Let_def)
  have s: "sent (fst (tgSendMessage e ?wd4 ?sp)) = sent wd @ [?tp, ?sp]"
    using f4 by (simp add: tgSendMessage_def external_def marshalSendMessage_def Let_def js)
  have cv: "conversations (minimaxClient (setProcessing (fst (tgSendMessage e ?wd4 ?sp)) ?h4 ?uid False)) ?uid
              = Some newConversation"
    by (simp add: setProcessing_def Let_def)
  show ?thesis
    unfolding hm using r s cv
    by (simp add: buildRequest_def jsonMessage_def mkMessage_def utf8_defs)
qed


theorem chat_of_new_user_witness:
  "\<exists>wd' h'. handleMessage echoEnv startWorld startHandler (textMessage 7 ''hello'')
              = Inr (wd', h', Some ''no messages provided'')
      \<and> map req_Messages (requests wd') = [[mkMessage ''user'' ''hello'']]
      \<and> map sm_Text (sent wd')
           = [thinkingText, ''Sorry, I encountered an error: no messages provided'']
      \<and> conversations (minimaxClient h') 7 = Some newConversation"
proof -
  have h: "mu (wizardManager startHandler) = newRWMutex"
    "sessions (wizardManager startHandler) 7 = None"
    "checkRateLimit startWorld startHandler 7" "\<not> isProcessing startHandler 7"
    "conversations (minimaxClient startHandler) 7 = None"
    "MaxMessageLength (config startHandler) = 4096"
    by (simp_all add: startHandler_def New_def NewManager_def NewClient_def defaultConfig_def
        checkRateLimit_def isProcessing_def)
  have w: "requests startWorld = []" "sent startWorld = []"
    by (simp_all add: startWorld_def)
  from chat_of_new_user [of "textMessage 7 ''hello''" "\<lparr>u_ID = 7, u_Username = ''user''\<rparr>"
      "\<lparr>c_ID = 7\<rparr>" startHandler startWorld echoEnv]
  show ?thesis
    by (simp add: h w textMessage_def HasPrefix_def utf8_defs)
qed


subsection \<open>The step index of a wizard session\<close>

text \<open>
  Claim C2, as amended.  Let the dispatcher run from a fresh handler over any updates, and
  then over any further updates, without the process ending.  Every wizard object \<open>w1\<close>
  that exists after the first run still exists after the second, with the same content
  type and a step index that is not smaller; if the second run is a single update, the
  index is the same or larger by one.  Each \<open>SetAnswer\<close> on \<open>w1\<close> increases the index
  by exactly one.  The index is at least 0 and at most the larger of 1 and the number of
  steps of the content type; for the seven defined content types it is at most the number
  of steps.  Once the index has reached the number of steps, \<open>IsComplete\<close> is true, and
  it is still true after the second run.

  The claim as stated also bounds the index by the number of steps for a content type
  that has no steps.  There the dispatcher still records the next message as an answer:
  after \<open>/create foo\<close> and one more message the wizard has step 1 of 0.
\<close>

theorem wizard_steps:
  assumes init: "wizards wd0 = Map.empty" "h0 = New mc cfg"
    and r1: "run e wd0 h0 us1 = Inr (wd1, h1)"
    and r2: "run e wd1 h1 us2 = Inr (wd2, h2)"
    and w1: "wizards wd1 p = Some w1"
  shows "\<exists>w2. wizards wd2 p = Some w2 \<and> ContentType w2 = ContentType w1
     \<and> GetStep w1 \<le> GetStep w2
     \<and> ((\<exists>x. us2 = [x]) \<longrightarrow> GetStep w2 = GetStep w1 \<or> GetStep w2 = GetStep w1 + 1)
     \<and> (\<forall>k v. GetStep (SetAnswer k v w1) = GetStep w1 + 1)
     \<and> 0 \<le> GetStep w1 \<and> GetStep w1 \<le> max 1 (totalSteps w1)
     \<and> (ContentType w1 \<in> set definedTypes \<longrightarrow> GetStep w1 \<le> totalSteps w1)
     \<and> (totalSteps w1 \<le> GetStep w1 \<longrightarrow> IsComplete w1 \<and> IsComplete w2)"
proof -
  from wizardsOk_start [OF init(1)] have ok0: "wizardsOk wd0 h0" by (simp add: init(2))
  from run_ok [OF ok0 r1] have ok1: "wizardsOk wd1 h1" by simp
  from run_ok [OF ok1 r2] have g: "grown wd1 wd2" by simp
  from g w1 obtain w2 where w2: "wizards wd2 p = Some w2" "ContentType w2 = ContentType w1"
    "Step w1 \<le> Step w2"
    unfolding grown_def by blast
  from ok1 w1 have b: "0 \<le> Step w1" "Step w1 \<le> max 1 (totalSteps w1)"
    unfolding wizardsOk_def by blast+
  from b totalSteps_le [of w1] have "Step w1 \<le> 8" by simp
  with b have inc: "Step (SetAnswer k v w1) = Step w1 + 1" for k v
    by (simp add: SetAnswer_Step)
  have one: "Step w2 = Step w1 \<or> Step w2 = Step w1 + 1" if "us2 = [x]" for x
  proof -
    from run_single [OF ok1 r2 [unfolded that]] w1
    obtain w' where "wizards wd2 p = Some w'" "Step w' = Step w1 \<or> Step w' = Step w1 + 1"
      unfolding advanced_def by blast
    with w2(1) show ?thesis by simp
  qed
  have d: "Step w1 \<le> totalSteps w1" if "ContentType w1 \<in> set definedTypes"
    using defined_total [OF that] b by (simp add: totalSteps_def)
  have t2: "totalSteps w2 = totalSteps w1" by (simp add: totalSteps_def w2(2))
  have c: "IsComplete w1 \<and> IsComplete w2" if "totalSteps w1 \<le> Step w1"
    using that w2(3) t2 by (simp add: IsComplete_iff)
  show ?thesis
    unfolding GetStep_def
    using w2 b inc one d c by (intro exI [of _ w2]) blast
qed


text \<open>An instance: user 7 sends \<open>/create poem\<close> and then \<open>haiku\<close>; the wizard goes
  from step 0 to step 1 of 5.\<close>

theorem wizard_steps_witness:
  "wizards startWorld = Map.empty
   \<and> startHandler = New (NewClient (MinimaxModel defaultConfig)) defaultConfig
   \<and> (\<exists>wd1 h1 wd2 h2 w1 w2.
         run echoEnv startWorld startHandler [(0, textUpdate 7 ''/create poem'')] = Inr (wd1, h1)
       \<and> run echoEnv wd1 h1 [(1000, textUpdate 7 ''haiku'')] = Inr (wd2, h2)
       \<and> wizards wd1 0 = Some w1 \<and> wizards wd2 0 = Some w2
       \<and> ContentType w1 = ''poem'' \<and> ContentType w2 = ''poem''
       \<and> GetStep w1 = 0 \<and> GetStep w2 = 1 \<and> totalSteps w1 = 5
       \<and> GetStep w1 \<le> GetStep w2 \<and> GetStep w1 \<le> totalSteps w1)"
  supply echoEnv_sel [simp] startHandler_sel [simp]
proof -
  let ?wd1 = "startWorld\<lparr>wizards := [0 \<mapsto> newWizard 7 ''poem'' 0], nextWizard := 1, now := 1000000,
            calls := 1,
            sent := [\<lparr>sm_ChatID = 7,
                      sm_Text = ''Starting poem wizard! (Step 1 of 5)'' @ NL @ NL @
                        ''What style of poem? (e.g., haiku, sonnet, free verse, limerick, ballad)'',
                      sm_DisableWebPagePreview = True\<rparr>]\<rparr>"
  let ?h1 = "startHandler\<lparr>wizardManager := (NewManager (10 * Minute))\<lparr>sessions := [7 \<mapsto> 0]\<rparr>\<rparr>"
  let ?w1 = "newWizard 7 ''poem'' 0"
  let ?w2 = "SetAnswer ''style'' ''haiku'' ?w1"
  have i: "wizards startWorld = Map.empty" by (simp add: startWorld_def)
  have j: "startHandler = New (NewClient (MinimaxModel defaultConfig)) defaultConfig"
    by (simp add: startHandler_def)
  have r1: "run echoEnv startWorld startHandler [(0, textUpdate 7 ''/create poem'')] = Inr (?wd1, ?h1)"
    by (simp add: create_poem)
  from answer_poem [of ?wd1] obtain wd2 h2 err where
    s: "HandleUpdate echoEnv (?wd1\<lparr>now := now ?wd1 + 1000\<rparr>) ?h1 (textUpdate 7 ''haiku'')
            = Inr (wd2, h2, err)"
    and w2: "wizards wd2 = [0 \<mapsto> ?w2]"
    by auto
  have r2: "run echoEnv ?wd1 ?h1 [(1000, textUpdate 7 ''haiku'')] = Inr (wd2, h2)"
    using s by simp
  have w1: "wizards ?wd1 0 = Some ?w1" by simp
  from wizard_steps [OF i j r1 r2 w1] obtain w where
    w: "wizards wd2 0 = Some w" "ContentType w = ContentType ?w1" "GetStep ?w1 \<le> GetStep w"
    "ContentType ?w1 \<in> set definedTypes \<longrightarrow> GetStep ?w1 \<le> totalSteps ?w1"
    by blast
  from w(1) w2 have ww: "w = ?w2" by simp
  have v: "ContentType ?w1 = ''poem''" "GetStep ?w1 = 0" "GetStep ?w2 = 1" "totalSteps ?w1 = 5"
    "ContentType ?w1 \<in> set definedTypes"
    by (simp_all add: newWizard_def GetStep_def SetAnswer_def wrap64_def totalSteps_def
        GetSteps_def GetPoemSteps_def definedTypes_def)
  from i j r1 r2 w1 w ww v show ?thesis
    by (intro conjI exI [of _ ?wd1] exI [of _ ?h1] exI [of _ wd2] exI [of _ h2] exI [of _ ?w1]
        exI [of _ ?w2]) simp_all
qed


text \<open>
  The claim as stated fails: user 7 sends \<open>/create foo\<close> and then \<open>x\<close>.  The one
  wizard object of the run has content type \<open>foo\<close>, step 1 and 0 steps, so its step is
  not between 0 and the number of steps.
\<close>

theorem wizard_steps_counterexample:
  "runReport echoEnv [(0, textUpdate 7 ''/create foo''), (1000, textUpdate 7 ''x'')]
     = Inr [Some (''foo'', 1, 0, False)]"
  supply echoEnv_sel [simp] startHandler_sel [simp]
proof -
  let ?wd1 = "startWorld\<lparr>wizards := [0 \<mapsto> newWizard 7 ''foo'' 0], nextWizard := 1, now := 1000000,
            calls := 1,
            sent := [\<lparr>sm_ChatID = 7, sm_Text = ''Starting foo wizard! '' @ NL @ NL,
                      sm_DisableWebPagePreview = True\<rparr>]\<rparr>"
  let ?h1 = "startHandler\<lparr>wizardManager := (NewManager (10 * Minute))\<lparr>sessions := [7 \<mapsto> 0]\<rparr>\<rparr>"
  from answer_foo obtain wd2 h2 err where
    s: "HandleUpdate echoEnv (?wd1\<lparr>now := now ?wd1 + 1000\<rparr>) ?h1 (textUpdate 7 ''x'')
            = Inr (wd2, h2, err)"
    and w: "wizards wd2 = [0 \<mapsto> SetAnswer [] ''x'' (newWizard 7 ''foo'' 0)]" "nextWizard wd2 = 1"
    by blast
  have r: "run echoEnv startWorld startHandler
             [(0, textUpdate 7 ''/create foo''), (1000, textUpdate 7 ''x'')] = Inr (wd2, h2)"
    using s by (simp add: create_foo)
  have rep: "wizardReport wd2 = [Some (''foo'', 1, 0, False)]"
    by (simp add: wizardReport_def w SetAnswer_def newWizard_def GetStep_def totalSteps_def
        GetSteps_def wrap64_def)
  show ?thesis
    unfolding runReport_def r by (simp add: rep)
qed


subsection \<open>Expiry of a wizard session\<close>

text \<open>
  Claim C3.  Let a wizard be started for a user at time \<open>now wd\<close> on a manager whose lock
  is free, and let \<open>GetWizard\<close> be called for the same user in a later world in which the
  wizard object is unchanged.  If the time elapsed since the start is at most the timeout,
  the call returns the session and leaves the manager as it was.  If it exceeds the
  timeout, the call does not return: after the deletion the deferred \<open>RUnlock\<close> runs on
  a lock whose read lock the timeout path has already released, which is a fatal error of
  the runtime.  So no not-found result is returned and no later call can be made.
\<close>

theorem GetWizard_after_StartWizard:
  assumes free: "mu m = newRWMutex"
    and start: "StartWizard wd m uid ct = Inr (wd1, m1, p)"
    and later: "wizards wd2 p = wizards wd1 p"
  shows "GetWizard wd2 m1 uid =
           (if time_Since (now wd2) (now wd) > timeout m
            then Inl (Fatal ''sync: RUnlock of unlocked RWMutex'')
            else Inr (m1, Some p))"
proof -
  from start free have m1: "m1 = m\<lparr>sessions := (sessions m)(uid \<mapsto> p)\<rparr>"
    and p: "p = nextWizard wd"
    and w: "wizards wd1 p = Some (newWizard uid ct (now wd))"
    by (auto simp: StartWizard_def Lock_def Unlock_def newRWMutex_def Let_def)
  show ?thesis
    using free later w
    by (simp add: GetWizard_def m1 RLock_def RUnlock_def Lock_def Unlock_def newRWMutex_def
        newWizard_def)
qed

theorem GetWizard_after_StartWizard_witness:
  "case StartWizard startWorld (NewManager (10 * Minute)) 7 ''poem'' of
     Inl f \<Rightarrow> False
   | Inr (wd1, m1, p) \<Rightarrow>
       mu (NewManager (10 * Minute)) = newRWMutex
       \<and> GetWizard (wd1\<lparr>now := 11 * Minute\<rparr>) m1 7 = Inl (Fatal ''sync: RUnlock of unlocked RWMutex'')
       \<and> GetWizard (wd1\<lparr>now := 10 * Minute\<rparr>) m1 7 = Inr (m1, Some p)"
proof -
  have free: "mu (NewManager (10 * Minute)) = newRWMutex"
    by (simp add: NewManager_def)
  obtain wd1 m1 p where
    start: "StartWizard startWorld (NewManager (10 * Minute)) 7 ''poem'' = Inr (wd1, m1, p)"
    by (simp add: StartWizard_def NewManager_def Lock_def Unlock_def newRWMutex_def Let_def)
  have t0: "now startWorld = 0" and d: "timeout (NewManager (10 * Minute)) = 600000000000"
    by (simp_all add: startWorld_def NewManager_def Minute_def Second_def)
  have a: "GetWizard (wd1\<lparr>now := 11 * Minute\<rparr>) m1 7 = Inl (Fatal ''sync: RUnlock of unlocked RWMutex'')"
    using GetWizard_after_StartWizard [OF free start, of "wd1\<lparr>now := 11 * Minute\<rparr>"]
    by (simp add: t0 NewManager_def time_Since_def time_Sub_def Minute_def Second_def maxInt64_def
        minInt64_def)
  have b: "GetWizard (wd1\<lparr>now := 10 * Minute\<rparr>) m1 7 = Inr (m1, Some p)"
    using GetWizard_after_StartWizard [OF free start, of "wd1\<lparr>now := 10 * Minute\<rparr>"]
    by (simp add: t0 NewManager_def time_Since_def time_Sub_def Minute_def Second_def maxInt64_def
        minInt64_def)
  show ?thesis
    using free a b by (simp add: start)
qed

subsection \<open>Truncation of outgoing messages\<close>

text \<open>
  Claim C10, as amended.  With \<open>MaxMessageLength\<close> at least 3, \<open>sendMessage\<close>
  posts exactly one message to Telegram.  The text handed to the encoder is the first
  \<open>MaxMessageLength - 3\<close> bytes of the given text followed by three dots if the given
  text is longer than \<open>MaxMessageLength\<close> bytes, and the given text otherwise; the
  text sent is what the JSON body carries of it.  When the given text is well-formed
  UTF-8 and the cut does not fall inside a character (the byte at offset
  \<open>MaxMessageLength - 3\<close> is not a continuation byte), the text sent is the first
  \<open>MaxMessageLength - 3\<close> bytes followed by three dots and has exactly
  \<open>MaxMessageLength\<close> bytes; a well-formed text of at most \<open>MaxMessageLength\<close>
  bytes is sent unchanged.
\<close>

theorem sendMessage_truncates:
  assumes "MaxMessageLength (config h) \<ge> 3"
  shows "\<exists>wd' r txt. sendMessage e wd h cid text = Inr (wd', r)
            \<and> sent wd' = sent wd @ [\<lparr>sm_ChatID = cid, sm_Text = txt, sm_DisableWebPagePreview = True\<rparr>]
            \<and> txt = jsonString (if int (length text) > MaxMessageLength (config h)
                                  then take (nat (MaxMessageLength (config h) - 3)) text @ ''...''
                                  else text)
            \<and> (ValidString text
                 \<and> (int (length text) > MaxMessageLength (config h)
                      \<longrightarrow> \<not> continuation (text ! nat (MaxMessageLength (config h) - 3)))
               \<longrightarrow> (if int (length text) > MaxMessageLength (config h)
                    then txt = take (nat (MaxMessageLength (config h) - 3)) text @ ''...''
                       \<and> int (length txt) = MaxMessageLength (config h)
                    else txt = text))"
proof -
  let ?n = "MaxMessageLength (config h)"
  let ?cut = "take (nat (?n - 3)) text @ ''...''"
  let ?t = "if int (length text) > ?n then ?cut else text"
  have s: "sendMessage e wd h cid text =
             Inr (tgSendMessage e wd \<lparr>sm_ChatID = cid, sm_Text = ?t, sm_DisableWebPagePreview = True\<rparr>)"
    using assms by (simp add: sendMessage_def truncateText_def)
  have p: "sent (fst (tgSendMessage e wd \<lparr>sm_ChatID = cid, sm_Text = ?t, sm_DisableWebPagePreview = True\<rparr>))
             = sent wd @ [\<lparr>sm_ChatID = cid, sm_Text = jsonString ?t, sm_DisableWebPagePreview = True\<rparr>]"
    by (simp add: tgSendMessage_def Let_def marshalSendMessage_def)
  have v: "if int (length text) > ?n
           then jsonString ?t = ?cut \<and> int (length (jsonString ?t)) = ?n
           else jsonString ?t = text"
    if ok: "ValidString text"
      and b: "int (length text) > ?n \<longrightarrow> \<not> continuation (text ! nat (?n - 3))"
  proof (cases "int (length text) > ?n")
    case True
    with assms have k: "nat (?n - 3) < length text" by linarith
    with b True have "nat (?n - 3) < length text \<longrightarrow> \<not> continuation (text ! nat (?n - 3))"
      by simp
    from ValidString_take [OF ok this] have "ValidString (take (nat (?n - 3)) text)" .
    from ValidString_append [OF this ValidString_dots] have "jsonString ?cut = ?cut"
      by (rule ValidString_json)
    moreover from k assms have "int (length ?cut) = ?n" by simp
    ultimately show ?thesis using True by simp
  next
    case False
    with ok show ?thesis by (simp add: ValidString_json)
  qed
  obtain wd' r where t: "tgSendMessage e wd \<lparr>sm_ChatID = cid, sm_Text = ?t, sm_DisableWebPagePreview = True\<rparr>
                           = (wd', r)"
    by (cases "tgSendMessage e wd \<lparr>sm_ChatID = cid, sm_Text = ?t, sm_DisableWebPagePreview = True\<rparr>")
  from p t have p': "sent wd' = sent wd @ [\<lparr>sm_ChatID = cid, sm_Text = jsonString ?t, sm_DisableWebPagePreview = True\<rparr>]"
    by simp
  from s t have s': "sendMessage e wd h cid text = Inr (wd', r)" by simp
  from s' p' v show ?thesis by blast
qed

theorem sendMessage_truncates_witness:
  "MaxMessageLength (config (startHandler\<lparr>config := defaultConfig\<lparr>MaxMessageLength := 10\<rparr>\<rparr>)) \<ge> 3
   \<and> ValidString ''Hello, world!'' \<and> \<not> continuation (''Hello, world!'' ! 7)
   \<and> textsSent (sendMessage echoEnv startWorld
                   (startHandler\<lparr>config := defaultConfig\<lparr>MaxMessageLength := 10\<rparr>\<rparr>)
                   7 ''Hello, world!'') = [''Hello, ...'']
   \<and> ValidString (''12345'' @ [CHR 0xC3, CHR 0xA9] @ ''world!'')
   \<and> \<not> continuation ((''12345'' @ [CHR 0xC3, CHR 0xA9] @ ''world!'') ! 7)
   \<and> textsSent (sendMessage echoEnv startWorld
                   (startHandler\<lparr>config := defaultConfig\<lparr>MaxMessageLength := 10\<rparr>\<rparr>)
                   7 (''12345'' @ [CHR 0xC3, CHR 0xA9] @ ''world!''))
        = [''12345'' @ [CHR 0xC3, CHR 0xA9] @ ''...'']
   \<and> ValidString ''0123456789''
   \<and> textsSent (sendMessage echoEnv startWorld
                   (startHandler\<lparr>config := defaultConfig\<lparr>MaxMessageLength := 10\<rparr>\<rparr>)
                   7 ''0123456789'') = [''0123456789'']"
proof -
  let ?h = "startHandler\<lparr>config := defaultConfig\<lparr>MaxMessageLength := 10\<rparr>\<rparr>"
  let ?u = "''12345'' @ [CHR 0xC3, CHR 0xA9] @ ''world!''"
  have m: "MaxMessageLength (config ?h) = 10" by simp
  have s: "sent startWorld = []" by (simp add: startWorld_def)
  from m have ge: "MaxMessageLength (config ?h) \<ge> 3" by simp
  have v: "ValidString ''Hello, world!''" "\<not> continuation (''Hello, world!'' ! 7)"
    "ValidString ?u" "\<not> continuation (?u ! 7)" "ValidString ''0123456789''"
    by (simp_all add: utf8_defs)
  from sendMessage_truncates [OF ge, of echoEnv startWorld 7 "''Hello, world!''"] v
  have a: "textsSent (sendMessage echoEnv startWorld ?h 7 ''Hello, world!'') = [''Hello, ...'']"
    unfolding m s by (auto simp: textsSent_def)
  from sendMessage_truncates [OF ge, of echoEnv startWorld 7 ?u] v
  have b: "textsSent (sendMessage echoEnv startWorld ?h 7 ?u)
             = [''12345'' @ [CHR 0xC3, CHR 0xA9] @ ''...'']"
    unfolding m s by (auto simp: textsSent_def)
  from sendMessage_truncates [OF ge, of echoEnv startWorld 7 "''0123456789''"] v
  have c: "textsSent (sendMessage echoEnv startWorld ?h 7 ''0123456789'') = [''0123456789'']"
    unfolding m s by (auto simp: textsSent_def)
  from ge v a b c show ?thesis by blast
qed

text \<open>
  The claim as it was stated fails where the cut falls inside a character.  With
  \<open>MaxMessageLength\<close> 10, the 13 bytes \<open>123456\<close>, \<open>C3 A9\<close> (the letter e with
  an acute accent), \<open>world\<close> are cut after \<open>C3\<close>; this byte starts no well-formed
  encoding any more, the encoder writes U+FFFD for it, and the text sent has 12 bytes: it
  is neither the first 7 bytes of the text followed by three dots nor 10 bytes long.
\<close>

theorem sendMessage_truncates_counterexample:
  "textsSent (sendMessage echoEnv startWorld
                (startHandler\<lparr>config := defaultConfig\<lparr>MaxMessageLength := 10\<rparr>\<rparr>)
                7 (''123456'' @ [CHR 0xC3, CHR 0xA9] @ ''world''))
     = [''123456'' @ [CHR 0xEF, CHR 0xBF, CHR 0xBD] @ ''...'']
   \<and> ''123456'' @ [CHR 0xEF, CHR 0xBF, CHR 0xBD] @ ''...''
        \<noteq> take 7 (''123456'' @ [CHR 0xC3, CHR 0xA9] @ ''world'') @ ''...''
   \<and> length (''123456'' @ [CHR 0xEF, CHR 0xBF, CHR 0xBD] @ ''...'') = 12"
  by (simp add: textsSent_def sendMessage_def truncateText_def bindF_def tgSendMessage_def
      marshalSendMessage_def external_def startWorld_def Let_def utf8_defs)

subsection \<open>The processing flag\<close>

text \<open>
  Claim C6.  \<open>setProcessing\<close> with \<open>false\<close> clears the user's processing flag and
  stores the current time as the user's rate-limit timestamp; \<open>setProcessing\<close> with
  \<open>true\<close> sets the flag and leaves the rate-limit map as it is.  In \<open>handleMessage\<close>
  the call with \<open>false\<close> is deferred: whenever the handling of a free-text message
  that went down the completion path returns, the user's flag is clear and the user's
  rate-limit timestamp is the time of the return, not the time at which the handling
  began.
\<close>

theorem setProcessing_stamps:
  "isProcessing (setProcessing wd h uid False) uid = False
   \<and> (\<exists>pm. processing (setProcessing wd h uid False) = Some pm \<and> pm uid = Some False)
   \<and> (\<exists>lm. lastMessageTime (setProcessing wd h uid False) = Some lm \<and> lm uid = Some (now wd))
   \<and> isProcessing (setProcessing wd h uid True) uid = True
   \<and> lastMessageTime (setProcessing wd h uid True) = lastMessageTime h
   \<and> (m_Text msg \<noteq> [] \<and> \<not> HasPrefix (m_Text msg) ''/'' \<and> m_From msg = Some u
        \<and> mu (wizardManager h) = newRWMutex \<and> sessions (wizardManager h) (u_ID u) = None
        \<and> checkRateLimit wd h (u_ID u) \<and> \<not> isProcessing h (u_ID u)
        \<and> handleMessage e wd h msg = Inr (wd', h', err)
      \<longrightarrow> \<not> isProcessing h' (u_ID u)
          \<and> (\<exists>lm. lastMessageTime h' = Some lm \<and> lm (u_ID u) = Some (now wd')))"
proof -
  have a: "isProcessing (setProcessing w k i False) i = False
   \<and> (\<exists>pm. processing (setProcessing w k i False) = Some pm \<and> pm i = Some False)
   \<and> (\<exists>lm. lastMessageTime (setProcessing w k i False) = Some lm \<and> lm i = Some (now w))
   \<and> isProcessing (setProcessing w k i True) i = True
   \<and> lastMessageTime (setProcessing w k i True) = lastMessageTime k" for w k i
    by (simp add: setProcessing_def isProcessing_def Let_def split: option.splits)
  have b: "\<not> isProcessing h' (u_ID u)
          \<and> (\<exists>lm. lastMessageTime h' = Some lm \<and> lm (u_ID u) = Some (now wd'))"
    if p: "m_Text msg \<noteq> []" "\<not> HasPrefix (m_Text msg) ''/''" "m_From msg = Some u"
      "mu (wizardManager h) = newRWMutex" "sessions (wizardManager h) (u_ID u) = None"
      "checkRateLimit wd h (u_ID u)" "\<not> isProcessing h (u_ID u)"
      and r: "handleMessage e wd h msg = Inr (wd', h', err)"
  proof -
    from r obtain h3 where "h' = setProcessing wd' h3 (u_ID u) False"
      unfolding handleMessage_chat_path [OF p] by (auto simp: bindF_eq_Inr)
    with a [of wd' h3 "u_ID u"] show ?thesis by simp
  qed
  from a [of wd h uid] b show ?thesis by blast
qed

theorem setProcessing_stamps_witness:
  "\<exists>wd' h' err lm. handleMessage echoEnv startWorld startHandler (textMessage 7 ''hello'')
                      = Inr (wd', h', err)
      \<and> \<not> isProcessing h' 7 \<and> lastMessageTime h' = Some lm \<and> lm 7 = Some (now wd')"
proof -
  have p: "m_Text (textMessage 7 ''hello'') \<noteq> []"
    "\<not> HasPrefix (m_Text (textMessage 7 ''hello'')) ''/''"
    "m_From (textMessage 7 ''hello'') = Some \<lparr>u_ID = 7, u_Username = ''user''\<rparr>"
    "mu (wizardManager startHandler) = newRWMutex"
    "sessions (wizardManager startHandler) (u_ID \<lparr>u_ID = 7, u_Username = ''user''\<rparr>) = None"
    "checkRateLimit startWorld startHandler (u_ID \<lparr>u_ID = 7, u_Username = ''user''\<rparr>)"
    "\<not> isProcessing startHandler (u_ID \<lparr>u_ID = 7, u_Username = ''user''\<rparr>)"
    by (simp_all add: textMessage_def HasPrefix_def startHandler_def New_def NewManager_def
        checkRateLimit_def isProcessing_def)
  have "MaxMessageLength (config (setProcessing startWorld startHandler 7 True)) \<ge> 3"
    by (simp add: setProcessing_def startHandler_def New_def defaultConfig_def Let_def)
  from chatFlow_ok [OF this, of "textMessage 7 ''hello''" "\<lparr>c_ID = 7\<rparr>" echoEnv startWorld 7]
  obtain wd1 h3 err where
    "chatFlow echoEnv startWorld (setProcessing startWorld startHandler 7 True)
       (textMessage 7 ''hello'') 7 = Inr (wd1, h3, err)"
    by (auto simp: textMessage_def)
  then have r: "handleMessage echoEnv startWorld startHandler (textMessage 7 ''hello'')
                  = Inr (wd1, setProcessing wd1 h3 7 False, err)"
    unfolding handleMessage_chat_path [OF p] by simp
  from setProcessing_stamps [where wd = startWorld and h = startHandler and uid = 7
      and msg = "textMessage 7 ''hello''" and u = "\<lparr>u_ID = 7, u_Username = ''user''\<rparr>"
      and e = echoEnv and wd' = wd1 and h' = "setProcessing wd1 h3 7 False" and err = err] p r
  show ?thesis by auto
qed


subsection \<open>The rate limiter\<close>

text \<open>
  Claim C5.  \<open>checkRateLimit\<close> is true for a user without a recorded timestamp (also
  when the map is \<open>nil\<close>); for a user with recorded timestamp \<open>t\<close> it is true exactly
  when \<open>time.Since(t)\<close> is at least the threshold, and \<open>time.Since(t)\<close> is the
  difference of the clock and \<open>t\<close> as long as that fits a \<open>Duration\<close>.
  \<open>updateRateLimit\<close> stores the current time for the user.  \<open>checkRateLimit\<close> only
  reads; and when \<open>handleMessage\<close> finds a free-text message of a user without a wizard
  session disallowed, it returns the handler exactly as it was (so no per-user state has
  changed), issues no completion request and sends the notice to the user.
\<close>

theorem rate_limit:
  "checkRateLimit wd (h\<lparr>lastMessageTime := None\<rparr>) uid
   \<and> (m uid = None \<longrightarrow> checkRateLimit wd (h\<lparr>lastMessageTime := Some m\<rparr>) uid)
   \<and> (m uid = Some t \<longrightarrow>
        checkRateLimit wd (h\<lparr>lastMessageTime := Some m\<rparr>) uid
          = (rateLimit h \<le> time_Since (now wd) t))
   \<and> (minInt64 \<le> now wd - t \<and> now wd - t \<le> maxInt64 \<longrightarrow> time_Since (now wd) t = now wd - t)
   \<and> updateRateLimit wd (h\<lparr>lastMessageTime := Some m\<rparr>) uid
        = Inr (h\<lparr>lastMessageTime := Some (m(uid \<mapsto> now wd))\<rparr>)
   \<and> (m_Text msg \<noteq> [] \<and> \<not> HasPrefix (m_Text msg) ''/'' \<and> m_From msg = Some u
        \<and> m_Chat msg = Some ch \<and> mu (wizardManager h) = newRWMutex
        \<and> sessions (wizardManager h) (u_ID u) = None
        \<and> int (length ''Please wait a moment before sending another message.'')
             \<le> MaxMessageLength (config h)
        \<and> \<not> checkRateLimit wd h (u_ID u)
      \<longrightarrow> (\<exists>wd'. handleMessage e wd h msg = Inr (wd', h, None)
             \<and> requests wd' = requests wd
             \<and> map sm_Text (sent wd') = map sm_Text (sent wd) @
                  [''Please wait a moment before sending another message.'']))"
proof -
  have a: "checkRateLimit wd (h\<lparr>lastMessageTime := None\<rparr>) uid"
    and b: "m uid = None \<longrightarrow> checkRateLimit wd (h\<lparr>lastMessageTime := Some m\<rparr>) uid"
    and c: "m uid = Some t \<longrightarrow>
        checkRateLimit wd (h\<lparr>lastMessageTime := Some m\<rparr>) uid
          = (rateLimit h \<le> time_Since (now wd) t)"
    by (simp_all add: checkRateLimit_def)
  have d: "minInt64 \<le> now wd - t \<and> now wd - t \<le> maxInt64 \<longrightarrow> time_Since (now wd) t = now wd - t"
    by (simp add: time_Since_def time_Sub_def Let_def)
  have f: "updateRateLimit wd (h\<lparr>lastMessageTime := Some m\<rparr>) uid
        = Inr (h\<lparr>lastMessageTime := Some (m(uid \<mapsto> now wd))\<rparr>)"
    by (simp add: updateRateLimit_def)
  have g: "\<exists>wd'. handleMessage e wd h msg = Inr (wd', h, None)
             \<and> requests wd' = requests wd
             \<and> map sm_Text (sent wd') = map sm_Text (sent wd) @
                  [''Please wait a moment before sending another message.'']"
    if tx: "m_Text msg \<noteq> []" "\<not> HasPrefix (m_Text msg) ''/''"
      and who: "m_From msg = Some u" "m_Chat msg = Some ch"
      and free: "mu (wizardManager h) = newRWMutex"
      and nowiz: "sessions (wizardManager h) (u_ID u) = None"
      and len: "int (length ''Please wait a moment before sending another message.'')
             \<le> MaxMessageLength (config h)"
      and no: "\<not> checkRateLimit wd h (u_ID u)"
  proof -
    have js: "jsonString ''Please wait a moment before sending another message.''
                = ''Please wait a moment before sending another message.''"
      by (simp add: utf8_defs)
    from len have "MaxMessageLength (config h) \<ge> 3" by simp
    from sendMessage_sent [OF this, of e wd "c_ID ch"
        "''Please wait a moment before sending another message.''"] len
    obtain wd' r where s: "sendMessage e wd h (c_ID ch)
        ''Please wait a moment before sending another message.'' = Inr (wd', r)"
      "requests wd' = requests wd"
      "map sm_Text (sent wd') = map sm_Text (sent wd) @
                  [''Please wait a moment before sending another message.'']"
      unfolding js by blast
    have h: "h\<lparr>wizardManager := wizardManager h\<rparr> = h" by simp
    show ?thesis
      using tx who no s
      by (simp add: handleMessage_def msgFromID_def msgChatID_def GetWizard_none [OF free nowiz] h)
  qed
  from a b c d f g show ?thesis by blast
qed

theorem rate_limit_witness:
  "\<not> checkRateLimit (startWorld\<lparr>now := 500000000\<rparr>)
        (startHandler\<lparr>lastMessageTime := Some [7 \<mapsto> 0]\<rparr>) 7
   \<and> checkRateLimit (startWorld\<lparr>now := 1000000000\<rparr>)
        (startHandler\<lparr>lastMessageTime := Some [7 \<mapsto> 0]\<rparr>) 7
   \<and> checkRateLimit (startWorld\<lparr>now := 500000000\<rparr>)
        (startHandler\<lparr>lastMessageTime := Some [7 \<mapsto> 0]\<rparr>) 8
   \<and> (\<exists>wd'. handleMessage echoEnv (startWorld\<lparr>now := 500000000\<rparr>)
                (startHandler\<lparr>lastMessageTime := Some [7 \<mapsto> 0]\<rparr>) (textMessage 7 ''hello'')
              = Inr (wd', startHandler\<lparr>lastMessageTime := Some [7 \<mapsto> 0]\<rparr>, None)
            \<and> requests wd' = []
            \<and> map sm_Text (sent wd') = [''Please wait a moment before sending another message.''])"
proof -
  let ?h = "startHandler\<lparr>lastMessageTime := Some [7 \<mapsto> 0]\<rparr>"
  have h: "?h\<lparr>lastMessageTime := Some [7 \<mapsto> 0]\<rparr> = ?h" by simp
  have r: "rateLimit ?h = 1000000000"
    by (simp add: startHandler_def New_def Second_def)
  have m: "mu (wizardManager startHandler) = newRWMutex"
    "sessions (wizardManager startHandler) 7 = None"
    "MaxMessageLength (config startHandler) = 4096"
    by (simp_all add: startHandler_def New_def NewManager_def defaultConfig_def)
  have w: "requests startWorld = []" "sent startWorld = []"
    by (simp_all add: startWorld_def)
  have a: "\<not> checkRateLimit (startWorld\<lparr>now := 500000000\<rparr>) ?h 7"
    using rate_limit [of "startWorld\<lparr>now := 500000000\<rparr>" ?h 7 "[7 \<mapsto> 0]" 0]
    unfolding h
    by (simp add: r time_Since_def time_Sub_def maxInt64_def minInt64_def)
  have b: "checkRateLimit (startWorld\<lparr>now := 1000000000\<rparr>) ?h 7"
    using rate_limit [of "startWorld\<lparr>now := 1000000000\<rparr>" ?h 7 "[7 \<mapsto> 0]" 0]
    unfolding h
    by (simp add: r time_Since_def time_Sub_def maxInt64_def minInt64_def)
  have c: "checkRateLimit (startWorld\<lparr>now := 500000000\<rparr>) ?h 8"
    using rate_limit [of "startWorld\<lparr>now := 500000000\<rparr>" ?h 8 "[7 \<mapsto> 0]" 0]
    unfolding h
    by simp
  have d: "\<exists>wd'. handleMessage echoEnv (startWorld\<lparr>now := 500000000\<rparr>) ?h (textMessage 7 ''hello'')
              = Inr (wd', ?h, None)
            \<and> requests wd' = []
            \<and> map sm_Text (sent wd') = [''Please wait a moment before sending another message.'']"
    using rate_limit [of "startWorld\<lparr>now := 500000000\<rparr>" ?h 7 "[7 \<mapsto> 0]" 0
        "textMessage 7 ''hello''" "\<lparr>u_ID = 7, u_Username = ''user''\<rparr>" "\<lparr>c_ID = 7\<rparr>" echoEnv] a
    by (simp add: m w textMessage_def HasPrefix_def)
  from a b c d show ?thesis by blast
qed

subsection \<open>Requests to the completion API\<close>




subsection \<open>The conversation store\<close>

text \<open>
  Claim C8.  After any sequence of \<open>AddMessage\<close> calls on a well-formed conversation
  (the new conversation is one), \<open>GetMessages\<close> returns a slice whose elements are the
  earlier messages followed by the appended ones, in order, each with its role and its
  content.  The slice is an independent copy: it does not share its backing array with the
  conversation, making it leaves the conversation's messages as they are, a later
  \<open>AddMessage\<close> on the conversation does not change its elements, and a store into it
  does not change the conversation's messages.  After \<open>Clear\<close>, \<open>GetMessages\<close>
  returns an empty slice.
\<close>

theorem conversation_round_trip:
  assumes wf: "wfSlice wd (Messages c)"
    and adds: "addMessages wd c ms = (wd1, c1)"
    and get: "GetMessages wd1 c1 = (wd2, r)"
  shows "sliceElems wd2 r =
           sliceElems wd (Messages c) @ map (\<lambda>(role, content). mkMessage role content) ms
    \<and> disjointSlices (Messages c1) r
    \<and> sliceElems wd2 (Messages c1) = sliceElems wd1 (Messages c1)
    \<and> (\<forall>role content. sliceElems (fst (AddMessage wd2 c1 role content)) r = sliceElems wd2 r)
    \<and> (\<forall>i x wd3. storeSlice wd2 r i x = Inr wd3 \<longrightarrow>
          sliceElems wd3 (Messages c1) = sliceElems wd2 (Messages c1))
    \<and> sliceElems (fst (GetMessages wd1 (Clear c1))) (snd (GetMessages wd1 (Clear c1))) = []"
proof -
  from addMessages_elems [OF wf adds]
  have e1: "sliceElems wd1 (Messages c1) =
           sliceElems wd (Messages c) @ map (\<lambda>(role, content). mkMessage role content) ms"
    and wf1: "wfSlice wd1 (Messages c1)" by simp_all
  note g = GetMessages_copy [OF wf1 get]
  have a: "sliceElems wd2 r =
           sliceElems wd (Messages c) @ map (\<lambda>(role, content). mkMessage role content) ms"
    using g(1) e1 by simp
  have b: "sliceElems (fst (AddMessage wd2 c1 role content)) r = sliceElems wd2 r"
    for role content
    using appendSlice_other(1) [OF g(4) g(3) g(5), of "mkMessage role content"]
    by (cases "appendSlice wd2 (Messages c1) (mkMessage role content)")
      (simp add: AddMessage_def mkMessage_def)
  have d: "sliceElems wd3 (Messages c1) = sliceElems wd2 (Messages c1)"
    if "storeSlice wd2 r i x = Inr wd3" for i x wd3
    using storeSlice_other [OF g(4) _ that] g(5)
    by (auto simp: disjointSlices_def split: slice.splits)
  from a g(5) g(2) b d GetMessages_Clear show ?thesis by blast
qed

theorem conversation_round_trip_witness:
  "wfSlice startWorld (Messages newConversation)
   \<and> (case addMessages startWorld newConversation
             [(''user'', ''Hello''), (''assistant'', ''Hi there!'')] of
        (wd1, c1) \<Rightarrow>
          (case GetMessages wd1 c1 of
             (wd2, r) \<Rightarrow>
               sliceElems wd2 r = [mkMessage ''user'' ''Hello'', mkMessage ''assistant'' ''Hi there!'']
               \<and> sliceElems (fst (AddMessage wd2 c1 ''user'' ''more'')) r
                    = [mkMessage ''user'' ''Hello'', mkMessage ''assistant'' ''Hi there!'']))"
proof -
  have wf: "wfSlice startWorld (Messages newConversation)"
    by (simp add: wfSlice_def newConversation_def)
  obtain wd1 c1 where a: "addMessages startWorld newConversation
             [(''user'', ''Hello''), (''assistant'', ''Hi there!'')] = (wd1, c1)"
    by (cases "addMessages startWorld newConversation
             [(''user'', ''Hello''), (''assistant'', ''Hi there!'')]")
  obtain wd2 r where g: "GetMessages wd1 c1 = (wd2, r)"
    by (cases "GetMessages wd1 c1")
  have e0: "sliceElems startWorld (Messages newConversation) = []"
    by (simp add: sliceElems_def newConversation_def)
  from conversation_round_trip [OF wf a g]
  have x: "sliceElems wd2 r = [mkMessage ''user'' ''Hello'', mkMessage ''assistant'' ''Hi there!'']
      \<and> sliceElems (fst (AddMessage wd2 c1 ''user'' ''more'')) r
           = [mkMessage ''user'' ''Hello'', mkMessage ''assistant'' ''Hi there!'']"
    by (simp add: e0)
  show ?thesis
    using wf x by (simp add: a g del: addMessages.simps)
qed

subsection \<open>Content types without a step list\<close>




end
